(* ===== verification/Prelude.thy ===== *)
theory Prelude
  imports Main
begin

text \<open>
  Shared vocabulary of the development: the identifier types, the JavaScript
  built-ins the controllers call (truthiness of request fields, \<open>startsWith\<close>,
  \<open>split\<close>, case-insensitive matching) written as executable HOL functions, and
  generic lemmas on lists keyed by an identifier, which is how the document
  store's collections are modelled.  The collections of lemmas declared here
  (\<open>js_simps\<close>, \<open>coll_simps\<close>) carry the component proofs.
\<close>

named_theorems js_simps "evaluation rules for the JavaScript built-ins"
named_theorems coll_simps "rules for collections of documents keyed by an identifier"

section \<open>Identifiers\<close>

text \<open>
  MongoDB identifiers reach the code as strings: \<open>req.user.id\<close> comes from the
  token, \<open>req.params.id\<close> from the route, \<open>task.createdBy.toString()\<close> is
  compared with them.  Both kinds are therefore strings here.
\<close>

type_synonym uid = string
type_synonym tid = string

section \<open>JavaScript built-ins\<close>

text \<open>
  A field of a JSON request body is absent (\<open>undefined\<close>) or a string.  In
  JavaScript \<open>if (x)\<close> is false for \<open>undefined\<close> and for the empty string.
\<close>

fun truthy :: "string option \<Rightarrow> bool" where
  "truthy None = False"
| "truthy (Some s) = (s \<noteq> [])"

text \<open>An array is truthy whenever it is present, even when it is empty.\<close>

fun present :: "'a option \<Rightarrow> bool" where
  "present None = False"
| "present (Some _) = True"

text \<open>
  \<open>x || ""\<close> on an optional string: the string itself when it is truthy, and
  \<open>""\<close> otherwise, which for the empty string is again the string itself.
\<close>

definition or_empty :: "string option \<Rightarrow> string" where
  "or_empty x = (case x of Some s \<Rightarrow> s | None \<Rightarrow> [])"

text \<open>\<open>s.startsWith(p)\<close>.\<close>

definition starts_with :: "string \<Rightarrow> string \<Rightarrow> bool" where
  "starts_with p s = (take (length p) s = p)"

text \<open>
  \<open>s.split(c)\<close> for a one-character separator: the pieces between separators,
  empty pieces included, so \<open>"a b".split(" ") = ["a","b"]\<close> and
  \<open>"a ".split(" ") = ["a",""]\<close>.
\<close>

fun js_split :: "char \<Rightarrow> string \<Rightarrow> string list" where
  "js_split c [] = [[]]"
| "js_split c (x # xs) =
     (if x = c then [] # js_split c xs
      else (case js_split c xs of p # ps \<Rightarrow> (x # p) # ps | [] \<Rightarrow> [[x]]))"

text \<open>\<open>arr[i]\<close>: \<open>undefined\<close> out of range.\<close>

definition js_index :: "'a list \<Rightarrow> nat \<Rightarrow> 'a option" where
  "js_index xs i = (if i < length xs then Some (xs ! i) else None)"

text \<open>ASCII case folding, as the \<open>i\<close> flag of a regular expression applies it.\<close>

definition lower_char :: "char \<Rightarrow> char" where
  "lower_char c =
     (let n = (of_char c :: nat) in if 65 \<le> n \<and> n \<le> 90 then char_of (n + 32) else c)"

definition lower :: "string \<Rightarrow> string" where
  "lower s = map lower_char s"

text \<open>Case-insensitive substring test.\<close>

definition ci_contains :: "string \<Rightarrow> string \<Rightarrow> bool" where
  "ci_contains kw s = (\<exists>xs ys. lower s = xs @ lower kw @ ys)"

fun is_prefix_of :: "string \<Rightarrow> string \<Rightarrow> bool" where
  "is_prefix_of [] _ = True"
| "is_prefix_of (x # xs) [] = False"
| "is_prefix_of (x # xs) (y # ys) = (x = y \<and> is_prefix_of xs ys)"

fun contains_at_some :: "string \<Rightarrow> string \<Rightarrow> bool" where
  "contains_at_some p [] = is_prefix_of p []"
| "contains_at_some p (y # ys) = (is_prefix_of p (y # ys) \<or> contains_at_some p ys)"

section \<open>Generic lemmas\<close>

subsection \<open>JavaScript built-ins\<close>

lemma truthy_iff [js_simps]: "truthy x \<longleftrightarrow> (\<exists>s. x = Some s \<and> s \<noteq> [])"
  by (cases x) auto

lemma present_iff [js_simps]: "present x \<longleftrightarrow> x \<noteq> None"
  by (cases x) auto

lemma or_empty_simps [simp]: "or_empty None = []" "or_empty (Some s) = s"
  by (simp_all add: or_empty_def)

lemma is_prefix_of_iff: "is_prefix_of p s \<longleftrightarrow> (\<exists>ys. s = p @ ys)"
  by (induction p s rule: is_prefix_of.induct) auto

lemma contains_at_some_iff: "contains_at_some p s \<longleftrightarrow> (\<exists>xs ys. s = xs @ p @ ys)"
proof (induction s)
  case Nil
  then show ?case by (simp add: is_prefix_of_iff)
next
  case (Cons y ys)
  have "(\<exists>xs zs. y # ys = xs @ p @ zs) \<longleftrightarrow>
        (\<exists>zs. y # ys = p @ zs) \<or> (\<exists>xs zs. ys = xs @ p @ zs)"
    by (auto simp: Cons_eq_append_conv)
  with Cons.IH show ?case by (simp add: is_prefix_of_iff)
qed

text \<open>\<open>ci_contains\<close> quantifies over lists; this is the equation that runs it.\<close>

lemma ci_contains_code [code, js_simps]:
  "ci_contains kw s = contains_at_some (lower kw) (lower s)"
  by (simp add: ci_contains_def contains_at_some_iff)

lemma ci_contains_empty [simp]: "ci_contains [] s"
  unfolding ci_contains_def by (rule exI [of _ "lower s"], rule exI [of _ "[]"]) (simp add: lower_def)

lemma starts_with_iff: "starts_with p s \<longleftrightarrow> (\<exists>r. s = p @ r)"
  by (auto simp: starts_with_def) (metis append_take_drop_id)

lemma js_split_nonempty [simp]: "js_split c s \<noteq> []"
  by (induction s) (auto split: list.split)

lemma js_split_append_sep:
  "c \<notin> set p \<Longrightarrow> js_split c (p @ c # r) = p # js_split c r"
  by (induction p) auto

text \<open>\<open>"Bearer tok".split(" ")[1] = tok\<close> when the token has no space.\<close>

lemma js_split_no_sep: "c \<notin> set p \<Longrightarrow> js_split c p = [p]"
  by (induction p) auto

subsection \<open>Collections keyed by an identifier\<close>

lemma find_key_Some [coll_simps]:
  "List.find (\<lambda>x. key x = k) xs = Some t \<Longrightarrow> t \<in> set xs \<and> key t = k"
  by (auto simp: find_Some_iff)

lemma find_key_distinct [coll_simps]:
  "distinct (map key xs) \<Longrightarrow> t \<in> set xs \<Longrightarrow>
   List.find (\<lambda>x. key x = key t) xs = Some t"
proof (induction xs)
  case Nil
  then show ?case by simp
next
  case (Cons y ys)
  then show ?case by (cases "key y = key t") (auto simp: image_iff)
qed

lemma map_replace_key [coll_simps]:
  "key t = k \<Longrightarrow>
   map (key \<circ> (\<lambda>x. if key x = k then t else x)) xs = map key xs"
  by (induction xs) auto

lemma map_replace_absent [coll_simps]:
  "k \<notin> key ` set xs \<Longrightarrow> map (\<lambda>x. if key x = k then t else x) xs = xs"
  by (induction xs) auto

lemma list_all_filter [coll_simps]: "list_all P xs \<Longrightarrow> list_all P (filter Q xs)"
  by (induction xs) auto

lemma list_all_replace [coll_simps]:
  "list_all P xs \<Longrightarrow> P t \<Longrightarrow> list_all P (map (\<lambda>x. if k x then t else x) xs)"
  by (induction xs) auto

lemma length_filter_split:
  "length (filter P xs) =
   length (filter (\<lambda>x. P x \<and> Q x) xs) + length (filter (\<lambda>x. P x \<and> \<not> Q x) xs)"
  by (induction xs) auto

lemma distinct_map_filter [coll_simps]:
  "distinct (map key xs) \<Longrightarrow> distinct (map key (filter P xs))"
  by (induction xs) auto

end
