(* ===== verification/Store.thy ===== *)
theory Store
  imports Prelude
begin

text \<open>
  The persistent document store the controllers call through Mongoose
  (\<open>Task.find\<close>, \<open>Task.countDocuments\<close>, \<open>Task.findById\<close>, \<open>Task.create\<close>,
  \<open>task.save()\<close>, \<open>Task.findByIdAndDelete\<close>, \<open>User.find\<close>, \<open>User.findOne\<close>,
  \<open>User.create\<close>).  The Mongoose schemas are not among the repository's sources,
  so the data model follows the specification (its section 3 and the repository
  contract of section 6): a task has the fields of the spec, its status is one
  of three values, an identifier is a 24-digit hexadecimal ObjectId assigned by
  the store, and a document is validated when it is written.  A collection is a
  list in insertion order, which is the order \<open>find\<close> returns.
  The status list \<open>allowedStatuses\<close> and the identifier pattern
  \<open>/^[0-9a-fA-F]{24}$/\<close> are the controller's own (task.controller.js,
  lines 183 and 61).
\<close>

section \<open>Task status\<close>

datatype status = Pending | InProgress | Completed

fun status_str :: "status \<Rightarrow> string" where
  "status_str Pending = ''pending''"
| "status_str InProgress = ''in-progress''"
| "status_str Completed = ''completed''"

definition allowed_statuses :: "string list" where
  "allowed_statuses = [''pending'', ''in-progress'', ''completed'']"

text \<open>The enumeration cast of the schema: a string is stored only if it names a status.\<close>

definition status_of_string :: "string \<Rightarrow> status option" where
  "status_of_string s =
     (if s = ''pending'' then Some Pending
      else if s = ''in-progress'' then Some InProgress
      else if s = ''completed'' then Some Completed
      else None)"

section \<open>Object identifiers\<close>

definition is_hex_char :: "char \<Rightarrow> bool" where
  "is_hex_char c =
     (let n = (of_char c :: nat) in
        (48 \<le> n \<and> n \<le> 57) \<or> (97 \<le> n \<and> n \<le> 102) \<or> (65 \<le> n \<and> n \<le> 70))"

text \<open>\<open>/^[0-9a-fA-F]{24}$/\<close>, the test \<open>CreateTask\<close> applies to \<open>assignedTo\<close>.\<close>

definition is_object_id :: "string \<Rightarrow> bool" where
  "is_object_id s = (length s = 24 \<and> list_all is_hex_char s)"

definition hex_digit :: "nat \<Rightarrow> char" where
  "hex_digit d = (if d < 10 then char_of (48 + d) else char_of (87 + d))"

fun hex_fixed :: "nat \<Rightarrow> nat \<Rightarrow> string" where
  "hex_fixed 0 n = []"
| "hex_fixed (Suc w) n = hex_fixed w (n div 16) @ [hex_digit (n mod 16)]"

text \<open>The store's identifier generator: the \<open>n\<close>-th identifier, 24 hex digits.\<close>

definition oid_of_nat :: "nat \<Rightarrow> tid" where
  "oid_of_nat n = hex_fixed 24 n"

definition hex_val :: "char \<Rightarrow> nat" where
  "hex_val c =
     (let n = (of_char c :: nat) in
        if n \<le> 57 then n - 48 else if n \<le> 70 then n - 55 else n - 87)"

definition nat_of_hex :: "string \<Rightarrow> nat" where
  "nat_of_hex s = foldl (\<lambda>acc c. 16 * acc + hex_val c) 0 s"

section \<open>Documents\<close>

record task =
  t_id :: tid
  title :: string
  description :: "string option"
  status :: status
  priority :: "string option"
  dueDate :: "string option"
  tags :: "string list option"
  assignedTo :: "uid option"
  createdBy :: uid
  createdAt :: nat
  updatedAt :: nat

record user =
  u_id :: uid
  fullname :: string
  email :: string
  phoneNumber :: string
  password :: string
  role :: string
  profile :: "string option"

text \<open>
  The state the handlers act on: the two collections, the identifier
  generator's counter and the clock that \<open>new Date()\<close> reads.
\<close>

record db =
  tasks :: "task list"
  users :: "user list"
  id_seq :: nat
  clock :: nat

text \<open>The fields \<open>Task.create\<close> receives in \<open>CreateTask\<close>.\<close>

record new_task =
  n_title :: "string option"
  n_description :: "string option"
  n_status :: "string option"
  n_priority :: "string option"
  n_dueDate :: "string option"
  n_assignedTo :: "string option"
  n_createdBy :: uid

datatype store_error =
    ValidationFailed string
  | DuplicateKey
  | DocumentNotFound

text \<open>The \<open>message\<close> of the error a rejected write throws.\<close>

fun store_error_msg :: "store_error \<Rightarrow> string" where
  "store_error_msg (ValidationFailed p) = ''Task validation failed: '' @ p"
| "store_error_msg DuplicateKey = ''E11000 duplicate key error''"
| "store_error_msg DocumentNotFound = ''No document found''"

section \<open>Repository operations\<close>

definition find_by_id :: "tid \<Rightarrow> task list \<Rightarrow> task option" where
  "find_by_id i ts = List.find (\<lambda>t. t_id t = i) ts"

definition find_tasks :: "(task \<Rightarrow> bool) \<Rightarrow> task list \<Rightarrow> task list" where
  "find_tasks p ts = filter p ts"

definition count_documents :: "(task \<Rightarrow> bool) \<Rightarrow> task list \<Rightarrow> nat" where
  "count_documents p ts = length (filter p ts)"

text \<open>
  The cast of \<open>dueDate\<close> to the schema's Date type (specification section 3:
  a timestamp).  Mongoose casts a string with \<open>new Date(value)\<close> and refuses
  it when the result is an invalid date; the empty string is cast to
  \<open>null\<close>.  Of the formats JavaScript's date parser accepts, the model
  recognises the ISO 8601 forms a JSON client sends: \<open>YYYY-MM-DD\<close>, optionally
  followed by \<open>THH:MM\<close>, \<open>:SS\<close>, a fraction \<open>.sss\<close> and \<open>Z\<close>.
\<close>

definition is_digit :: "char \<Rightarrow> bool" where
  "is_digit c = (let n = (of_char c :: nat) in 48 \<le> n \<and> n \<le> 57)"

definition digits_val :: "string \<Rightarrow> nat" where
  "digits_val ds = foldl (\<lambda>acc c. 10 * acc + (of_char c - 48)) 0 ds"

text \<open>A field of exactly \<open>w\<close> digits whose value lies in \<open>[lo, hi]\<close>.\<close>

definition digit_field :: "nat \<Rightarrow> nat \<Rightarrow> nat \<Rightarrow> string \<Rightarrow> bool" where
  "digit_field w lo hi ds =
     (length ds = w \<and> list_all is_digit ds \<and> lo \<le> digits_val ds \<and> digits_val ds \<le> hi)"

definition is_seconds :: "string \<Rightarrow> bool" where
  "is_seconds u =
     (u = [] \<or>
      (hd u = CHR '':'' \<and> digit_field 2 0 59 (take 2 (drop 1 u))
       \<and> (let f = drop 3 u in f = [] \<or> (hd f = CHR ''.'' \<and> tl f \<noteq> [] \<and> list_all is_digit (tl f)))))"

definition is_time :: "string \<Rightarrow> bool" where
  "is_time t =
     (t = [] \<or>
      (hd t = CHR ''T'' \<and> digit_field 2 0 23 (take 2 (drop 1 t)) \<and> length t \<ge> 6 \<and> t ! 3 = CHR '':''
       \<and> digit_field 2 0 59 (take 2 (drop 4 t))
       \<and> (let u = drop 6 t in is_seconds (if u \<noteq> [] \<and> last u = CHR ''Z'' then butlast u else u))))"

definition is_date :: "string \<Rightarrow> bool" where
  "is_date d =
     (length d \<ge> 10 \<and> digit_field 4 0 9999 (take 4 d) \<and> d ! 4 = CHR ''-''
      \<and> digit_field 2 1 12 (take 2 (drop 5 d)) \<and> d ! 7 = CHR ''-''
      \<and> digit_field 2 1 31 (take 2 (drop 8 d)) \<and> is_time (drop 10 d))"

definition date_ok :: "string option \<Rightarrow> bool" where
  "date_ok d = (case d of None \<Rightarrow> True | Some x \<Rightarrow> x = [] \<or> is_date x)"

text \<open>Schema validation of a task document: the first failing path, if any.\<close>

definition validate_task :: "task \<Rightarrow> store_error option" where
  "validate_task t =
     (if title t = [] then Some (ValidationFailed ''title'')
      else if \<not> (case assignedTo t of None \<Rightarrow> True | Some a \<Rightarrow> is_object_id a) then Some (ValidationFailed ''assignedTo'')
      else if \<not> is_object_id (createdBy t) then Some (ValidationFailed ''createdBy'')
      else if \<not> date_ok (dueDate t) then Some (ValidationFailed ''dueDate'')
      else None)"

definition task_valid :: "task \<Rightarrow> bool" where
  "task_valid t = (validate_task t = None)"

text \<open>
  Casting the fields of \<open>Task.create\<close> into a document: an absent status takes the
  schema default \<open>pending\<close>, a present one must name a status.
\<close>

definition cast_new_task :: "tid \<Rightarrow> nat \<Rightarrow> new_task \<Rightarrow> store_error + task" where
  "cast_new_task i now nt =
     (case (case n_status nt of None \<Rightarrow> Some Pending | Some s \<Rightarrow> status_of_string s) of
        None \<Rightarrow> Inl (ValidationFailed ''status'')
      | Some st \<Rightarrow>
          (let t = \<lparr>t_id = i, title = or_empty (n_title nt), description = n_description nt,
                    status = st, priority = n_priority nt, dueDate = n_dueDate nt,
                    tags = None, assignedTo = n_assignedTo nt, createdBy = n_createdBy nt,
                    createdAt = now, updatedAt = now\<rparr>
           in case validate_task t of Some e \<Rightarrow> Inl e | None \<Rightarrow> Inr t))"

text \<open>\<open>Task.create\<close>: a fresh identifier, timestamps from the clock, appended.\<close>

definition task_insert :: "new_task \<Rightarrow> db \<Rightarrow> store_error + (task \<times> db)" where
  "task_insert nt s =
     (let i = oid_of_nat (id_seq s) in
      case cast_new_task i (clock s) nt of
        Inl e \<Rightarrow> Inl e
      | Inr t \<Rightarrow>
          (if find_by_id i (tasks s) \<noteq> None then Inl DuplicateKey
           else Inr (t, s\<lparr>tasks := tasks s @ [t], id_seq := Suc (id_seq s)\<rparr>)))"

text \<open>\<open>task.save()\<close> on a document read earlier: validated, then written in place.\<close>

definition task_save :: "task \<Rightarrow> db \<Rightarrow> store_error + db" where
  "task_save t s =
     (case validate_task t of
        Some e \<Rightarrow> Inl e
      | None \<Rightarrow>
          (if find_by_id (t_id t) (tasks s) = None then Inl DocumentNotFound
           else Inr (s\<lparr>tasks := map (\<lambda>x. if t_id x = t_id t then t else x) (tasks s)\<rparr>)))"

definition find_by_id_and_delete :: "tid \<Rightarrow> db \<Rightarrow> task option \<times> db" where
  "find_by_id_and_delete i s =
     (case find_by_id i (tasks s) of
        None \<Rightarrow> (None, s)
      | Some t \<Rightarrow> (Some t, s\<lparr>tasks := filter (\<lambda>x. t_id x \<noteq> i) (tasks s)\<rparr>))"

section \<open>The user collection\<close>

text \<open>
  The fields \<open>register\<close> passes to \<open>User.create\<close>.  The schema gives a new
  user the role \<open>user\<close> and an empty profile; the email is unique
  (specification, section 3), so a second document with the same email is
  refused by the index as a duplicate key.
\<close>

record new_user =
  nu_fullname :: string
  nu_email :: string
  nu_phoneNumber :: string
  nu_password :: string

definition find_user_by_email :: "string \<Rightarrow> user list \<Rightarrow> user option" where
  "find_user_by_email e us = List.find (\<lambda>u. email u = e) us"

definition validate_user :: "user \<Rightarrow> store_error option" where
  "validate_user u =
     (if \<not> is_object_id (u_id u) then Some (ValidationFailed ''_id'')
      else if fullname u = [] then Some (ValidationFailed ''fullname'')
      else if email u = [] then Some (ValidationFailed ''email'')
      else if phoneNumber u = [] then Some (ValidationFailed ''phoneNumber'')
      else if password u = [] then Some (ValidationFailed ''password'')
      else if role u \<noteq> ''admin'' \<and> role u \<noteq> ''user'' then Some (ValidationFailed ''role'')
      else None)"

definition user_valid :: "user \<Rightarrow> bool" where
  "user_valid u = (validate_user u = None)"

definition user_insert :: "new_user \<Rightarrow> db \<Rightarrow> store_error + (user \<times> db)" where
  "user_insert nu s =
     (let u = \<lparr>u_id = oid_of_nat (id_seq s), fullname = nu_fullname nu, email = nu_email nu,
               phoneNumber = nu_phoneNumber nu, password = nu_password nu, role = ''user'',
               profile = None\<rparr>
      in case validate_user u of
           Some e \<Rightarrow> Inl e
         | None \<Rightarrow>
             (if find_user_by_email (email u) (users s) \<noteq> None
                 \<or> List.find (\<lambda>x. u_id x = u_id u) (users s) \<noteq> None
              then Inl DuplicateKey
              else Inr (u, s\<lparr>users := users s @ [u], id_seq := Suc (id_seq s)\<rparr>)))"

section \<open>Well-formedness of the store\<close>

text \<open>
  Identifiers are unique (MongoDB's unique index on \<open>_id\<close>) and every stored
  task passed validation.
\<close>

definition store_inv :: "db \<Rightarrow> bool" where
  "store_inv s = (distinct (map t_id (tasks s)) \<and> list_all task_valid (tasks s))"

text \<open>The unique indexes of the user collection, and every stored user valid.\<close>

definition users_inv :: "db \<Rightarrow> bool" where
  "users_inv s =
     (distinct (map email (users s)) \<and> distinct (map u_id (users s)) \<and> list_all user_valid (users s))"

section \<open>Lemmas\<close>

subsection \<open>Status strings\<close>

lemma date_ok_simps [simp]: "date_ok None" "date_ok (Some [])"
  by (simp_all add: date_ok_def)

lemma is_date_digit: "is_date d \<Longrightarrow> list_ex is_digit d"
proof -
  assume "is_date d"
  then have l: "length (take 4 d) = 4" and a: "list_all is_digit (take 4 d)"
    by (simp_all add: is_date_def digit_field_def)
  from l have ne: "take 4 d \<noteq> []" by auto
  then have "hd (take 4 d) \<in> set d" by (meson hd_in_set in_set_takeD)
  moreover have "is_digit (hd (take 4 d))" using a ne hd_in_set [OF ne] by (simp only: list_all_iff)
  ultimately show "list_ex is_digit d" by (auto simp: list_ex_iff)
qed

lemma status_of_string_str [simp]: "status_of_string (status_str s) = Some s"
  by (cases s) (simp_all add: status_of_string_def)

lemma status_of_string_Some: "status_of_string x = Some s \<Longrightarrow> status_str s = x"
  by (auto simp: status_of_string_def split: if_splits)

lemma allowed_statuses_iff: "x \<in> set allowed_statuses \<longleftrightarrow> status_of_string x \<noteq> None"
  by (simp add: allowed_statuses_def status_of_string_def)

lemma status_str_nonempty [simp]: "status_str s \<noteq> []"
  by (cases s) simp_all

subsection \<open>Hexadecimal identifiers\<close>

lemma hex_val_digit: "d < 16 \<Longrightarrow> hex_val (hex_digit d) = d"
  by (simp add: hex_digit_def hex_val_def Let_def)

lemma is_hex_char_digit: "d < 16 \<Longrightarrow> is_hex_char (hex_digit d)"
  by (simp add: hex_digit_def is_hex_char_def Let_def)

lemma nat_of_hex_snoc: "nat_of_hex (xs @ [c]) = 16 * nat_of_hex xs + hex_val c"
  by (simp add: nat_of_hex_def)

lemma length_hex_fixed [simp]: "length (hex_fixed w n) = w"
  by (induction w arbitrary: n) simp_all

lemma hex_fixed_hex_chars: "list_all is_hex_char (hex_fixed w n)"
  by (induction w arbitrary: n) (simp_all add: is_hex_char_digit)

lemma nat_of_hex_fixed: "nat_of_hex (hex_fixed w n) = n mod 16 ^ w"
proof (induction w arbitrary: n)
  case 0
  then show ?case by (simp add: nat_of_hex_def)
next
  case (Suc w)
  have "nat_of_hex (hex_fixed (Suc w) n) = 16 * (n div 16 mod 16 ^ w) + n mod 16"
    by (simp add: nat_of_hex_snoc Suc.IH hex_val_digit)
  also have "\<dots> = n mod (16 * 16 ^ w)"
    by (simp add: mod_mult2_eq)
  finally show ?case by simp
qed

lemma is_object_id_oid [simp]: "is_object_id (oid_of_nat n)"
  by (simp add: is_object_id_def oid_of_nat_def hex_fixed_hex_chars)

lemma nat_of_hex_oid: "nat_of_hex (oid_of_nat n) = n mod 16 ^ 24"
  by (simp add: oid_of_nat_def nat_of_hex_fixed)

subsection \<open>Lookup by identifier\<close>

lemma find_by_id_Some [coll_simps]:
  "find_by_id i ts = Some t \<Longrightarrow> t \<in> set ts \<and> t_id t = i"
  unfolding find_by_id_def by (rule find_key_Some)

lemma find_by_id_member [coll_simps]:
  "distinct (map t_id ts) \<Longrightarrow> t \<in> set ts \<Longrightarrow> find_by_id (t_id t) ts = Some t"
  unfolding find_by_id_def by (rule find_key_distinct)

lemma find_by_id_None_iff [coll_simps]:
  "find_by_id i ts = None \<longleftrightarrow> i \<notin> t_id ` set ts"
  by (auto simp: find_by_id_def find_None_iff)

lemma find_by_id_append_new [coll_simps]:
  "find_by_id i ts = None \<Longrightarrow> find_by_id i (ts @ [t]) = (if t_id t = i then Some t else None)"
  by (induction ts) (auto simp: find_by_id_def split: if_splits)

lemma find_by_id_replace [coll_simps]:
  "distinct (map t_id ts) \<Longrightarrow> find_by_id (t_id t) ts \<noteq> None \<Longrightarrow>
   find_by_id i (map (\<lambda>x. if t_id x = t_id t then t else x) ts) =
   (if i = t_id t then Some t else find_by_id i ts)"
  by (induction ts) (auto simp: find_by_id_def map_replace_absent)

lemma find_by_id_filter_other [coll_simps]:
  "find_by_id i (filter (\<lambda>x. t_id x \<noteq> j) ts) = (if i = j then None else find_by_id i ts)"
  by (induction ts) (auto simp: find_by_id_def)

subsection \<open>Counting by status\<close>

lemma count_documents_by_status:
  "count_documents p ts =
     count_documents (\<lambda>t. p t \<and> status t = Pending) ts
   + count_documents (\<lambda>t. p t \<and> status t = InProgress) ts
   + count_documents (\<lambda>t. p t \<and> status t = Completed) ts"
proof (induction ts)
  case Nil
  then show ?case by (simp add: count_documents_def)
next
  case (Cons t ts)
  then show ?case by (cases "status t") (simp_all add: count_documents_def)
qed

subsection \<open>Writes keep the store well formed\<close>

lemma cast_new_task_Inr:
  "cast_new_task i now nt = Inr t \<Longrightarrow>
   task_valid t \<and> t_id t = i \<and> createdBy t = n_createdBy nt \<and> title t = or_empty (n_title nt)
   \<and> description t = n_description nt \<and> priority t = n_priority nt
   \<and> dueDate t = n_dueDate nt \<and> assignedTo t = n_assignedTo nt \<and> tags t = None
   \<and> (case n_status nt of None \<Rightarrow> status t = Pending | Some x \<Rightarrow> status_of_string x = Some (status t))
   \<and> createdAt t = now \<and> updatedAt t = now"
  by (auto simp: cast_new_task_def task_valid_def Let_def
           split: option.splits if_splits sum.splits)

lemma task_insert_Inr:
  "task_insert nt s = Inr (t, s') \<Longrightarrow>
   cast_new_task (oid_of_nat (id_seq s)) (clock s) nt = Inr t
   \<and> find_by_id (t_id t) (tasks s) = None
   \<and> s' = s\<lparr>tasks := tasks s @ [t], id_seq := Suc (id_seq s)\<rparr>"
  by (auto simp: task_insert_def Let_def dest: cast_new_task_Inr split: sum.splits if_splits)

lemma task_insert_inv:
  assumes "store_inv s" and "task_insert nt s = Inr (t, s')"
  shows "store_inv s'"
proof -
  from assms(2) have c: "cast_new_task (oid_of_nat (id_seq s)) (clock s) nt = Inr t"
    and fresh: "find_by_id (t_id t) (tasks s) = None"
    and s': "s' = s\<lparr>tasks := tasks s @ [t], id_seq := Suc (id_seq s)\<rparr>"
    by (auto dest: task_insert_Inr)
  from c have "task_valid t" by (blast dest: cast_new_task_Inr)
  with assms(1) fresh s' show ?thesis
    by (simp add: store_inv_def find_by_id_None_iff)
qed

lemma task_save_Inr:
  "task_save t s = Inr s' \<Longrightarrow>
   task_valid t \<and> find_by_id (t_id t) (tasks s) \<noteq> None
   \<and> s' = s\<lparr>tasks := map (\<lambda>x. if t_id x = t_id t then t else x) (tasks s)\<rparr>"
  by (auto simp: task_save_def task_valid_def split: option.splits if_splits)

lemma task_save_inv:
  assumes "store_inv s" and "task_save t s = Inr s'"
  shows "store_inv s'"
  using assms task_save_Inr [OF assms(2)]
  by (auto simp: store_inv_def map_replace_key list_all_replace)

lemma find_by_id_and_delete_inv:
  assumes "store_inv s" and "find_by_id_and_delete i s = (r, s')"
  shows "store_inv s'"
  using assms
  by (auto simp: find_by_id_and_delete_def store_inv_def distinct_map_filter list_all_filter
           split: option.splits)

subsection \<open>Users\<close>

lemma find_user_by_email_Some [coll_simps]:
  "find_user_by_email e us = Some u \<Longrightarrow> u \<in> set us \<and> email u = e"
  unfolding find_user_by_email_def by (rule find_key_Some)

lemma find_user_by_email_None_iff [coll_simps]:
  "find_user_by_email e us = None \<longleftrightarrow> e \<notin> email ` set us"
  by (auto simp: find_user_by_email_def find_None_iff)

lemma find_user_by_email_member:
  "distinct (map email us) \<Longrightarrow> u \<in> set us \<Longrightarrow> find_user_by_email (email u) us = Some u"
  unfolding find_user_by_email_def by (rule find_key_distinct)

lemma user_insert_Inr:
  assumes "user_insert nu s = Inr (u, s')"
  shows "u = \<lparr>u_id = oid_of_nat (id_seq s), fullname = nu_fullname nu, email = nu_email nu,
               phoneNumber = nu_phoneNumber nu, password = nu_password nu, role = ''user'',
               profile = None\<rparr>
       \<and> user_valid u \<and> email u \<notin> email ` set (users s) \<and> u_id u \<notin> u_id ` set (users s)
       \<and> s' = s\<lparr>users := users s @ [u], id_seq := Suc (id_seq s)\<rparr>"
  using assms
  by (auto simp: user_insert_def user_valid_def find_user_by_email_None_iff find_None_iff Let_def
           split: option.splits if_splits)

lemma user_insert_inv:
  assumes "users_inv s" and "user_insert nu s = Inr (u, s')"
  shows "users_inv s'"
proof -
  from user_insert_Inr [OF assms(2)]
  have "user_valid u" "email u \<notin> email ` set (users s)" "u_id u \<notin> u_id ` set (users s)"
    and s': "s' = s\<lparr>users := users s @ [u], id_seq := Suc (id_seq s)\<rparr>" by blast+
  with assms(1) show ?thesis by (simp add: users_inv_def)
qed

lemma user_insert_tasks:
  "user_insert nu s = Inr (u, s') \<Longrightarrow> tasks s' = tasks s \<and> clock s' = clock s"
  by (drule user_insert_Inr) simp

end
