(* ===== verification/Http.thy ===== *)
theory Http
  imports Store
begin

text \<open>
  What the Express handlers exchange: the authenticated caller that the
  middleware stores in \<open>req.user\<close> (isAuthenticated.js, lines 23--26), the
  request body fields the task handlers destructure, and the JSON response
  \<open>res.status(code).json({success, message, ...})\<close>.  A response is kept as
  its status code, its \<open>success\<close> flag, its \<open>message\<close> and its data; a handler
  that sends nothing (the \<open>catch\<close> of \<open>register\<close>) yields \<open>NoResponse\<close>.
  The error taxonomy of the specification (section 7) is a classification
  of status codes.
\<close>

record caller =
  c_id :: uid
  c_role :: string

text \<open>\<open>role !== "admin"\<close> compares the raw role string of the token.\<close>

definition is_admin :: "caller \<Rightarrow> bool" where
  "is_admin c = (c_role c = ''admin'')"

record task_body =
  b_title :: "string option"
  b_description :: "string option"
  b_status :: "string option"
  b_priority :: "string option"
  b_dueDate :: "string option"
  b_assignedTo :: "string option"
  b_tags :: "string list option"

text \<open>The fields \<open>User.find({}, "_id fullname email role")\<close> projects.\<close>

record user_view =
  v_id :: uid
  v_fullname :: string
  v_email :: string
  v_role :: string

text \<open>The user object \<open>login\<close> returns next to the token.\<close>

record login_view =
  l_id :: uid
  l_fullname :: string
  l_email :: string
  l_phoneNumber :: string
  l_profile :: "string option"
  l_role :: string

datatype payload =
    NoData
  | OneTask task
  | TaskList "task list"
  | Counts nat nat nat nat
  | UserList "user_view list"
  | LoginData string login_view

datatype response =
    Json nat bool string payload
  | NoResponse

fun resp_code :: "response \<Rightarrow> nat option" where
  "resp_code (Json c _ _ _) = Some c"
| "resp_code NoResponse = None"

datatype error_kind = ValidationError | Unauthenticated | Forbidden | NotFound | InternalFault

text \<open>The specification's error classes (section 7) as the codes the handlers send.\<close>

definition error_kind_of :: "response \<Rightarrow> error_kind option" where
  "error_kind_of r =
     (case resp_code r of
        None \<Rightarrow> None
      | Some c \<Rightarrow>
          (if c = 400 then Some ValidationError
           else if c = 401 then Some Unauthenticated
           else if c = 403 then Some Forbidden
           else if c = 404 then Some NotFound
           else if c = 500 then Some InternalFault
           else None))"

definition err :: "nat \<Rightarrow> string \<Rightarrow> response" where
  "err c m = Json c False m NoData"

text \<open>The tasks a listing response carries (none for an error response).\<close>

fun listed :: "response \<Rightarrow> task list" where
  "listed (Json _ _ _ (TaskList ts)) = ts"
| "listed _ = []"

text \<open>
  A well-typed reply: a status code the program uses, and \<open>success\<close> set
  exactly on the 2xx codes.  A handler that sends nothing is not well typed.
\<close>

definition resp_typed :: "response \<Rightarrow> bool" where
  "resp_typed r =
     (case r of
        Json c ok m p \<Rightarrow> c \<in> {200, 201, 400, 401, 403, 404, 500} \<and> ok = (c < 300)
      | NoResponse \<Rightarrow> False)"

lemma error_kind_of_err [simp]:
  "error_kind_of (err 400 m) = Some ValidationError"
  "error_kind_of (err 401 m) = Some Unauthenticated"
  "error_kind_of (err 403 m) = Some Forbidden"
  "error_kind_of (err 404 m) = Some NotFound"
  "error_kind_of (err 500 m) = Some InternalFault"
  by (simp_all add: error_kind_of_def err_def)

lemma err_typed [simp]: "c \<in> {400, 401, 403, 404, 500} \<Longrightarrow> resp_typed (err c m)"
  by (auto simp: resp_typed_def err_def)

lemma Json_typed [simp]: "resp_typed (Json 200 True m p)" "resp_typed (Json 201 True m p)"
  by (simp_all add: resp_typed_def)

end
