(* ===== verification/Fixtures.thy ===== *)
theory Fixtures
  imports Http
begin

text \<open>
  Concrete callers, tasks and stores on which the theorems of the development
  are instantiated: two regular users, an unrelated third user and an admin,
  with identifiers in the 24-hex-digit shape of the store.
\<close>

definition uid1 :: uid where "uid1 = ''aaaaaaaaaaaaaaaaaaaaaaa1''"
definition uid2 :: uid where "uid2 = ''aaaaaaaaaaaaaaaaaaaaaaa2''"
definition uid3 :: uid where "uid3 = ''aaaaaaaaaaaaaaaaaaaaaaa3''"
definition uid0 :: uid where "uid0 = ''aaaaaaaaaaaaaaaaaaaaaaa0''"

definition user1 :: caller where "user1 = \<lparr>c_id = uid1, c_role = ''user''\<rparr>"
definition user2 :: caller where "user2 = \<lparr>c_id = uid2, c_role = ''user''\<rparr>"
definition user3 :: caller where "user3 = \<lparr>c_id = uid3, c_role = ''user''\<rparr>"
definition admin0 :: caller where "admin0 = \<lparr>c_id = uid0, c_role = ''admin''\<rparr>"

definition empty_body :: task_body where
  "empty_body = \<lparr>b_title = None, b_description = None, b_status = None, b_priority = None,
                 b_dueDate = None, b_assignedTo = None, b_tags = None\<rparr>"

definition body_completed :: task_body where
  "body_completed = empty_body\<lparr>b_status := Some ''completed''\<rparr>"

definition body_new :: task_body where
  "body_new = empty_body\<lparr>b_title := Some ''T1'', b_description := Some ''D1''\<rparr>"

text \<open>Task A: created by user 1. Task B: created by the admin, assigned to user 2.\<close>

definition taskA :: task where
  "taskA = \<lparr>t_id = ''000000000000000000000000'', title = ''Invoice'', description = Some ''pay it'',
            status = Pending, priority = None, dueDate = None, tags = None, assignedTo = None,
            createdBy = uid1, createdAt = 1, updatedAt = 1\<rparr>"

definition taskB :: task where
  "taskB = \<lparr>t_id = ''000000000000000000000001'', title = ''Report'', description = None,
            status = InProgress, priority = None, dueDate = None, tags = None,
            assignedTo = Some uid2, createdBy = uid0, createdAt = 2, updatedAt = 2\<rparr>"

definition body_admin :: task_body where
  "body_admin = empty_body\<lparr>b_title := Some ''Invoice 2'', b_status := Some ''in-progress'',
                             b_tags := Some []\<rparr>"

definition body_bad_status :: task_body where
  "body_bad_status = empty_body\<lparr>b_status := Some ''done''\<rparr>"

definition body_bad_assignee :: task_body where
  "body_bad_assignee = empty_body\<lparr>b_assignedTo := Some ''bob''\<rparr>"

definition body_bad_date :: task_body where
  "body_bad_date = empty_body\<lparr>b_dueDate := Some ''next week''\<rparr>"

definition db1 :: db where
  "db1 = \<lparr>tasks = [taskA, taskB], users = [], id_seq = 2, clock = 10\<rparr>"

lemmas fixture_defs = uid1_def uid2_def uid3_def uid0_def user1_def user2_def user3_def
  admin0_def empty_body_def body_completed_def body_new_def body_admin_def body_bad_status_def body_bad_assignee_def body_bad_date_def taskA_def taskB_def db1_def

text \<open>The identifier the store gives the next task created in \<open>db1\<close>.\<close>

lemma oid_of_nat_2: "oid_of_nat 2 = ''000000000000000000000002''"
  by code_simp

lemma db1_inv: "store_inv db1"
  by (simp add: fixture_defs store_inv_def task_valid_def validate_task_def is_object_id_def
                is_hex_char_def date_ok_def)

end
