(* ===== verification/TaskController.thy ===== *)
theory TaskController
  imports Fixtures
begin

text \<open>
  The access policy engine: the seven handlers of
  src/controllers/task.controller.js, each a function of the caller, the request
  parameters and the store, returning the response and, for the handlers that
  write, the new store.  Every \<open>return res.status(..)\<close> of the source is a branch;
  a store write that Mongoose rejects (the \<open>catch\<close> blocks) is the branch on the
  store's \<open>Inl\<close>.  The keyword filter of \<open>getAllTasks\<close> is MongoDB's
  case-insensitive \<open>$regex\<close>; the regular-expression engine is a parameter
  \<open>rx\<close> of that handler: \<open>rx pattern\<close> is \<open>None\<close> when the store rejects
  the pattern (the query throws and the \<open>catch\<close> answers 500), and otherwise
  the test "the pattern matches somewhere in the text".  \<open>literal_rx\<close> is
  the literal case-insensitive substring test of the specification (section 4.2).
\<close>

section \<open>Visibility\<close>

text \<open>
  \<open>matchQuery\<close> of \<open>getTaskCounts\<close> and the second conjunct of
  \<open>getAllTasks\<close>: \<open>{}\<close> for an admin, else created by or assigned to the caller.
\<close>

definition match_query :: "caller \<Rightarrow> task \<Rightarrow> bool" where
  "match_query c t =
     (if c_role c \<noteq> ''admin'' then createdBy t = c_id c \<or> assignedTo t = Some (c_id c)
      else True)"

section \<open>Handlers\<close>

definition getAllUsers :: "db \<Rightarrow> response" where
  "getAllUsers s =
     Json 200 True []
       (UserList (map (\<lambda>u. \<lparr>v_id = u_id u, v_fullname = fullname u, v_email = email u,
                            v_role = role u\<rparr>) (users s)))"

definition getTaskCounts :: "caller \<Rightarrow> db \<Rightarrow> response" where
  "getTaskCounts c s =
     (let q = match_query c; ts = tasks s in
      Json 200 True []
        (Counts
          (count_documents (if c_role c = ''admin'' then (\<lambda>_. True) else q) ts)
          (count_documents (\<lambda>t. q t \<and> status t = Pending) ts)
          (count_documents (\<lambda>t. q t \<and> status t = InProgress) ts)
          (count_documents (\<lambda>t. q t \<and> status t = Completed) ts)))"

definition CreateTask :: "caller \<Rightarrow> task_body \<Rightarrow> db \<Rightarrow> response \<times> db" where
  "CreateTask c b s =
     (if truthy (b_assignedTo b) \<and> \<not> is_object_id (the (b_assignedTo b))
      then (err 400 ''Invalid assignedTo user ID'', s)
      else
        (case task_insert
                \<lparr>n_title = b_title b, n_description = b_description b, n_status = b_status b,
                 n_priority = b_priority b, n_dueDate = b_dueDate b,
                 n_assignedTo = b_assignedTo b, n_createdBy = c_id c\<rparr> s of
           Inl e \<Rightarrow> (err 400 (store_error_msg e), s)
         | Inr (t, s') \<Rightarrow> (Json 201 True [] (OneTask t), s')))"

text \<open>
  \<open>baseQuery\<close> of \<open>getAllTasks\<close>: the keyword, as a case-insensitive regular
  expression, found in the title or in the description (a document without a
  description does not match on it).
\<close>

type_synonym regex_engine = "string \<Rightarrow> (string \<Rightarrow> bool) option"

definition keyword_query :: "(string \<Rightarrow> bool) \<Rightarrow> task \<Rightarrow> bool" where
  "keyword_query m t =
     (m (title t) \<or> (case description t of Some d \<Rightarrow> m d | None \<Rightarrow> False))"

definition literal_rx :: regex_engine where
  "literal_rx kw = Some (ci_contains kw)"

definition getAllTasks ::
  "regex_engine \<Rightarrow> caller \<Rightarrow> string option \<Rightarrow> db \<Rightarrow> response" where
  "getAllTasks rx c k s =
     (let kw = or_empty k in
      case rx kw of
        None \<Rightarrow> err 500 ''Internal server error''
      | Some m \<Rightarrow>
          (let base = keyword_query m;
               q = (if c_role c \<noteq> ''admin''
                    then (\<lambda>t. base t \<and> (createdBy t = c_id c \<or> assignedTo t = Some (c_id c)))
                    else base);
               ts = find_tasks q (tasks s)
           in if ts = [] then err 404 ''Tasks not found''
              else Json 200 True [] (TaskList ts)))"

definition getTaskById :: "caller \<Rightarrow> tid \<Rightarrow> db \<Rightarrow> response" where
  "getTaskById c i s =
     (case find_by_id i (tasks s) of
        None \<Rightarrow> err 404 ''Task not found''
      | Some t \<Rightarrow>
          (if c_role c \<noteq> ''admin'' \<and> createdBy t \<noteq> c_id c then err 403 ''Access denied''
           else Json 200 True [] (OneTask t)))"

text \<open>\<open>allowedStatuses.includes(status)\<close>, false for an absent status.\<close>

definition includes_status :: "string option \<Rightarrow> bool" where
  "includes_status st = (case st of None \<Rightarrow> False | Some x \<Rightarrow> x \<in> set allowed_statuses)"

text \<open>
  The admin branch of \<open>updateTask\<close>, lines 201--207: each field is written
  when the request's value is truthy.  The status string was checked against
  \<open>allowedStatuses\<close> just before, so its cast to the enumeration succeeds.
\<close>

definition admin_update :: "task_body \<Rightarrow> task \<Rightarrow> task" where
  "admin_update b t =
     (let t1 = (if truthy (b_title b) then t\<lparr>title := the (b_title b)\<rparr> else t);
          t2 = (if truthy (b_description b) then t1\<lparr>description := b_description b\<rparr> else t1);
          t3 = (if truthy (b_status b)
                then (case status_of_string (the (b_status b)) of
                        Some st \<Rightarrow> t2\<lparr>status := st\<rparr> | None \<Rightarrow> t2)
                else t2);
          t4 = (if truthy (b_priority b) then t3\<lparr>priority := b_priority b\<rparr> else t3);
          t5 = (if truthy (b_dueDate b) then t4\<lparr>dueDate := b_dueDate b\<rparr> else t4);
          t6 = (if truthy (b_assignedTo b) then t5\<lparr>assignedTo := b_assignedTo b\<rparr> else t5)
      in if present (b_tags b) then t6\<lparr>tags := b_tags b\<rparr> else t6)"

text \<open>\<open>task.updatedAt = new Date(); await task.save()\<close> and the response.\<close>

definition save_and_reply :: "task \<Rightarrow> db \<Rightarrow> response \<times> db" where
  "save_and_reply t s =
     (let t' = t\<lparr>updatedAt := clock s\<rparr> in
      case task_save t' s of
        Inl e \<Rightarrow> (err 500 ''Internal server error'', s)
      | Inr s' \<Rightarrow> (Json 200 True ''Task updated successfully'' (OneTask t'), s'))"

definition updateTask :: "caller \<Rightarrow> tid \<Rightarrow> task_body \<Rightarrow> db \<Rightarrow> response \<times> db" where
  "updateTask c i b s =
     (case find_by_id i (tasks s) of
        None \<Rightarrow> (err 404 ''Task not found'', s)
      | Some t \<Rightarrow>
          (if c_role c \<noteq> ''admin'' \<and> createdBy t \<noteq> c_id c then (err 403 ''Access denied'', s)
           else if c_role c \<noteq> ''admin'' then
             (if \<not> truthy (b_status b) \<or> \<not> includes_status (b_status b)
              then (err 400 ''Invalid or missing status. Only status update is allowed.'', s)
              else save_and_reply (t\<lparr>status := the (status_of_string (the (b_status b)))\<rparr>) s)
           else if truthy (b_status b) \<and> \<not> includes_status (b_status b)
           then (err 400 ''Invalid status value.'', s)
           else save_and_reply (admin_update b t) s))"

definition deleteTask :: "caller \<Rightarrow> tid \<Rightarrow> db \<Rightarrow> response \<times> db" where
  "deleteTask c i s =
     (if c_role c \<noteq> ''admin'' then (err 403 ''Only admin can delete tasks'', s)
      else
        (case find_by_id_and_delete i s of
           (None, s') \<Rightarrow> (err 404 ''Task not found'', s')
         | (Some _, s') \<Rightarrow> (Json 200 True ''Task deleted successfully'' NoData, s')))"

text \<open>The status a non-admin's request asks for, when it is a valid one.\<close>

definition requested_status :: "task_body \<Rightarrow> status option" where
  "requested_status b = (case b_status b of None \<Rightarrow> None | Some x \<Rightarrow> status_of_string x)"

section \<open>Lemmas\<close>

named_theorems handler_simps "unfolding rules of the task handlers"

declare getAllUsers_def [handler_simps] getTaskCounts_def [handler_simps]
  CreateTask_def [handler_simps] getAllTasks_def [handler_simps]
  getTaskById_def [handler_simps] updateTask_def [handler_simps]
  deleteTask_def [handler_simps] save_and_reply_def [handler_simps]

subsection \<open>Listing and counting\<close>

lemma match_query_admin [simp]: "c_role c = ''admin'' \<Longrightarrow> match_query c t"
  by (simp add: match_query_def)

lemma match_query_user:
  "c_role c \<noteq> ''admin'' \<Longrightarrow> match_query c t \<longleftrightarrow> createdBy t = c_id c \<or> assignedTo t = Some (c_id c)"
  by (simp add: match_query_def)

text \<open>Both branches of \<open>getAllTasks\<close> filter by the keyword and the visibility predicate.\<close>

lemma getAllTasks_eq:
  "rx (or_empty k) = Some m \<Longrightarrow> getAllTasks rx c k s =
     (let ts = filter (\<lambda>t. keyword_query m t \<and> match_query c t) (tasks s)
      in if ts = [] then err 404 ''Tasks not found'' else Json 200 True [] (TaskList ts))"
  by (simp add: getAllTasks_def find_tasks_def match_query_def Let_def)

lemma getAllTasks_rejected:
  "rx (or_empty k) = None \<Longrightarrow> getAllTasks rx c k s = err 500 ''Internal server error''"
  by (simp add: getAllTasks_def)

lemma listed_getAllTasks:
  "listed (getAllTasks rx c k s) =
     (case rx (or_empty k) of None \<Rightarrow> []
      | Some m \<Rightarrow> filter (\<lambda>t. keyword_query m t \<and> match_query c t) (tasks s))"
  by (cases "rx (or_empty k)") (simp_all add: getAllTasks_rejected getAllTasks_eq Let_def err_def)

lemma getTaskCounts_eq:
  "getTaskCounts c s =
     Json 200 True []
       (Counts (count_documents (match_query c) (tasks s))
          (count_documents (\<lambda>t. match_query c t \<and> status t = Pending) (tasks s))
          (count_documents (\<lambda>t. match_query c t \<and> status t = InProgress) (tasks s))
          (count_documents (\<lambda>t. match_query c t \<and> status t = Completed) (tasks s)))"
proof -
  have "(if c_role c = ''admin'' then (\<lambda>_. True) else match_query c) = match_query c"
    by (rule ext) (simp add: match_query_def)
  then show ?thesis by (simp add: getTaskCounts_def Let_def)
qed

subsection \<open>Saving a task read from the store\<close>

lemma validate_task_fields [simp]:
  "validate_task (t\<lparr>status := x\<rparr>) = validate_task t"
  "validate_task (t\<lparr>updatedAt := n\<rparr>) = validate_task t"
  "validate_task (t\<lparr>description := d\<rparr>) = validate_task t"
  "validate_task (t\<lparr>priority := p\<rparr>) = validate_task t"
  "validate_task (t\<lparr>tags := g\<rparr>) = validate_task t"
  by (simp_all add: validate_task_def)

lemma stored_task_valid:
  "store_inv s \<Longrightarrow> t \<in> set (tasks s) \<Longrightarrow> task_valid t"
  by (simp add: store_inv_def list_all_iff)

lemma task_save_stored:
  assumes "t \<in> set (tasks s)" and "t_id t' = t_id t" and "task_valid t'"
  shows "task_save t' s = Inr (s\<lparr>tasks := map (\<lambda>x. if t_id x = t_id t then t' else x) (tasks s)\<rparr>)"
proof -
  have "find_by_id (t_id t) (tasks s) \<noteq> None"
    using assms(1) by (auto simp: find_by_id_None_iff)
  with assms show ?thesis
    by (simp add: task_save_def task_valid_def)
qed

lemma task_save_invalid:
  "\<not> task_valid t' \<Longrightarrow> \<exists>e. task_save t' s = Inl e"
  by (auto simp: task_save_def task_valid_def)

lemma save_and_reply_stored:
  assumes "t \<in> set (tasks s)" and "t_id t' = t_id t" and "task_valid t'"
  shows "save_and_reply t' s =
           (Json 200 True ''Task updated successfully'' (OneTask (t'\<lparr>updatedAt := clock s\<rparr>)),
            s\<lparr>tasks := map (\<lambda>x. if t_id x = t_id t then t'\<lparr>updatedAt := clock s\<rparr> else x) (tasks s)\<rparr>)"
proof -
  have "task_valid (t'\<lparr>updatedAt := clock s\<rparr>)"
    using assms(3) by (simp add: task_valid_def)
  with assms show ?thesis
    by (simp add: save_and_reply_def task_save_stored Let_def)
qed

lemma save_and_reply_invalid:
  "\<not> task_valid t' \<Longrightarrow> save_and_reply t' s = (err 500 ''Internal server error'', s)"
proof -
  assume "\<not> task_valid t'"
  then have "\<not> task_valid (t'\<lparr>updatedAt := clock s\<rparr>)" by (simp add: task_valid_def)
  then obtain e where "task_save (t'\<lparr>updatedAt := clock s\<rparr>) s = Inl e"
    by (blast dest: task_save_invalid)
  then show ?thesis by (simp add: save_and_reply_def)
qed

lemma save_and_reply_inv:
  "store_inv s \<Longrightarrow> save_and_reply t s = (r, s') \<Longrightarrow> store_inv s'"
  by (auto simp: save_and_reply_def Let_def intro: task_save_inv split: sum.splits)

subsection \<open>The admin field writes\<close>

lemma admin_update_fixed [simp]:
  "t_id (admin_update b t) = t_id t"
  "createdBy (admin_update b t) = createdBy t"
  "createdAt (admin_update b t) = createdAt t"
  "updatedAt (admin_update b t) = updatedAt t"
  by (simp_all add: admin_update_def Let_def split: option.split)

lemma admin_update_assignedTo:
  "assignedTo (admin_update b t) = (if truthy (b_assignedTo b) then b_assignedTo b else assignedTo t)"
  by (simp add: admin_update_def Let_def split: option.split)

lemma admin_update_title:
  "title (admin_update b t) = (if truthy (b_title b) then the (b_title b) else title t)"
  by (simp add: admin_update_def Let_def split: option.split)

lemma admin_update_dueDate:
  "dueDate (admin_update b t) = (if truthy (b_dueDate b) then b_dueDate b else dueDate t)"
  by (simp add: admin_update_def Let_def split: option.split)

lemma admin_update_valid:
  assumes "task_valid t"
  shows "task_valid (admin_update b t) \<longleftrightarrow>
           (\<not> truthy (b_assignedTo b) \<or> is_object_id (the (b_assignedTo b)))
           \<and> (\<not> truthy (b_dueDate b) \<or> is_date (the (b_dueDate b)))"
proof -
  from assms have v: "title t \<noteq> []" "case assignedTo t of None \<Rightarrow> True | Some a \<Rightarrow> is_object_id a"
    "is_object_id (createdBy t)" "date_ok (dueDate t)"
    by (simp_all add: task_valid_def validate_task_def split: if_splits)
  have ttl: "title (admin_update b t) \<noteq> []"
    using v(1) by (cases "b_title b") (simp_all add: admin_update_title)
  have asg: "(case assignedTo (admin_update b t) of None \<Rightarrow> True | Some a \<Rightarrow> is_object_id a)
      \<longleftrightarrow> \<not> truthy (b_assignedTo b) \<or> is_object_id (the (b_assignedTo b))"
    using v(2) by (cases "b_assignedTo b") (auto simp: admin_update_assignedTo)
  have due: "date_ok (dueDate (admin_update b t)) \<longleftrightarrow> \<not> truthy (b_dueDate b) \<or> is_date (the (b_dueDate b))"
    using v(4) by (cases "b_dueDate b") (auto simp: admin_update_dueDate date_ok_def)
  show ?thesis
    using ttl v(3) asg due by (simp add: task_valid_def validate_task_def)
qed

subsection \<open>Lookups after a write\<close>

lemma find_by_id_stored:
  "store_inv s \<Longrightarrow> find_by_id i (tasks s) = Some t \<Longrightarrow> t \<in> set (tasks s) \<and> t_id t = i"
  by (simp add: find_by_id_Some)

lemma replace_by_id_eq:
  assumes "store_inv s" and "find_by_id i (tasks s) = Some t"
  shows "map (\<lambda>x. if t_id x = t_id t then f x else x) (tasks s) =
         map (\<lambda>x. if t_id x = i then f t else x) (tasks s)"
proof -
  have d: "distinct (map t_id (tasks s))" using assms(1) by (simp add: store_inv_def)
  from assms(2) have t: "t \<in> set (tasks s)" "t_id t = i" by (auto dest: find_by_id_Some)
  have inj: "inj_on t_id (set (tasks s))" using d by (simp add: distinct_map)
  have same: "x = t" if "x \<in> set (tasks s)" and "t_id x = i" for x
    by (rule inj_onD [OF inj, of x t]) (simp_all add: that t)
  show ?thesis
  proof (rule map_cong [OF refl])
    fix x assume "x \<in> set (tasks s)"
    with same t(2) show "(if t_id x = t_id t then f x else x) = (if t_id x = i then f t else x)"
      by auto
  qed
qed

subsection \<open>The branches of updateTask\<close>

lemma status_of_string_nonempty: "status_of_string x = Some st \<Longrightarrow> x \<noteq> []"
  by (auto simp: status_of_string_def split: if_splits)

lemma includes_status_iff:
  "includes_status st \<longleftrightarrow> (case st of None \<Rightarrow> False | Some x \<Rightarrow> status_of_string x \<noteq> None)"
  by (simp add: includes_status_def allowed_statuses_iff split: option.split)

lemma requested_status_Some:
  "requested_status b = Some st \<Longrightarrow> truthy (b_status b) \<and> includes_status (b_status b)
     \<and> status_of_string (the (b_status b)) = Some st"
  by (auto simp: requested_status_def includes_status_iff truthy_iff
           dest: status_of_string_nonempty split: option.splits)

lemma requested_status_None:
  "requested_status b = None \<Longrightarrow> \<not> includes_status (b_status b)"
  by (simp add: requested_status_def includes_status_iff split: option.splits)

lemma updateTask_not_found:
  "find_by_id i (tasks s) = None \<Longrightarrow> updateTask c i b s = (err 404 ''Task not found'', s)"
  by (simp add: updateTask_def)

text \<open>The whole non-admin branch, on a well-formed store.\<close>

lemma updateTask_user_cases:
  assumes inv: "store_inv s" and usr: "c_role c \<noteq> ''admin''"
  shows "updateTask c i b s =
    (case find_by_id i (tasks s) of
       None \<Rightarrow> (err 404 ''Task not found'', s)
     | Some t \<Rightarrow>
         (if createdBy t \<noteq> c_id c then (err 403 ''Access denied'', s)
          else case requested_status b of
            None \<Rightarrow> (err 400 ''Invalid or missing status. Only status update is allowed.'', s)
          | Some st \<Rightarrow>
              (Json 200 True ''Task updated successfully''
                 (OneTask (t\<lparr>status := st, updatedAt := clock s\<rparr>)),
               s\<lparr>tasks := map (\<lambda>x. if t_id x = i then t\<lparr>status := st, updatedAt := clock s\<rparr> else x)
                              (tasks s)\<rparr>)))"
proof (cases "find_by_id i (tasks s)")
  case None
  then show ?thesis by (simp add: updateTask_def)
next
  case (Some t)
  then have t: "t \<in> set (tasks s)" "t_id t = i" by (auto dest: find_by_id_Some)
  from inv t(1) have v: "task_valid t" by (rule stored_task_valid)
  show ?thesis
  proof (cases "requested_status b")
    case None
    then show ?thesis using Some usr by (simp add: updateTask_def requested_status_None)
  next
    case (Some st)
    note rq = requested_status_Some [OF Some]
    have "task_valid (t\<lparr>status := st\<rparr>)" using v by (simp add: task_valid_def)
    then have "save_and_reply (t\<lparr>status := st\<rparr>) s =
        (Json 200 True ''Task updated successfully'' (OneTask (t\<lparr>status := st, updatedAt := clock s\<rparr>)),
         s\<lparr>tasks := map (\<lambda>x. if t_id x = i then t\<lparr>status := st, updatedAt := clock s\<rparr> else x) (tasks s)\<rparr>)"
      using t by (simp add: save_and_reply_stored)
    with \<open>find_by_id i (tasks s) = Some t\<close> usr rq Some show ?thesis
      by (simp add: updateTask_def)
  qed
qed

text \<open>The admin branch when the status check passes.\<close>

lemma updateTask_admin_found:
  assumes "c_role c = ''admin''" and "find_by_id i (tasks s) = Some t"
    and "\<not> (truthy (b_status b) \<and> \<not> includes_status (b_status b))"
  shows "updateTask c i b s = save_and_reply (admin_update b t) s"
  using assms by (auto simp: updateTask_def)

lemma updateTask_admin_ok:
  assumes inv: "store_inv s" and adm: "c_role c = ''admin''"
    and fnd: "find_by_id i (tasks s) = Some t"
    and st: "\<not> (truthy (b_status b) \<and> \<not> includes_status (b_status b))"
    and asg: "\<not> truthy (b_assignedTo b) \<or> is_object_id (the (b_assignedTo b))"
    and due: "\<not> truthy (b_dueDate b) \<or> is_date (the (b_dueDate b))"
  shows "updateTask c i b s =
    (Json 200 True ''Task updated successfully'' (OneTask ((admin_update b t)\<lparr>updatedAt := clock s\<rparr>)),
     s\<lparr>tasks := map (\<lambda>x. if t_id x = i then (admin_update b t)\<lparr>updatedAt := clock s\<rparr> else x)
                    (tasks s)\<rparr>)"
proof -
  from fnd have t: "t \<in> set (tasks s)" "t_id t = i" by (auto dest: find_by_id_Some)
  from inv t(1) have "task_valid t" by (rule stored_task_valid)
  with asg due have "task_valid (admin_update b t)" by (simp add: admin_update_valid)
  with t have "save_and_reply (admin_update b t) s =
     (Json 200 True ''Task updated successfully'' (OneTask ((admin_update b t)\<lparr>updatedAt := clock s\<rparr>)),
      s\<lparr>tasks := map (\<lambda>x. if t_id x = i then (admin_update b t)\<lparr>updatedAt := clock s\<rparr> else x)
                     (tasks s)\<rparr>)"
    by (simp add: save_and_reply_stored)
  with adm fnd st show ?thesis by (simp add: updateTask_admin_found)
qed

lemma updateTask_inv:
  "store_inv s \<Longrightarrow> updateTask c i b s = (r, s') \<Longrightarrow> store_inv s'"
  by (auto simp: updateTask_def intro: save_and_reply_inv split: option.splits if_splits)

lemma CreateTask_inv:
  "store_inv s \<Longrightarrow> CreateTask c b s = (r, s') \<Longrightarrow> store_inv s'"
  by (auto simp: CreateTask_def intro: task_insert_inv split: if_splits sum.splits)

lemma deleteTask_inv:
  "store_inv s \<Longrightarrow> deleteTask c i s = (r, s') \<Longrightarrow> store_inv s'"
  by (auto simp: deleteTask_def intro: find_by_id_and_delete_inv split: if_splits prod.splits option.splits)

lemma CreateTask_Json201:
  assumes "CreateTask c b s = (Json 201 True [] (OneTask t), s')"
  shows "task_insert \<lparr>n_title = b_title b, n_description = b_description b, n_status = b_status b,
                      n_priority = b_priority b, n_dueDate = b_dueDate b,
                      n_assignedTo = b_assignedTo b, n_createdBy = c_id c\<rparr> s = Inr (t, s')"
  using assms by (auto simp: CreateTask_def err_def split: if_splits sum.splits)


lemma save_and_reply_ok:
  "save_and_reply u s = (Json 200 True m (OneTask t'), s') \<Longrightarrow>
   t' = u\<lparr>updatedAt := clock s\<rparr> \<and> task_save t' s = Inr s'"
  by (auto simp: save_and_reply_def Let_def err_def split: sum.splits)

lemma updateTask_ok_cases:
  assumes "updateTask c i b s = (Json 200 True m (OneTask t'), s')"
  shows "\<exists>t u. find_by_id i (tasks s) = Some t \<and> t_id u = t_id t
           \<and> save_and_reply u s = (Json 200 True m (OneTask t'), s')"
proof (cases "find_by_id i (tasks s)")
  case None
  with assms show ?thesis by (simp add: updateTask_def err_def)
next
  case (Some t)
  have "\<exists>u. t_id u = t_id t \<and> save_and_reply u s = (Json 200 True m (OneTask t'), s')"
  proof (cases "c_role c = ''admin''")
    case True
    with Some assms have "save_and_reply (admin_update b t) s = (Json 200 True m (OneTask t'), s')"
      by (auto simp: updateTask_def err_def split: if_splits)
    then show ?thesis by (intro exI [of _ "admin_update b t"]) simp
  next
    case False
    let ?u = "t\<lparr>status := the (status_of_string (the (b_status b)))\<rparr>"
    from False Some assms have "save_and_reply ?u s = (Json 200 True m (OneTask t'), s')"
      by (auto simp: updateTask_def err_def split: if_splits)
    then show ?thesis by (intro exI [of _ ?u]) simp
  qed
  with Some show ?thesis by blast
qed

lemma task_save_found:
  assumes "store_inv s" and "task_save t' s = Inr s'"
  shows "find_by_id (t_id t') (tasks s') = Some t'"
proof -
  from task_save_Inr [OF assms(2)] have
    f: "find_by_id (t_id t') (tasks s) \<noteq> None" and
    s': "s' = s\<lparr>tasks := map (\<lambda>x. if t_id x = t_id t' then t' else x) (tasks s)\<rparr>"
    by auto
  from assms(1) have "distinct (map t_id (tasks s))" by (simp add: store_inv_def)
  with f s' show ?thesis by (simp add: find_by_id_replace)
qed

subsection \<open>Marking one's own task completed\<close>

lemma updateTask_complete:
  assumes inv: "store_inv s" and t: "t \<in> set (tasks s)" and cr: "createdBy t = c_id c"
  shows "\<exists>r. updateTask c (t_id t) body_completed s =
           (r, s\<lparr>tasks := map (\<lambda>x. if t_id x = t_id t then t\<lparr>status := Completed, updatedAt := clock s\<rparr> else x)
                            (tasks s)\<rparr>)"
proof -
  have f: "find_by_id (t_id t) (tasks s) = Some t"
    using inv t by (simp add: store_inv_def find_by_id_member)
  have rs: "requested_status body_completed = Some Completed"
    by (simp add: requested_status_def body_completed_def status_of_string_def)
  show ?thesis
  proof (cases "c_role c = ''admin''")
    case True
    have "admin_update body_completed t = t\<lparr>status := Completed\<rparr>"
      by (simp add: admin_update_def body_completed_def empty_body_def status_of_string_def)
    moreover have "includes_status (b_status body_completed)"
      by (simp add: includes_status_def body_completed_def allowed_statuses_def)
    ultimately show ?thesis
      using updateTask_admin_ok [OF inv True f, of body_completed]
      by (simp add: body_completed_def empty_body_def)
  next
    case False
    with f rs cr show ?thesis by (simp add: updateTask_user_cases [OF inv False])
  qed
qed

text \<open>An admin's update whose document the store refuses is answered 500 and writes nothing.\<close>

lemma updateTask_admin_invalid:
  assumes "store_inv s" and "c_role c = ''admin''" and "find_by_id i (tasks s) = Some t"
    and "\<not> truthy (b_status b) \<or> includes_status (b_status b)"
    and "\<not> task_valid (admin_update b t)"
  shows "updateTask c i b s = (err 500 ''Internal server error'', s)"
proof -
  have "updateTask c i b s = save_and_reply (admin_update b t) s"
    using assms(2,3,4) by (auto intro: updateTask_admin_found)
  with assms(5) show ?thesis by (simp add: save_and_reply_invalid)
qed

subsection \<open>Every reply is well typed\<close>

lemma save_and_reply_typed: "resp_typed (fst (save_and_reply t s))"
  by (simp add: save_and_reply_def Let_def split: sum.split)

lemma handlers_typed:
  "resp_typed (getAllUsers s)" "resp_typed (getTaskCounts c s)" "resp_typed (fst (CreateTask c b s))"
  "resp_typed (getAllTasks rx c k s)" "resp_typed (getTaskById c i s)"
  "resp_typed (fst (updateTask c i b s))" "resp_typed (fst (deleteTask c i s))"
  by (simp_all add: getAllUsers_def getTaskCounts_def CreateTask_def getAllTasks_def getTaskById_def
        updateTask_def deleteTask_def save_and_reply_typed Let_def
        split: sum.split option.split prod.split)

section \<open>Properties of the access policy\<close>

text \<open>
  C1: a task appears in the caller's listing exactly when the store accepts the
  keyword as a pattern, the task is stored and matches it, and the caller is an
  admin or created it or is its assignee.
\<close>

theorem getAllTasks_visible:
  "t \<in> set (listed (getAllTasks rx c k s)) \<longleftrightarrow>
   (\<exists>m. rx (or_empty k) = Some m \<and> t \<in> set (tasks s) \<and> keyword_query m t \<and>
      (c_role c = ''admin'' \<or> createdBy t = c_id c \<or> assignedTo t = Some (c_id c)))"
  by (cases "rx (or_empty k)") (auto simp: listed_getAllTasks match_query_def)

text \<open>
  C2: the four counts are taken under the listing's visibility predicate, the
  three per-status counts add up to the total, and the total is the number of
  tasks the caller may see.
\<close>

theorem getTaskCounts_consistent:
  "\<exists>p i d. getTaskCounts c s = Json 200 True [] (Counts (p + i + d) p i d)
     \<and> p + i + d = length (filter (match_query c) (tasks s))
     \<and> p = length (filter (\<lambda>t. match_query c t \<and> status t = Pending) (tasks s))
     \<and> i = length (filter (\<lambda>t. match_query c t \<and> status t = InProgress) (tasks s))
     \<and> d = length (filter (\<lambda>t. match_query c t \<and> status t = Completed) (tasks s))"
  using count_documents_by_status [of "match_query c" "tasks s"]
  by (simp add: getTaskCounts_eq count_documents_def)

text \<open>
  C3: on a well-formed store, a non-admin's update either changes nothing or
  sets the status of the addressed task to the status the request names and
  refreshes its \<open>updatedAt\<close>; every other field of every task is unchanged.
\<close>

theorem updateTask_user_only_status:
  assumes "store_inv s" and "c_role c \<noteq> ''admin''" and "updateTask c i b s = (r, s')"
  shows "s' = s \<or>
         (\<exists>st. b_status b = Some (status_str st) \<and>
            s' = s\<lparr>tasks := map (\<lambda>x. if t_id x = i then x\<lparr>status := st, updatedAt := clock s\<rparr> else x)
                               (tasks s)\<rparr>)"
proof (cases "find_by_id i (tasks s)")
  case None
  with assms show ?thesis by (simp add: updateTask_user_cases)
next
  case (Some t)
  show ?thesis
  proof (cases "createdBy t = c_id c \<and> requested_status b \<noteq> None")
    case False
    with Some assms show ?thesis
      by (auto simp: updateTask_user_cases split: option.splits if_splits)
  next
    case True
    then obtain st where st: "requested_status b = Some st" and cr: "createdBy t = c_id c" by auto
    from requested_status_Some [OF st] have bs: "b_status b = Some (status_str st)"
      by (auto simp: truthy_iff dest: status_of_string_Some)
    have tid: "t_id t = i" using Some by (auto dest: find_by_id_Some)
    have eq: "map (\<lambda>x. if t_id x = i then x\<lparr>status := st, updatedAt := clock s\<rparr> else x) (tasks s)
        = map (\<lambda>x. if t_id x = i then t\<lparr>status := st, updatedAt := clock s\<rparr> else x) (tasks s)"
      using replace_by_id_eq [OF assms(1) Some, of "\<lambda>x. x\<lparr>status := st, updatedAt := clock s\<rparr>"]
      by (simp only: tid)
    have s': "s' = s\<lparr>tasks := map (\<lambda>x. if t_id x = i then t\<lparr>status := st, updatedAt := clock s\<rparr> else x)
                                 (tasks s)\<rparr>"
      using assms Some st cr by (simp add: updateTask_user_cases)
    show ?thesis
    proof (rule disjI2, rule exI [of _ st], rule conjI)
      show "b_status b = Some (status_str st)" by (rule bs)
      show "s' = s\<lparr>tasks := map (\<lambda>x. if t_id x = i then x\<lparr>status := st, updatedAt := clock s\<rparr> else x)
                                 (tasks s)\<rparr>"
        by (simp only: s' eq)
    qed
  qed
qed

theorem updateTask_user_only_status_witness:
  "snd (updateTask user1 (t_id taskA) body_completed db1) = db1 \<or>
   (\<exists>st. b_status body_completed = Some (status_str st) \<and>
      snd (updateTask user1 (t_id taskA) body_completed db1) =
      db1\<lparr>tasks := map (\<lambda>x. if t_id x = t_id taskA then x\<lparr>status := st, updatedAt := clock db1\<rparr> else x)
                         (tasks db1)\<rparr>)"
  by (rule updateTask_user_only_status [OF db1_inv _ surjective_pairing])
     (simp add: user1_def)

text \<open>
  C4: a non-admin creator whose request has no status, or a status outside the
  three values, gets a validation error and the store is unchanged.
\<close>

theorem updateTask_user_invalid_status:
  assumes "c_role c \<noteq> ''admin''" and "find_by_id i (tasks s) = Some t"
    and "createdBy t = c_id c" and "\<not> includes_status (b_status b)"
  shows "updateTask c i b s =
           (err 400 ''Invalid or missing status. Only status update is allowed.'', s)"
  using assms by (simp add: updateTask_def)

theorem updateTask_user_invalid_status_witness:
  "updateTask user1 (t_id taskA) empty_body db1 =
     (err 400 ''Invalid or missing status. Only status update is allowed.'', db1)"
proof -
  have f: "find_by_id (t_id taskA) (tasks db1) = Some taskA"
    by (simp add: fixture_defs find_by_id_def)
  show ?thesis
    by (rule updateTask_user_invalid_status [OF _ f])
       (simp_all add: fixture_defs includes_status_def)
qed

text \<open>
  C5: a non-admin's delete is refused with Forbidden whatever the ownership,
  and the store is left as it was, so the task stays retrievable.
\<close>

theorem deleteTask_user_forbidden:
  "c_role c \<noteq> ''admin'' \<Longrightarrow> deleteTask c i s = (err 403 ''Only admin can delete tasks'', s)"
  by (simp add: deleteTask_def)

theorem deleteTask_user_forbidden_witness:
  "deleteTask user1 (t_id taskA) db1 = (err 403 ''Only admin can delete tasks'', db1)"
  by (rule deleteTask_user_forbidden) (simp add: user1_def)

text \<open>
  C6: an admin's delete removes the addressed task and no other, answering
  NotFound when there was none.
\<close>

theorem deleteTask_admin_removes:
  assumes "c_role c = ''admin''" and "deleteTask c i s = (r, s')"
  shows "s' = s\<lparr>tasks := filter (\<lambda>x. t_id x \<noteq> i) (tasks s)\<rparr>
       \<and> find_by_id i (tasks s') = None
       \<and> r = (if find_by_id i (tasks s) = None then err 404 ''Task not found''
              else Json 200 True ''Task deleted successfully'' NoData)"
proof (cases "find_by_id i (tasks s)")
  case None
  then have "filter (\<lambda>x. t_id x \<noteq> i) (tasks s) = tasks s"
    by (auto simp: find_by_id_None_iff filter_id_conv)
  with None assms show ?thesis
    by (simp add: deleteTask_def find_by_id_and_delete_def)
next
  case (Some t)
  with assms show ?thesis
    by (auto simp: deleteTask_def find_by_id_and_delete_def find_by_id_filter_other)
qed

theorem deleteTask_admin_removes_witness:
  "snd (deleteTask admin0 (t_id taskA) db1) = db1\<lparr>tasks := filter (\<lambda>x. t_id x \<noteq> t_id taskA) (tasks db1)\<rparr>
   \<and> find_by_id (t_id taskA) (tasks (snd (deleteTask admin0 (t_id taskA) db1))) = None
   \<and> fst (deleteTask admin0 (t_id taskA) db1) =
       (if find_by_id (t_id taskA) (tasks db1) = None then err 404 ''Task not found''
        else Json 200 True ''Task deleted successfully'' NoData)"
  by (rule deleteTask_admin_removes [OF _ surjective_pairing]) (simp add: admin0_def)

text \<open>
  C7: on a well-formed store, reading one task succeeds exactly for a stored
  task with that identifier when the caller is an admin or its creator (the
  assignee alone is refused, unlike the listing).
\<close>

theorem getTaskById_ok_iff:
  assumes "store_inv s"
  shows "getTaskById c i s = Json 200 True [] (OneTask t) \<longleftrightarrow>
         t \<in> set (tasks s) \<and> t_id t = i \<and> (c_role c = ''admin'' \<or> createdBy t = c_id c)"
proof
  assume "getTaskById c i s = Json 200 True [] (OneTask t)"
  then show "t \<in> set (tasks s) \<and> t_id t = i \<and> (c_role c = ''admin'' \<or> createdBy t = c_id c)"
    by (auto simp: getTaskById_def err_def split: option.splits if_splits dest: find_by_id_Some)
next
  assume a: "t \<in> set (tasks s) \<and> t_id t = i \<and> (c_role c = ''admin'' \<or> createdBy t = c_id c)"
  from assms have "distinct (map t_id (tasks s))" by (simp add: store_inv_def)
  with a have "find_by_id i (tasks s) = Some t" by (auto dest: find_by_id_member)
  with a show "getTaskById c i s = Json 200 True [] (OneTask t)"
    by (auto simp: getTaskById_def)
qed

theorem getTaskById_ok_iff_witness:
  "getTaskById user1 (t_id taskA) db1 = Json 200 True [] (OneTask taskA)"
  by (simp add: getTaskById_ok_iff [OF db1_inv]) (simp add: fixture_defs)

text \<open>
  C8: a created task records the caller as its creator whatever the request
  says, carries the request's title, description and assignee, gets an
  identifier no stored task has, is stamped with the current time and is
  appended to the collection.
\<close>

theorem CreateTask_creator:
  assumes "CreateTask c b s = (Json 201 True [] (OneTask t), s')"
  shows "createdBy t = c_id c \<and> tasks s' = tasks s @ [t] \<and> t_id t \<notin> t_id ` set (tasks s)
       \<and> title t = or_empty (b_title b) \<and> description t = b_description b
       \<and> assignedTo t = b_assignedTo b \<and> createdAt t = clock s \<and> updatedAt t = clock s"
proof -
  note ins = task_insert_Inr [OF CreateTask_Json201 [OF assms]]
  then have "cast_new_task (oid_of_nat (id_seq s)) (clock s)
     \<lparr>n_title = b_title b, n_description = b_description b, n_status = b_status b,
      n_priority = b_priority b, n_dueDate = b_dueDate b,
      n_assignedTo = b_assignedTo b, n_createdBy = c_id c\<rparr> = Inr t" by simp
  note c = cast_new_task_Inr [OF this]
  from ins have "t_id t \<notin> t_id ` set (tasks s)" by (simp add: find_by_id_None_iff)
  with ins c show ?thesis by simp
qed

lemma CreateTask_db1:
  "CreateTask user1 body_new db1 =
     (Json 201 True [] (OneTask \<lparr>t_id = ''000000000000000000000002'', title = ''T1'',
        description = Some ''D1'', status = Pending, priority = None, dueDate = None, tags = None,
        assignedTo = None, createdBy = uid1, createdAt = 10, updatedAt = 10\<rparr>),
      db1\<lparr>tasks := tasks db1 @ [\<lparr>t_id = ''000000000000000000000002'', title = ''T1'',
        description = Some ''D1'', status = Pending, priority = None, dueDate = None, tags = None,
        assignedTo = None, createdBy = uid1, createdAt = 10, updatedAt = 10\<rparr>], id_seq := 3\<rparr>)"
  by (simp add: CreateTask_def task_insert_def cast_new_task_def validate_task_def
                find_by_id_def is_object_id_def is_hex_char_def Let_def oid_of_nat_2 fixture_defs)

theorem CreateTask_creator_witness:
  "createdBy \<lparr>t_id = ''000000000000000000000002'', title = ''T1'',
        description = Some ''D1'', status = Pending, priority = None, dueDate = None, tags = None,
        assignedTo = None, createdBy = uid1, createdAt = 10, updatedAt = 10\<rparr> = c_id user1"
  using CreateTask_creator [OF CreateTask_db1] by simp

text \<open>
  Round trip: a task a caller has just created is returned unchanged when
  the same caller reads it back, with the requested title and description, the
  caller as creator and the requested status or the default \<open>pending\<close>.
\<close>

theorem create_then_get:
  assumes "store_inv s" and "CreateTask c b s = (Json 201 True [] (OneTask t), s')"
  shows "getTaskById c (t_id t) s' = Json 200 True [] (OneTask t)
       \<and> title t = or_empty (b_title b) \<and> description t = b_description b \<and> createdBy t = c_id c
       \<and> status t = (case b_status b of None \<Rightarrow> Pending | Some x \<Rightarrow> the (status_of_string x))"
proof -
  note ins = task_insert_Inr [OF CreateTask_Json201 [OF assms(2)]]
  then have "cast_new_task (oid_of_nat (id_seq s)) (clock s)
     \<lparr>n_title = b_title b, n_description = b_description b, n_status = b_status b,
      n_priority = b_priority b, n_dueDate = b_dueDate b,
      n_assignedTo = b_assignedTo b, n_createdBy = c_id c\<rparr> = Inr t" by simp
  note c = cast_new_task_Inr [OF this]
  have inv': "store_inv s'" using assms by (rule CreateTask_inv)
  from ins have "t \<in> set (tasks s')" by simp
  with inv' have "find_by_id (t_id t) (tasks s') = Some t"
    by (simp add: store_inv_def find_by_id_member)
  with c have get: "getTaskById c (t_id t) s' = Json 200 True [] (OneTask t)"
    by (simp add: getTaskById_def)
  have "status t = (case b_status b of None \<Rightarrow> Pending | Some x \<Rightarrow> the (status_of_string x))"
    using c by (auto split: option.splits)
  with get c show ?thesis by simp
qed

theorem create_then_get_witness:
  "getTaskById user1 ''000000000000000000000002'' (db1\<lparr>tasks := tasks db1 @ [\<lparr>t_id = ''000000000000000000000002'', title = ''T1'',
        description = Some ''D1'', status = Pending, priority = None, dueDate = None, tags = None,
        assignedTo = None, createdBy = uid1, createdAt = 10, updatedAt = 10\<rparr>], id_seq := 3\<rparr>)
   = Json 200 True [] (OneTask \<lparr>t_id = ''000000000000000000000002'', title = ''T1'',
        description = Some ''D1'', status = Pending, priority = None, dueDate = None, tags = None,
        assignedTo = None, createdBy = uid1, createdAt = 10, updatedAt = 10\<rparr>)"
  using conjunct1 [OF create_then_get [OF db1_inv CreateTask_db1]]
  by (simp only: task.select_convs)



text \<open>
  An admin's update naming a status outside the three values is refused
  with a validation error before any field is written.
\<close>

theorem updateTask_admin_bad_status:
  assumes "c_role c = ''admin''" and "find_by_id i (tasks s) = Some t"
    and "truthy (b_status b)" and "\<not> includes_status (b_status b)"
  shows "updateTask c i b s = (err 400 ''Invalid status value.'', s)"
  using assms by (simp add: updateTask_def)

theorem updateTask_admin_bad_status_witness:
  "updateTask admin0 (t_id taskA) body_bad_status db1 = (err 400 ''Invalid status value.'', db1)"
proof -
  have f: "find_by_id (t_id taskA) (tasks db1) = Some taskA"
    by (simp add: fixture_defs find_by_id_def)
  show ?thesis
    by (rule updateTask_admin_bad_status [OF _ f])
       (simp_all add: admin0_def body_bad_status_def empty_body_def includes_status_def
                      allowed_statuses_def)
qed

text \<open>
  Every successful update stamps the returned task with the current time,
  and that task is what the store now holds under the addressed identifier.
\<close>

theorem updateTask_refreshes_updatedAt:
  assumes "store_inv s" and "updateTask c i b s = (Json 200 True m (OneTask t'), s')"
  shows "updatedAt t' = clock s \<and> t_id t' = i \<and> find_by_id i (tasks s') = Some t' \<and> store_inv s'"
proof -
  obtain t u where f: "find_by_id i (tasks s) = Some t" and tid: "t_id u = t_id t"
    and sr: "save_and_reply u s = (Json 200 True m (OneTask t'), s')"
    using updateTask_ok_cases [OF assms(2)] by blast
  from save_and_reply_ok [OF sr] have t': "t' = u\<lparr>updatedAt := clock s\<rparr>"
    and sv: "task_save t' s = Inr s'" by auto
  have i: "t_id t' = i" using t' tid f by (auto dest: find_by_id_Some)
  have "find_by_id (t_id t') (tasks s') = Some t'" using assms(1) sv by (rule task_save_found)
  moreover have "store_inv s'" using assms by (rule updateTask_inv)
  ultimately show ?thesis using t' i by simp
qed

lemma updateTask_db1_user1:
  "updateTask user1 (t_id taskA) body_completed db1 =
     (Json 200 True ''Task updated successfully'' (OneTask (taskA\<lparr>status := Completed, updatedAt := 10\<rparr>)),
      db1\<lparr>tasks := [taskA\<lparr>status := Completed, updatedAt := 10\<rparr>, taskB]\<rparr>)"
proof -
  have "c_role user1 \<noteq> ''admin''" by (simp add: user1_def)
  from updateTask_user_cases [OF db1_inv this] show ?thesis
    by (simp add: fixture_defs find_by_id_def requested_status_def status_of_string_def)
qed

theorem updateTask_refreshes_updatedAt_witness:
  "updatedAt (taskA\<lparr>status := Completed, updatedAt := 10\<rparr>) = clock db1"
  using updateTask_refreshes_updatedAt [OF db1_inv updateTask_db1_user1] by simp

section \<open>Findings\<close>

text \<open>
  C13: the listing and the single read disagree: a non-admin assignee who did
  not create a task sees it in the listing, but reading or updating it is
  refused with Forbidden.
\<close>

theorem assignee_listed_but_forbidden:
  assumes "store_inv s" and "c_role c \<noteq> ''admin''" and "t \<in> set (tasks s)"
    and "assignedTo t = Some (c_id c)" and "createdBy t \<noteq> c_id c"
    and "rx (or_empty k) = Some m" and "keyword_query m t"
  shows "t \<in> set (listed (getAllTasks rx c k s))
       \<and> getTaskById c (t_id t) s = err 403 ''Access denied''
       \<and> updateTask c (t_id t) b s = (err 403 ''Access denied'', s)"
proof -
  have l: "t \<in> set (listed (getAllTasks rx c k s))"
    using assms by (simp add: listed_getAllTasks match_query_def)
  have "find_by_id (t_id t) (tasks s) = Some t"
    using assms(1,3) by (simp add: store_inv_def find_by_id_member)
  with l assms(2,5) show ?thesis
    by (simp add: getTaskById_def updateTask_def)
qed

theorem assignee_listed_but_forbidden_witness:
  "taskB \<in> set (listed (getAllTasks literal_rx user2 None db1))
   \<and> getTaskById user2 (t_id taskB) db1 = err 403 ''Access denied''
   \<and> updateTask user2 (t_id taskB) body_completed db1 = (err 403 ''Access denied'', db1)"
  by (rule assignee_listed_but_forbidden [OF db1_inv, where m = "ci_contains []"])
     (simp_all add: fixture_defs keyword_query_def literal_rx_def)

text \<open>
  C14: an admin's update may set \<open>assignedTo\<close> to a string that is not an
  identifier: unlike \<open>CreateTask\<close>, \<open>updateTask\<close> does not check it, so the
  store rejects the save and the caller gets an internal fault (500) instead of
  a validation error.
\<close>

theorem updateTask_admin_bad_assignee:
  assumes "store_inv s" and "c_role c = ''admin''" and "find_by_id i (tasks s) = Some t"
    and "\<not> truthy (b_status b) \<or> includes_status (b_status b)"
    and "truthy (b_assignedTo b)" and "\<not> is_object_id (the (b_assignedTo b))"
  shows "updateTask c i b s = (err 500 ''Internal server error'', s)"
proof (rule updateTask_admin_invalid [OF assms(1-4)])
  from assms(3) have "t \<in> set (tasks s)" by (auto dest: find_by_id_Some)
  with assms(1) have "task_valid t" by (rule stored_task_valid)
  with assms(5,6) show "\<not> task_valid (admin_update b t)" by (simp add: admin_update_valid)
qed

theorem updateTask_admin_bad_assignee_witness:
  "updateTask admin0 (t_id taskA) body_bad_assignee db1 = (err 500 ''Internal server error'', db1)"
proof -
  have f: "find_by_id (t_id taskA) (tasks db1) = Some taskA"
    by (simp add: fixture_defs find_by_id_def)
  show ?thesis
    by (rule updateTask_admin_bad_assignee [OF db1_inv _ f])
       (simp_all add: admin0_def body_bad_assignee_def empty_body_def is_object_id_def)
qed


text \<open>
  C9: an admin's update with a due date that is not a date (here: a
  non-empty string without a digit, which JavaScript's date parser never
  accepts, such as \<open>next week\<close>) reaches
  \<open>task.save()\<close>, where the store's cast to the schema's Date type fails;
  the handler's \<open>catch\<close> answers 500, not the specification's
  ValidationError, and nothing is written.
\<close>

theorem updateTask_admin_bad_dueDate:
  assumes "store_inv s" and "c_role c = ''admin''" and "find_by_id i (tasks s) = Some t"
    and "\<not> truthy (b_status b) \<or> includes_status (b_status b)"
    and "truthy (b_dueDate b)" and "\<not> list_ex is_digit (the (b_dueDate b))"
  shows "updateTask c i b s = (err 500 ''Internal server error'', s)
       \<and> error_kind_of (fst (updateTask c i b s)) = Some InternalFault"
proof -
  from assms(3) have "t \<in> set (tasks s)" by (auto dest: find_by_id_Some)
  with assms(1) have "task_valid t" by (rule stored_task_valid)
  moreover from assms(6) have "\<not> is_date (the (b_dueDate b))" by (auto dest: is_date_digit)
  ultimately have "\<not> task_valid (admin_update b t)" using assms(5) by (simp add: admin_update_valid)
  then have "updateTask c i b s = (err 500 ''Internal server error'', s)"
    by (rule updateTask_admin_invalid [OF assms(1-4)])
  then show ?thesis by (simp add: error_kind_of_def err_def)
qed

theorem updateTask_admin_bad_dueDate_witness:
  "updateTask admin0 (t_id taskA) body_bad_date db1 = (err 500 ''Internal server error'', db1)
   \<and> error_kind_of (fst (updateTask admin0 (t_id taskA) body_bad_date db1)) = Some InternalFault"
proof -
  have f: "find_by_id (t_id taskA) (tasks db1) = Some taskA"
    by (simp add: fixture_defs find_by_id_def)
  show ?thesis
    by (rule updateTask_admin_bad_dueDate [OF db1_inv _ f])
       (simp_all add: admin0_def body_bad_date_def empty_body_def is_digit_def)
qed

end
