(* ===== verification/Middleware.thy ===== *)
theory Middleware
  imports Fixtures
begin

text \<open>
  The authentication middleware of src/middleware/isAuthenticated.js.  It reads
  the \<open>Authorization\<close> header, takes the word after \<open>Bearer \<close>, has
  \<open>jsonwebtoken\<close> verify it against \<open>process.env.SECRET_KEY\<close>, and stores the
  token's \<open>userId\<close> and \<open>role\<close> as \<open>req.user\<close>.  The token library is
  external: its verification is the parameter \<open>verify key token\<close>, \<open>None\<close>
  where \<open>jwt.verify\<close> throws (bad signature, expired, malformed, no key).  An
  unset \<open>SECRET_KEY\<close> is \<open>None\<close>.  The result is the response the middleware
  sends (\<open>Inl\<close>) or the caller handed to the next handler (\<open>Inr\<close>).
\<close>

record jwt_claims =
  cl_userId :: "string option"
  cl_role :: "string option"

definition isAuthenticated ::
  "(string \<Rightarrow> string \<Rightarrow> jwt_claims option) \<Rightarrow> string option \<Rightarrow> string option \<Rightarrow> response + caller"
where
  "isAuthenticated verify secret hdr =
     (if \<not> truthy hdr \<or> \<not> starts_with ''Bearer '' (the hdr)
      then Inl (err 401 ''User not authenticated - No token provided'')
      else
        (let token = js_index (js_split CHR '' '' (the hdr)) 1 in
         case (case (secret, token) of (Some k, Some tok) \<Rightarrow> verify k tok | _ \<Rightarrow> None) of
           None \<Rightarrow> Inl (err 401 ''Invalid or expired token'')
         | Some d \<Rightarrow>
             (if \<not> truthy (cl_userId d) \<or> \<not> truthy (cl_role d)
              then Inl (err 401 ''Invalid token payload'')
              else Inr \<lparr>c_id = the (cl_userId d), c_role = the (cl_role d)\<rparr>)))"

section \<open>Lemmas\<close>

lemma hd_js_split: "hd (js_split c r) = takeWhile (\<lambda>x. x \<noteq> c) r"
  by (induction r) (auto split: list.split)

lemma starts_with_bearer:
  "starts_with ''Bearer '' h \<longleftrightarrow> (\<exists>r. h = ''Bearer '' @ r)"
  by (rule starts_with_iff)

text \<open>\<open>("Bearer " + r).split(" ")[1]\<close> is the first word of \<open>r\<close>.\<close>

lemma bearer_token:
  "js_index (js_split CHR '' '' (''Bearer '' @ r)) 1 = Some (takeWhile (\<lambda>x. x \<noteq> CHR '' '') r)"
proof -
  have "''Bearer '' @ r = ''Bearer'' @ CHR '' '' # r" by simp
  then have "js_split CHR '' '' (''Bearer '' @ r) = ''Bearer'' # js_split CHR '' '' r"
    by (simp only: js_split_append_sep [of "CHR '' ''" "''Bearer''" r]) simp
  moreover have "js_split CHR '' '' r \<noteq> []" by simp
  ultimately show ?thesis
    by (simp add: js_index_def hd_js_split [symmetric] hd_conv_nth)
qed

lemma isAuthenticated_bearer:
  "isAuthenticated verify secret (Some (''Bearer '' @ r)) =
     (case (case secret of Some k \<Rightarrow> verify k (takeWhile (\<lambda>x. x \<noteq> CHR '' '') r) | None \<Rightarrow> None) of
        None \<Rightarrow> Inl (err 401 ''Invalid or expired token'')
      | Some d \<Rightarrow>
          (if \<not> truthy (cl_userId d) \<or> \<not> truthy (cl_role d)
           then Inl (err 401 ''Invalid token payload'')
           else Inr \<lparr>c_id = the (cl_userId d), c_role = the (cl_role d)\<rparr>))"
  unfolding isAuthenticated_def Let_def option.sel bearer_token
  by (cases secret) (auto simp: starts_with_def split: option.split)

lemma isAuthenticated_no_bearer:
  "(\<nexists>r. h = Some (''Bearer '' @ r)) \<Longrightarrow>
   isAuthenticated verify secret h = Inl (err 401 ''User not authenticated - No token provided'')"
  by (cases h) (auto simp: isAuthenticated_def starts_with_bearer)

lemma isAuthenticated_typed: "isAuthenticated verify sk h = Inl r \<Longrightarrow> resp_typed r"
  by (auto simp: isAuthenticated_def Let_def split: if_splits option.splits prod.splits)

section \<open>Properties\<close>

text \<open>
  C15: the middleware lets a request through exactly when the secret key is
  set, the header is \<open>Bearer \<close> followed by a token whose first word the
  verifier accepts, and the decoded payload has a non-empty \<open>userId\<close> and
  \<open>role\<close>; the caller is then that \<open>userId\<close> and that \<open>role\<close>.
\<close>

theorem isAuthenticated_accepts:
  "isAuthenticated verify sk h = Inr c \<longleftrightarrow>
   (\<exists>k r d. sk = Some k \<and> h = Some (''Bearer '' @ r)
      \<and> verify k (takeWhile (\<lambda>x. x \<noteq> CHR '' '') r) = Some d
      \<and> truthy (cl_userId d) \<and> truthy (cl_role d)
      \<and> c = \<lparr>c_id = the (cl_userId d), c_role = the (cl_role d)\<rparr>)"
proof (cases "\<exists>r. h = Some (''Bearer '' @ r)")
  case True
  then obtain r where h: "h = Some (''Bearer '' @ r)" by blast
  show ?thesis
    unfolding h isAuthenticated_bearer
    by (cases sk) (auto split: option.split)
next
  case False
  then show ?thesis by (auto simp: isAuthenticated_no_bearer)
qed

text \<open>
  Every request the middleware stops is answered with 401, the
  specification's Unauthenticated, under one of its three messages.
\<close>

theorem isAuthenticated_rejects:
  assumes "isAuthenticated verify sk h = Inl r"
  shows "error_kind_of r = Some Unauthenticated
       \<and> r \<in> {err 401 ''User not authenticated - No token provided'',
              err 401 ''Invalid or expired token'', err 401 ''Invalid token payload''}"
  using assms
  by (auto simp: isAuthenticated_def Let_def split: if_splits option.splits prod.splits)

theorem isAuthenticated_rejects_witness:
  "error_kind_of (err 401 ''User not authenticated - No token provided'') = Some Unauthenticated
   \<and> err 401 ''User not authenticated - No token provided'' \<in>
       {err 401 ''User not authenticated - No token provided'',
        err 401 ''Invalid or expired token'', err 401 ''Invalid token payload''}"
  by (rule isAuthenticated_rejects [of "\<lambda>_ _. None" None None])
     (simp add: isAuthenticated_def)

end
