(* ===== verification/Router.thy ===== *)
theory Router
  imports TaskController Middleware
begin

text \<open>
  The task router of src/router/task.route.js: seven routes, each guarded by
  the middleware \<open>isAuth\<close> and then handled by its controller.  A request
  carries the \<open>Authorization\<close> header, the route with its \<open>:id\<close> parameter,
  the JSON body and the \<open>keyword\<close> query parameter.  \<open>handle_request\<close> is
  one request through Express: the middleware's answer, or the handler's
  answer and the new store.  The frame predicate \<open>keeps f s s'\<close> says that
  every task of \<open>s\<close> that is still stored in \<open>s'\<close> has kept its value of
  the field \<open>f\<close>.
\<close>

datatype route =
    RUser
  | RCounts
  | RCreateTask
  | RAllTask
  | RTask tid
  | RUpdate tid
  | RDelete tid

record request =
  rq_authorization :: "string option"
  rq_route :: route
  rq_body :: task_body
  rq_keyword :: "string option"

definition dispatch :: "regex_engine \<Rightarrow> caller \<Rightarrow> request \<Rightarrow> db \<Rightarrow> response \<times> db" where
  "dispatch rx c rq s =
     (case rq_route rq of
        RUser \<Rightarrow> (getAllUsers s, s)
      | RCounts \<Rightarrow> (getTaskCounts c s, s)
      | RCreateTask \<Rightarrow> CreateTask c (rq_body rq) s
      | RAllTask \<Rightarrow> (getAllTasks rx c (rq_keyword rq) s, s)
      | RTask i \<Rightarrow> (getTaskById c i s, s)
      | RUpdate i \<Rightarrow> updateTask c i (rq_body rq) s
      | RDelete i \<Rightarrow> deleteTask c i s)"

definition handle_request ::
  "(string \<Rightarrow> string \<Rightarrow> jwt_claims option) \<Rightarrow> regex_engine \<Rightarrow> string option \<Rightarrow>
   request \<Rightarrow> db \<Rightarrow> response \<times> db" where
  "handle_request verify rx secret rq s =
     (case isAuthenticated verify secret (rq_authorization rq) of
        Inl r \<Rightarrow> (r, s)
      | Inr c \<Rightarrow> dispatch rx c rq s)"

definition keeps :: "(task \<Rightarrow> 'a) \<Rightarrow> db \<Rightarrow> db \<Rightarrow> bool" where
  "keeps f s s' =
     list_all (\<lambda>t. case find_by_id (t_id t) (tasks s') of None \<Rightarrow> True | Some t' \<Rightarrow> f t' = f t)
       (tasks s)"

text \<open>
  The timestamps the handlers write: \<open>createdAt \<le> updatedAt \<le> now\<close> for
  every stored task.
\<close>

definition timestamps_ok :: "db \<Rightarrow> bool" where
  "timestamps_ok s = list_all (\<lambda>t. createdAt t \<le> updatedAt t \<and> updatedAt t \<le> clock s) (tasks s)"

section \<open>Frame lemmas\<close>

lemma keeps_tasks_cong: "tasks s' = tasks s'' \<Longrightarrow> keeps f s s' = keeps f s s''"
  by (simp add: keeps_def)

lemma keeps_refl: "store_inv s \<Longrightarrow> keeps f s s"
  by (auto simp: keeps_def list_all_iff store_inv_def find_by_id_member)

lemma find_by_id_append_old:
  "t \<in> set ts \<Longrightarrow> find_by_id (t_id t) (ts @ us) = find_by_id (t_id t) ts"
  by (induction ts) (auto simp: find_by_id_def)

lemma keeps_append:
  "store_inv s \<Longrightarrow> keeps f s (s'\<lparr>tasks := tasks s @ us\<rparr>)"
  by (auto simp: keeps_def list_all_iff store_inv_def find_by_id_append_old find_by_id_member)

lemma keeps_filter:
  assumes "store_inv s"
  shows "keeps f s (s'\<lparr>tasks := filter P (tasks s)\<rparr>)"
proof -
  have d: "distinct (map t_id (tasks s))" using assms by (simp add: store_inv_def)
  have "f t' = f t" if "t \<in> set (tasks s)" and "find_by_id (t_id t) (filter P (tasks s)) = Some t'" for t t'
  proof -
    from that(2) have "t' \<in> set (tasks s)" and "t_id t' = t_id t" by (auto dest: find_by_id_Some)
    with d that(1) have "t' = t" by (metis find_by_id_member option.inject)
    then show ?thesis by simp
  qed
  then show ?thesis by (auto simp: keeps_def list_all_iff split: option.split)
qed

lemma keeps_replace:
  assumes "store_inv s" and "find_by_id i (tasks s) = Some t" and "t_id u = i" and "f u = f t"
  shows "keeps f s (s'\<lparr>tasks := map (\<lambda>x. if t_id x = i then u else x) (tasks s)\<rparr>)"
proof -
  have d: "distinct (map t_id (tasks s))" using assms(1) by (simp add: store_inv_def)
  have ne: "find_by_id (t_id u) (tasks s) \<noteq> None" using assms(2,3) by simp
  have t: "t \<in> set (tasks s)" "t_id t = i" using assms(2) by (auto dest: find_by_id_Some)
  have rep: "find_by_id j (map (\<lambda>y. if t_id y = i then u else y) (tasks s)) =
             (if j = i then Some u else find_by_id j (tasks s))" for j
    using find_by_id_replace [OF d ne, of j] by (simp only: assms(3))
  have "f t'' = f x"
    if x: "x \<in> set (tasks s)"
    and fx: "find_by_id (t_id x) (map (\<lambda>y. if t_id y = i then u else y) (tasks s)) = Some t''" for x t''
  proof (cases "t_id x = i")
    case True
    with d x t have "x = t" by (metis find_by_id_member option.inject)
    moreover from fx True have "t'' = u" by (simp add: rep)
    ultimately show ?thesis using assms(4) by simp
  next
    case False
    with fx have "find_by_id (t_id x) (tasks s) = Some t''" by (simp add: rep)
    with d x have "t'' = x" by (simp add: find_by_id_member)
    then show ?thesis by simp
  qed
  with assms(3) show ?thesis by (auto simp: keeps_def list_all_iff split: option.split)
qed

section \<open>What each handler may change\<close>

lemma CreateTask_store:
  assumes "CreateTask c b s = (r, s')"
  shows "s' = s \<or> (\<exists>t. s' = s\<lparr>tasks := tasks s @ [t], id_seq := Suc (id_seq s)\<rparr>
                       \<and> task_valid t \<and> t_id t \<notin> t_id ` set (tasks s)
                       \<and> createdAt t = clock s \<and> updatedAt t = clock s
                       \<and> assignedTo t = b_assignedTo b \<and> createdBy t = c_id c
                       \<and> t_id t = oid_of_nat (id_seq s))"
proof (cases "\<exists>t s''. task_insert \<lparr>n_title = b_title b, n_description = b_description b,
        n_status = b_status b, n_priority = b_priority b, n_dueDate = b_dueDate b,
        n_assignedTo = b_assignedTo b, n_createdBy = c_id c\<rparr> s = Inr (t, s'')
      \<and> \<not> (truthy (b_assignedTo b) \<and> \<not> is_object_id (the (b_assignedTo b)))")
  case True
  then obtain t s'' where ins: "task_insert \<lparr>n_title = b_title b, n_description = b_description b,
        n_status = b_status b, n_priority = b_priority b, n_dueDate = b_dueDate b,
        n_assignedTo = b_assignedTo b, n_createdBy = c_id c\<rparr> s = Inr (t, s'')"
    and ok: "\<not> (truthy (b_assignedTo b) \<and> \<not> is_object_id (the (b_assignedTo b)))" by blast
  note i = task_insert_Inr [OF ins]
  note cst = cast_new_task_Inr [OF conjunct1 [OF i]]
  from assms ins ok have "s' = s''" by (simp add: CreateTask_def)
  with i cst show ?thesis
    by (intro disjI2 exI [of _ t]) (auto simp: find_by_id_None_iff)
next
  case False
  with assms show ?thesis
    by (auto simp: CreateTask_def split: if_splits sum.splits)
qed

lemma updateTask_store:
  assumes "updateTask c i b s = (r, s')"
  shows "s' = s \<or>
         (\<exists>t u. find_by_id i (tasks s) = Some t \<and> t_id u = t_id t \<and> createdBy u = createdBy t
            \<and> createdAt u = createdAt t \<and> updatedAt u = updatedAt t
            \<and> (c_role c \<noteq> ''admin'' \<longrightarrow> u = t\<lparr>status := status u\<rparr>)
            \<and> task_save (u\<lparr>updatedAt := clock s\<rparr>) s = Inr s')"
proof (cases "find_by_id i (tasks s)")
  case None
  with assms show ?thesis by (simp add: updateTask_def)
next
  case (Some t)
  define u where "u = (if c_role c \<noteq> ''admin''
                       then t\<lparr>status := the (status_of_string (the (b_status b)))\<rparr>
                       else admin_update b t)"
  have "s' = s \<or> task_save (u\<lparr>updatedAt := clock s\<rparr>) s = Inr s'"
    using assms Some
    by (auto simp: updateTask_def save_and_reply_def Let_def u_def split: if_splits sum.splits)
  moreover have "t_id u = t_id t \<and> createdBy u = createdBy t \<and> createdAt u = createdAt t
      \<and> updatedAt u = updatedAt t \<and> (c_role c \<noteq> ''admin'' \<longrightarrow> u = t\<lparr>status := status u\<rparr>)"
    by (simp add: u_def)
  ultimately show ?thesis using Some by blast
qed

lemma deleteTask_store:
  "deleteTask c i s = (r, s') \<Longrightarrow> s' = s \<or> s' = s\<lparr>tasks := filter (\<lambda>x. t_id x \<noteq> i) (tasks s)\<rparr>"
  by (auto simp: deleteTask_def find_by_id_and_delete_def split: if_splits option.splits)

lemma task_save_replace:
  assumes "store_inv s" and "find_by_id i (tasks s) = Some t" and "t_id u = t_id t"
    and "task_save u s = Inr s'"
  shows "s' = s\<lparr>tasks := map (\<lambda>x. if t_id x = i then u else x) (tasks s)\<rparr>"
proof -
  have "t_id t = i" using assms(2) by (auto dest: find_by_id_Some)
  with task_save_Inr [OF assms(4)] assms(3) show ?thesis by simp
qed

subsection \<open>Frames of the handlers\<close>

lemma CreateTask_keeps:
  assumes inv: "store_inv s" and cr: "CreateTask c b s = (r, s')"
  shows "keeps f s s'"
  using CreateTask_store [OF cr]
proof
  assume "s' = s"
  with inv show ?thesis by (simp add: keeps_refl)
next
  assume "\<exists>t. s' = s\<lparr>tasks := tasks s @ [t], id_seq := Suc (id_seq s)\<rparr> \<and> task_valid t
      \<and> t_id t \<notin> t_id ` set (tasks s) \<and> createdAt t = clock s \<and> updatedAt t = clock s
      \<and> assignedTo t = b_assignedTo b \<and> createdBy t = c_id c \<and> t_id t = oid_of_nat (id_seq s)"
  then obtain t where "tasks s' = tasks (s\<lparr>tasks := tasks s @ [t]\<rparr>)" by auto
  then have "keeps f s s' = keeps f s (s\<lparr>tasks := tasks s @ [t]\<rparr>)" by (rule keeps_tasks_cong)
  with keeps_append [OF inv] show ?thesis by simp
qed

lemma deleteTask_keeps: "store_inv s \<Longrightarrow> deleteTask c i s = (r, s') \<Longrightarrow> keeps f s s'"
  by (drule deleteTask_store) (auto simp: keeps_refl keeps_filter)

text \<open>An update keeps every field that an update of \<open>status\<close> and \<open>updatedAt\<close> keeps,
  when the caller is not an admin, and the origin fields for every caller.\<close>

lemma updateTask_keeps:
  assumes inv: "store_inv s" and up: "updateTask c i b s = (r, s')"
    and f: "\<And>u. f (u\<lparr>updatedAt := clock s\<rparr>) = f u"
    and fu: "\<And>t u. t_id u = t_id t \<Longrightarrow> createdBy u = createdBy t \<Longrightarrow> createdAt u = createdAt t
               \<Longrightarrow> (c_role c \<noteq> ''admin'' \<longrightarrow> u = t\<lparr>status := status u\<rparr>) \<Longrightarrow> f u = f t"
  shows "keeps f s s'"
  using updateTask_store [OF up]
proof
  assume "s' = s"
  with inv show ?thesis by (simp add: keeps_refl)
next
  assume "\<exists>t u. find_by_id i (tasks s) = Some t \<and> t_id u = t_id t \<and> createdBy u = createdBy t
            \<and> createdAt u = createdAt t \<and> updatedAt u = updatedAt t
            \<and> (c_role c \<noteq> ''admin'' \<longrightarrow> u = t\<lparr>status := status u\<rparr>)
            \<and> task_save (u\<lparr>updatedAt := clock s\<rparr>) s = Inr s'"
  then obtain t u where fd: "find_by_id i (tasks s) = Some t" and id: "t_id u = t_id t"
    and cb: "createdBy u = createdBy t" and ca: "createdAt u = createdAt t"
    and st: "c_role c \<noteq> ''admin'' \<longrightarrow> u = t\<lparr>status := status u\<rparr>"
    and sv: "task_save (u\<lparr>updatedAt := clock s\<rparr>) s = Inr s'" by blast
  have s': "s' = s\<lparr>tasks := map (\<lambda>x. if t_id x = i then u\<lparr>updatedAt := clock s\<rparr> else x) (tasks s)\<rparr>"
    using inv fd _ sv by (rule task_save_replace) (simp add: id)
  have "t_id (u\<lparr>updatedAt := clock s\<rparr>) = i" using fd id by (auto dest: find_by_id_Some)
  moreover have "f (u\<lparr>updatedAt := clock s\<rparr>) = f t" using f fu [OF id cb ca st] by simp
  ultimately show ?thesis using inv fd s' by (simp add: keeps_replace)
qed

subsection \<open>Timestamps\<close>

lemma timestamps_ok_clock:
  "timestamps_ok s \<Longrightarrow> clock s \<le> n \<Longrightarrow> timestamps_ok (s\<lparr>clock := n\<rparr>)"
  by (auto simp: timestamps_ok_def list_all_iff)

lemma CreateTask_timestamps:
  "timestamps_ok s \<Longrightarrow> CreateTask c b s = (r, s') \<Longrightarrow> timestamps_ok s'"
  by (drule CreateTask_store) (auto simp: timestamps_ok_def)

lemma deleteTask_timestamps:
  "timestamps_ok s \<Longrightarrow> deleteTask c i s = (r, s') \<Longrightarrow> timestamps_ok s'"
  by (drule deleteTask_store) (auto simp: timestamps_ok_def list_all_filter)

lemma updateTask_timestamps:
  assumes inv: "store_inv s" and ts: "timestamps_ok s" and up: "updateTask c i b s = (r, s')"
  shows "timestamps_ok s'"
  using updateTask_store [OF up]
proof
  assume "s' = s"
  with ts show ?thesis by simp
next
  assume "\<exists>t u. find_by_id i (tasks s) = Some t \<and> t_id u = t_id t \<and> createdBy u = createdBy t
            \<and> createdAt u = createdAt t \<and> updatedAt u = updatedAt t
            \<and> (c_role c \<noteq> ''admin'' \<longrightarrow> u = t\<lparr>status := status u\<rparr>)
            \<and> task_save (u\<lparr>updatedAt := clock s\<rparr>) s = Inr s'"
  then obtain t u where fd: "find_by_id i (tasks s) = Some t" and id: "t_id u = t_id t"
    and ca: "createdAt u = createdAt t"
    and sv: "task_save (u\<lparr>updatedAt := clock s\<rparr>) s = Inr s'" by blast
  have s': "s' = s\<lparr>tasks := map (\<lambda>x. if t_id x = i then u\<lparr>updatedAt := clock s\<rparr> else x) (tasks s)\<rparr>"
    using inv fd _ sv by (rule task_save_replace) (simp add: id)
  from fd have "t \<in> set (tasks s)" by (auto dest: find_by_id_Some)
  with ts have "createdAt t \<le> clock s" by (auto simp: timestamps_ok_def list_all_iff)
  with ca have "createdAt (u\<lparr>updatedAt := clock s\<rparr>) \<le> updatedAt (u\<lparr>updatedAt := clock s\<rparr>)
      \<and> updatedAt (u\<lparr>updatedAt := clock s\<rparr>) \<le> clock s" by simp
  with ts s' show ?thesis by (simp add: timestamps_ok_def list_all_replace)
qed

section \<open>One request through the router\<close>

lemma handle_request_cases:
  "handle_request verify rx sk rq s = (r, s') \<Longrightarrow>
   (\<exists>e. isAuthenticated verify sk (rq_authorization rq) = Inl e \<and> r = e \<and> s' = s)
   \<or> (\<exists>c. isAuthenticated verify sk (rq_authorization rq) = Inr c \<and> dispatch rx c rq s = (r, s'))"
  by (auto simp: handle_request_def split: sum.splits)

lemma dispatch_cases:
  assumes "dispatch rx c rq s = (r, s')"
  obtains (same) "s' = s"
    | (create) b where "CreateTask c b s = (r, s')"
    | (update) i b where "updateTask c i b s = (r, s')"
    | (delete) i where "deleteTask c i s = (r, s')"
  using assms by (cases "rq_route rq") (auto simp: dispatch_def)

lemma dispatch_inv: "store_inv s \<Longrightarrow> dispatch rx c rq s = (r, s') \<Longrightarrow> store_inv s'"
  by (erule dispatch_cases) (auto intro: CreateTask_inv updateTask_inv deleteTask_inv)

lemma dispatch_timestamps:
  "store_inv s \<Longrightarrow> timestamps_ok s \<Longrightarrow> dispatch rx c rq s = (r, s') \<Longrightarrow> timestamps_ok s'"
  by (erule dispatch_cases)
     (auto intro: CreateTask_timestamps updateTask_timestamps deleteTask_timestamps)

lemma CreateTask_clock: "CreateTask c b s = (r, s') \<Longrightarrow> clock s' = clock s"
  by (drule CreateTask_store) auto

lemma updateTask_clock: "updateTask c i b s = (r, s') \<Longrightarrow> clock s' = clock s"
  by (drule updateTask_store) (auto dest!: task_save_Inr)

lemma deleteTask_clock: "deleteTask c i s = (r, s') \<Longrightarrow> clock s' = clock s"
  by (drule deleteTask_store) auto

lemma dispatch_clock: "dispatch rx c rq s = (r, s') \<Longrightarrow> clock s' = clock s"
  by (erule dispatch_cases) (auto dest: CreateTask_clock updateTask_clock deleteTask_clock)

text \<open>Every request keeps the creator and the creation time of every task it leaves stored.\<close>

lemma dispatch_keeps_field:
  assumes inv: "store_inv s" and d: "dispatch rx c rq s = (r, s')"
    and f: "\<And>u. f (u\<lparr>updatedAt := clock s\<rparr>) = f u"
    and fu: "\<And>t u. t_id u = t_id t \<Longrightarrow> createdBy u = createdBy t \<Longrightarrow> createdAt u = createdAt t
               \<Longrightarrow> (c_role c \<noteq> ''admin'' \<longrightarrow> u = t\<lparr>status := status u\<rparr>) \<Longrightarrow> f u = f t"
  shows "keeps f s s'"
  using d
proof (cases rule: dispatch_cases)
  case same
  with inv show ?thesis by (simp add: keeps_refl)
next
  case (create b)
  with inv show ?thesis by (rule CreateTask_keeps)
next
  case (update i b)
  with inv show ?thesis using f fu by (rule updateTask_keeps)
next
  case (delete i)
  with inv show ?thesis by (rule deleteTask_keeps)
qed

lemma dispatch_keeps_origin:
  assumes "store_inv s" and "dispatch rx c rq s = (r, s')"
  shows "keeps createdBy s s' \<and> keeps createdAt s s'"
proof
  show "keeps createdBy s s'" using assms by (rule dispatch_keeps_field) simp_all
  show "keeps createdAt s s'" using assms by (rule dispatch_keeps_field) simp_all
qed

lemma dispatch_user_keeps:
  assumes "store_inv s" and "c_role c \<noteq> ''admin''" and "dispatch rx c rq s = (r, s')"
    and "\<And>u. f (u\<lparr>updatedAt := clock s\<rparr>) = f u" and "\<And>u x. f (u\<lparr>status := x\<rparr>) = f u"
  shows "keeps f s s'"
  using assms(1,3,4)
proof (rule dispatch_keeps_field)
  fix t u :: task
  assume "c_role c \<noteq> ''admin'' \<longrightarrow> u = t\<lparr>status := status u\<rparr>"
  with assms(2) have "u = t\<lparr>status := status u\<rparr>" by simp
  then have "f u = f (t\<lparr>status := status u\<rparr>)" by simp
  also have "\<dots> = f t" by (rule assms(5))
  finally show "f u = f t" .
qed

section \<open>Properties\<close>

text \<open>
  C16: every request to a task route gets a well-typed reply: one of the status
  codes 200, 201, 400, 401, 403, 404 and 500, with \<open>success\<close> true exactly on
  200 and 201, whatever the token, the route, the body and the store.
\<close>

theorem handle_request_typed: "resp_typed (fst (handle_request v rx k rq s))"
  by (auto simp: handle_request_def dispatch_def handlers_typed isAuthenticated_typed
           split: sum.split route.split)

end
