(* ===== verification/App.thy ===== *)
theory App
  imports Router
begin

text \<open>
  The Express application of src/index.js and the path matching of
  src/router/task.route.js.  An HTTP request carries a method, a path name,
  the \<open>Authorization\<close> header, the body as the body parsers see it and the
  \<open>keyword\<close> query parameter.  \<open>app_handle\<close> runs the application's layers
  in the order index.js registers them: the route \<open>GET /\<close> (line 13), the
  JSON and form body parsers (lines 17--18), \<open>cors\<close> (line 24), the
  authentication router under \<open>/api/v1/auth\<close> (line 28), the task router
  under \<open>/api/v1/task\<close> (line 29), and Express's final 404 handler.
  Paths are matched as Express matches them by default: case-insensitively,
  with an optional trailing slash, a mount point ending at a segment boundary,
  and the \<open>:id\<close> parameter one non-empty segment, percent-decoded by the
  parameter \<open>dec\<close> (\<open>None\<close>: Express answers 400).  The router file of
  \<open>/api/v1/auth\<close> is not among the sources; it is the parameter \<open>auth\<close>
  (\<open>None\<close>: none of its routes matched).
\<close>

datatype http_method = GET | HEAD | POST | PUT | DELETE | PATCH | OPTIONS

text \<open>
  The body after \<open>express.json()\<close> and \<open>express.urlencoded()\<close>: absent
  (\<open>req.body = {}\<close>), parsed, or malformed (the parser fails the request).
\<close>

datatype 'b body_in = NoBody | Parsed 'b | Malformed

record http_req =
  hr_method :: http_method
  hr_path :: string
  hr_authorization :: "string option"
  hr_body :: "task_body body_in"
  hr_keyword :: "string option"

text \<open>
  What the application answers: the greeting of \<open>GET /\<close>, a controller's
  response, the body parser's 400, the CORS preflight's 204, the 400 of an
  undecodable parameter, or the final handler's 404 \<open>Cannot METHOD path\<close>;
  \<open>ar_cors\<close> records whether the \<open>cors\<close> middleware set its headers.
\<close>

datatype reply =
    Hello
  | Handled response
  | BadBody
  | Preflight
  | BadParam
  | NotFound http_method string

record app_resp =
  ar_reply :: reply
  ar_cors :: bool

section \<open>Express path matching\<close>

text \<open>A route registered for GET also answers HEAD.\<close>

definition method_ok :: "http_method \<Rightarrow> http_method \<Rightarrow> bool" where
  "method_ok rm m = (m = rm \<or> (rm = GET \<and> m = HEAD))"

text \<open>
  A route path without parameters, compiled as \<open>^path\/?$\<close> with the
  \<open>i\<close> flag (a path ending in a slash makes that slash optional).
\<close>

definition match_exact :: "string \<Rightarrow> string \<Rightarrow> bool" where
  "match_exact r p =
     (if r \<noteq> [] \<and> last r = CHR ''/'' then lower p = lower (butlast r) \<or> lower p = lower r
      else lower p = lower r \<or> lower p = lower r @ ''/'')"

text \<open>
  A route \<open>pre:id\<close>, compiled as \<open>^pre([^\/]+?)\/?$\<close> with the \<open>i\<close>
  flag: the raw parameter.
\<close>

definition match_param :: "string \<Rightarrow> string \<Rightarrow> string option" where
  "match_param pre p =
     (if lower (take (length pre) p) = lower pre then
        (let x = drop (length pre) p;
             x' = (if x \<noteq> [] \<and> last x = CHR ''/'' then butlast x else x)
         in if x' \<noteq> [] \<and> CHR ''/'' \<notin> set x' then Some x' else None)
      else None)"

text \<open>
  \<open>app.use(pre, router)\<close>: the prefix compiled as \<open>^pre\/?(?=\/|$)\<close> with
  the \<open>i\<close> flag; the router sees the rest of the path, \<open>/\<close> when nothing is
  left.
\<close>

definition mount :: "string \<Rightarrow> string \<Rightarrow> string option" where
  "mount pre p =
     (if lower (take (length pre) p) = lower pre then
        (let r = drop (length pre) p in
         if r = [] then Some ''/''
         else if hd r = CHR ''/'' then Some (if tl r \<noteq> [] \<and> hd (tl r) = CHR ''/'' then tl r else r)
         else None)
      else None)"

datatype layer_path = Exact string | WithId string

definition layer_match :: "layer_path \<Rightarrow> string \<Rightarrow> string option option" where
  "layer_match lp p =
     (case lp of
        Exact r \<Rightarrow> (if match_exact r p then Some None else None)
      | WithId pre \<Rightarrow> map_option Some (match_param pre p))"

definition decode_param :: "(string \<Rightarrow> string option) \<Rightarrow> string option \<Rightarrow> string option" where
  "decode_param dec x = (case x of None \<Rightarrow> Some [] | Some y \<Rightarrow> dec y)"

datatype rmatch = Miss | Undecodable | Hit route

text \<open>
  The router's walk over its stack: a layer whose path matches has its
  parameter decoded before its method is looked at, and a decoding failure
  ends the walk with an error.
\<close>

fun router_walk ::
  "(string \<Rightarrow> string option) \<Rightarrow> (http_method \<times> layer_path \<times> (tid \<Rightarrow> route)) list \<Rightarrow>
   http_method \<Rightarrow> string \<Rightarrow> rmatch" where
  "router_walk dec [] m p = Miss"
| "router_walk dec ((rm, lp, mk) # ls) m p =
     (case layer_match lp p of
        None \<Rightarrow> router_walk dec ls m p
      | Some x \<Rightarrow>
          (case decode_param dec x of
             None \<Rightarrow> Undecodable
           | Some i \<Rightarrow> (if method_ok rm m then Hit (mk i) else router_walk dec ls m p)))"

text \<open>The stack of src/router/task.route.js, lines 14--20.\<close>

definition task_routes :: "(http_method \<times> layer_path \<times> (tid \<Rightarrow> route)) list" where
  "task_routes =
     [(GET, Exact ''/user'', \<lambda>_. RUser),
      (GET, Exact ''/counts'', \<lambda>_. RCounts),
      (POST, Exact ''/create-task'', \<lambda>_. RCreateTask),
      (GET, Exact ''/all-task'', \<lambda>_. RAllTask),
      (GET, WithId ''/task/'', RTask),
      (PUT, WithId ''/update/'', RUpdate),
      (DELETE, WithId ''/delete/'', RDelete)]"

definition task_route :: "(string \<Rightarrow> string option) \<Rightarrow> http_method \<Rightarrow> string \<Rightarrow> rmatch" where
  "task_route dec m p =
     (case mount ''/api/v1/task'' p of None \<Rightarrow> Miss | Some p' \<Rightarrow> router_walk dec task_routes m p')"

section \<open>The application\<close>

definition body_of :: "task_body body_in \<Rightarrow> task_body" where
  "body_of b = (case b of Parsed x \<Rightarrow> x | _ \<Rightarrow> empty_body)"

definition to_request :: "http_req \<Rightarrow> route \<Rightarrow> request" where
  "to_request q r =
     \<lparr>rq_authorization = hr_authorization q, rq_route = r, rq_body = body_of (hr_body q),
      rq_keyword = hr_keyword q\<rparr>"

definition app_handle ::
  "(string \<Rightarrow> string \<Rightarrow> jwt_claims option) \<Rightarrow> regex_engine \<Rightarrow> string option \<Rightarrow>
   (string \<Rightarrow> string option) \<Rightarrow> (http_req \<Rightarrow> db \<Rightarrow> (response \<times> db) option) \<Rightarrow>
   http_req \<Rightarrow> db \<Rightarrow> app_resp \<times> db" where
  "app_handle v rx k dec auth q s =
     (if method_ok GET (hr_method q) \<and> match_exact ''/'' (hr_path q)
      then (\<lparr>ar_reply = Hello, ar_cors = False\<rparr>, s)
      else if hr_body q = Malformed then (\<lparr>ar_reply = BadBody, ar_cors = False\<rparr>, s)
      else if hr_method q = OPTIONS then (\<lparr>ar_reply = Preflight, ar_cors = True\<rparr>, s)
      else
        (case (case mount ''/api/v1/auth'' (hr_path q) of
                 None \<Rightarrow> None
               | Some p \<Rightarrow> auth (q\<lparr>hr_path := p\<rparr>) s) of
           Some (r, s') \<Rightarrow> (\<lparr>ar_reply = Handled r, ar_cors = True\<rparr>, s')
         | None \<Rightarrow>
            (case task_route dec (hr_method q) (hr_path q) of
               Miss \<Rightarrow> (\<lparr>ar_reply = NotFound (hr_method q) (hr_path q), ar_cors = True\<rparr>, s)
             | Undecodable \<Rightarrow> (\<lparr>ar_reply = BadParam, ar_cors = True\<rparr>, s)
             | Hit r \<Rightarrow>
                 (case handle_request v rx k (to_request q r) s of
                    (resp, s') \<Rightarrow> (\<lparr>ar_reply = Handled resp, ar_cors = True\<rparr>, s')))))"

section \<open>Client URLs\<close>

text \<open>
  The method and URL a client uses for a route, the identifier written into
  the path by an encoder \<open>enc\<close> (such as \<open>encodeURIComponent\<close>).
\<close>

fun route_method :: "route \<Rightarrow> http_method" where
  "route_method RUser = GET"
| "route_method RCounts = GET"
| "route_method RCreateTask = POST"
| "route_method RAllTask = GET"
| "route_method (RTask i) = GET"
| "route_method (RUpdate i) = PUT"
| "route_method (RDelete i) = DELETE"

fun route_url :: "(tid \<Rightarrow> string) \<Rightarrow> route \<Rightarrow> string" where
  "route_url enc RUser = ''/api/v1/task/user''"
| "route_url enc RCounts = ''/api/v1/task/counts''"
| "route_url enc RCreateTask = ''/api/v1/task/create-task''"
| "route_url enc RAllTask = ''/api/v1/task/all-task''"
| "route_url enc (RTask i) = ''/api/v1/task/task/'' @ enc i"
| "route_url enc (RUpdate i) = ''/api/v1/task/update/'' @ enc i"
| "route_url enc (RDelete i) = ''/api/v1/task/delete/'' @ enc i"

fun route_id :: "route \<Rightarrow> tid option" where
  "route_id (RTask i) = Some i"
| "route_id (RUpdate i) = Some i"
| "route_id (RDelete i) = Some i"
| "route_id _ = None"

text \<open>A listing request without a token, for the witnesses.\<close>

definition req_all :: http_req where
  "req_all = \<lparr>hr_method = GET, hr_path = ''/api/v1/task/all-task'', hr_authorization = None,
              hr_body = NoBody, hr_keyword = None\<rparr>"

text \<open>The user directory requested with a bearer token, for the witnesses.\<close>

definition req_users :: http_req where
  "req_users = \<lparr>hr_method = GET, hr_path = ''/api/v1/task/user'', hr_authorization = Some ''Bearer t1'',
                hr_body = NoBody, hr_keyword = None\<rparr>"

section \<open>Lemmas\<close>

lemma lower_append [simp]: "lower (xs @ ys) = lower xs @ lower ys"
  by (simp add: lower_def)

lemma length_lower [simp]: "length (lower xs) = length xs"
  by (simp add: lower_def)

lemma match_param_append:
  assumes "e \<noteq> []" "CHR ''/'' \<notin> set e"
  shows "match_param pre (pre @ e) = Some e"
proof -
  have "last e \<noteq> CHR ''/''" using assms last_in_set by metis
  with assms show ?thesis by (simp add: match_param_def Let_def)
qed
lemma mount_append:
  assumes "q \<noteq> []" "hd q = CHR ''/''" "tl q = [] \<or> hd (tl q) \<noteq> CHR ''/''"
  shows "mount pre (pre @ q) = Some q"
  using assms by (auto simp: mount_def)

lemma task_route_mount:
  "task_route dec m p \<noteq> Miss \<Longrightarrow> lower (take (length ''/api/v1/task'') p) = lower ''/api/v1/task''"
  unfolding task_route_def mount_def by (auto split: if_splits)

text \<open>A path the task mount accepts is neither \<open>/\<close> nor under the authentication mount.\<close>

lemma task_route_not_front:
  assumes "task_route dec m p \<noteq> Miss"
  shows "mount ''/api/v1/auth'' p = None" and "\<not> match_exact ''/'' p"
proof -
  have t: "lower (take (length ''/api/v1/task'') p) = lower ''/api/v1/task''"
    using task_route_mount [OF assms] .
  have ne: "lower ''/api/v1/task'' \<noteq> lower ''/api/v1/auth''"
    by (simp add: lower_def lower_char_def)
  have "length ''/api/v1/auth'' = length ''/api/v1/task''" by simp
  with t ne show "mount ''/api/v1/auth'' p = None"
    unfolding mount_def by metis
  have "length (take (length ''/api/v1/task'') p) = length ''/api/v1/task''"
    using arg_cong [OF t, of length] by simp
  then have "length ''/api/v1/task'' \<le> length p" by simp
  moreover have "length p \<le> 1" if "match_exact ''/'' p"
    using that by (auto simp: match_exact_def lower_def dest!: arg_cong [where f = length])
  ultimately show "\<not> match_exact ''/'' p" by fastforce
qed

lemma app_handle_routed:
  assumes "hr_body q \<noteq> Malformed" "hr_method q \<noteq> OPTIONS" "task_route dec (hr_method q) (hr_path q) \<noteq> Miss"
  shows "app_handle v rx k dec auth q s =
           (case task_route dec (hr_method q) (hr_path q) of
              Miss \<Rightarrow> (\<lparr>ar_reply = NotFound (hr_method q) (hr_path q), ar_cors = True\<rparr>, s)
            | Undecodable \<Rightarrow> (\<lparr>ar_reply = BadParam, ar_cors = True\<rparr>, s)
            | Hit r \<Rightarrow>
                (case handle_request v rx k (to_request q r) s of
                   (resp, s') \<Rightarrow> (\<lparr>ar_reply = Handled resp, ar_cors = True\<rparr>, s')))"
  using assms task_route_not_front [OF assms(3)] by (simp add: app_handle_def)

text \<open>A route the walk finds was registered for the request's method.\<close>

lemma router_walk_method:
  "list_all (\<lambda>(rm, lp, mk). \<forall>i. route_method (mk i) = rm) ls \<Longrightarrow>
   router_walk dec ls m p = Hit r \<Longrightarrow> method_ok (route_method r) m"
  by (induction dec ls m p rule: router_walk.induct) (auto split: option.splits if_splits)

lemma task_route_method:
  assumes "task_route dec m p = Hit r"
  shows "method_ok (route_method r) m" and "m \<noteq> OPTIONS"
proof -
  obtain p' where w: "router_walk dec task_routes m p' = Hit r"
    using assms by (auto simp: task_route_def split: option.splits)
  have l: "list_all (\<lambda>(rm, lp, mk). \<forall>i. route_method (mk i) = rm) task_routes"
    by (simp add: task_routes_def)
  show mo: "method_ok (route_method r) m" by (rule router_walk_method [OF l w])
  then show "m \<noteq> OPTIONS" by (cases r) (auto simp: method_ok_def)
qed

text \<open>The three identifier routes, for an encoded identifier \<open>e\<close>.\<close>

lemma id_url:
  assumes e: "e \<noteq> []" "CHR ''/'' \<notin> set e"
  shows "task_route dec GET (''/api/v1/task/task/'' @ e) = (case dec e of None \<Rightarrow> Undecodable | Some i \<Rightarrow> Hit (RTask i))"
    and "task_route dec PUT (''/api/v1/task/update/'' @ e) = (case dec e of None \<Rightarrow> Undecodable | Some i \<Rightarrow> Hit (RUpdate i))"
    and "task_route dec DELETE (''/api/v1/task/delete/'' @ e) = (case dec e of None \<Rightarrow> Undecodable | Some i \<Rightarrow> Hit (RDelete i))"
proof -
  have m: "mount ''/api/v1/task'' (''/api/v1/task'' @ x @ e) = Some (x @ e)" if "x \<noteq> []" "hd x = CHR ''/''" "tl x \<noteq> [] \<and> hd (tl x) \<noteq> CHR ''/''" for x
    by (rule mount_append) (use that in auto)
  have lits: "''/api/v1/task/task/'' = ''/api/v1/task'' @ ''/task/''"
    "''/api/v1/task/update/'' = ''/api/v1/task'' @ ''/update/''"
    "''/api/v1/task/delete/'' = ''/api/v1/task'' @ ''/delete/''" by simp_all
  have p: "match_param x (x @ e) = Some e" for x using match_param_append [OF e] .
  have n: "match_param x (y @ e) = None" if "lower (take (length x) (y @ e)) \<noteq> lower x" for x y
    using that by (simp add: match_param_def)
  note defs = task_route_def task_routes_def layer_match_def match_exact_def decode_param_def method_ok_def
  show "task_route dec GET (''/api/v1/task/task/'' @ e) = (case dec e of None \<Rightarrow> Undecodable | Some i \<Rightarrow> Hit (RTask i))"
    unfolding lits append_assoc using m [of "''/task/''"] p [of "''/task/''"] e
    by (simp add: defs lower_def lower_char_def split: option.split)
  show "task_route dec PUT (''/api/v1/task/update/'' @ e) = (case dec e of None \<Rightarrow> Undecodable | Some i \<Rightarrow> Hit (RUpdate i))"
    unfolding lits append_assoc using m [of "''/update/''"] p [of "''/update/''"] n [of "''/task/''" "''/update/''"] e
    by (simp add: defs lower_def lower_char_def split: option.split)
  show "task_route dec DELETE (''/api/v1/task/delete/'' @ e) = (case dec e of None \<Rightarrow> Undecodable | Some i \<Rightarrow> Hit (RDelete i))"
    unfolding lits append_assoc using m [of "''/delete/''"] p [of "''/delete/''"] n [of "''/task/''" "''/delete/''"] n [of "''/update/''" "''/delete/''"] e
    by (simp add: defs lower_def lower_char_def split: option.split)
qed

section \<open>Properties of the application\<close>

text \<open>
  C11: a request that the task mount and router of task.route.js match to a
  route, with a body the parsers accept, is answered by \<open>handle_request\<close> (the middleware, then the
  route's handler) on that route, with the request's header, body and keyword,
  and the answer carries the CORS headers.
\<close>

theorem app_task_request:
  assumes "hr_body q \<noteq> Malformed" and "task_route dec (hr_method q) (hr_path q) = Hit r"
  shows "app_handle v rx k dec auth q s =
           (\<lparr>ar_reply = Handled (fst (handle_request v rx k (to_request q r) s)), ar_cors = True\<rparr>,
            snd (handle_request v rx k (to_request q r) s))"
proof -
  have "hr_method q \<noteq> OPTIONS" using task_route_method(2) [OF assms(2)] .
  with assms show ?thesis using app_handle_routed [of q dec v rx k auth s] by (simp split: prod.split)
qed

theorem app_task_request_witness:
  "app_handle (\<lambda>_ _. None) literal_rx None Some (\<lambda>_ _. None) req_all db1 =
     (\<lparr>ar_reply = Handled (fst (handle_request (\<lambda>_ _. None) literal_rx None (to_request req_all RAllTask) db1)),
       ar_cors = True\<rparr>,
      snd (handle_request (\<lambda>_ _. None) literal_rx None (to_request req_all RAllTask) db1))"
  by (rule app_task_request) (simp add: req_all_def, code_simp)

text \<open>
  C23: the user directory is open.  Through the application,
  \<open>GET /api/v1/task/user\<close> from any caller the middleware accepts, whatever
  its role, is answered 200 with the identifier, full name, email and role of
  every registered user, in store order, and changes nothing; no other field
  of a user, the password hash included, is sent.
\<close>

theorem app_user_directory:
  assumes "hr_body q \<noteq> Malformed" and "task_route dec (hr_method q) (hr_path q) = Hit RUser"
    and "isAuthenticated v k (hr_authorization q) = Inr c"
  shows "app_handle v rx k dec auth q s =
           (\<lparr>ar_reply = Handled (Json 200 True []
               (UserList (map (\<lambda>u. \<lparr>v_id = u_id u, v_fullname = fullname u, v_email = email u,
                                    v_role = role u\<rparr>) (users s)))),
             ar_cors = True\<rparr>, s)"
proof -
  have "hr_method q \<noteq> OPTIONS" using task_route_method(2) [OF assms(2)] .
  with assms show ?thesis using app_handle_routed [of q dec v rx k auth s]
    by (simp add: handle_request_def dispatch_def to_request_def getAllUsers_def)
qed

theorem app_user_directory_witness:
  "app_handle (\<lambda>_ _. Some \<lparr>cl_userId = Some uid1, cl_role = Some ''user''\<rparr>) literal_rx (Some ''S'') Some
      (\<lambda>_ _. None) req_users db1 =
     (\<lparr>ar_reply = Handled (Json 200 True []
         (UserList (map (\<lambda>u. \<lparr>v_id = u_id u, v_fullname = fullname u, v_email = email u,
                              v_role = role u\<rparr>) (users db1)))),
       ar_cors = True\<rparr>, db1)"
proof (rule app_user_directory)
  show "isAuthenticated (\<lambda>_ _. Some \<lparr>cl_userId = Some uid1, cl_role = Some ''user''\<rparr>) (Some ''S'')
          (hr_authorization req_users) = Inr \<lparr>c_id = uid1, c_role = ''user''\<rparr>"
    unfolding req_users_def by code_simp
qed (simp add: req_users_def, code_simp)

text \<open>
  C21: the CORS headers are on every answer except the two the layers
  registered before \<open>cors\<close> give: the greeting of \<open>GET /\<close> and the body
  parser's 400.  A cross-origin browser client cannot read either.
\<close>

theorem app_cors_headers:
  "ar_cors (fst (app_handle v rx k dec auth q s)) \<longleftrightarrow>
     \<not> (method_ok GET (hr_method q) \<and> match_exact ''/'' (hr_path q)) \<and> hr_body q \<noteq> Malformed"
  by (simp add: app_handle_def split: option.split rmatch.split prod.split)

text \<open>
  C32: printing a route as the URL a client requests and matching that URL
  against the task mount and router gives the route back, for every
  identifier whose encoding is a non-empty path segment that Express's
  parameter decoding turns back into the identifier.
\<close>

theorem task_route_url:
  assumes "\<forall>i. route_id r = Some i \<longrightarrow> enc i \<noteq> [] \<and> CHR ''/'' \<notin> set (enc i) \<and> dec (enc i) = Some i"
  shows "task_route dec (route_method r) (route_url enc r) = Hit r"
proof (cases "route_id r")
  case None
  then show ?thesis by (cases r) (simp_all, code_simp+)
next
  case (Some i)
  with assms have e: "enc i \<noteq> []" "CHR ''/'' \<notin> set (enc i)" and d: "dec (enc i) = Some i" by auto
  from Some show ?thesis
    by (cases r) (simp_all only: route_url.simps route_method.simps id_url [OF e] d option.case route_id.simps option.distinct option.inject)
qed

theorem task_route_url_witness:
  "task_route Some (route_method (RUpdate ''abc'')) (route_url (\<lambda>i. i) (RUpdate ''abc'')) = Hit (RUpdate ''abc'')"
  by (rule task_route_url) simp

end
