(* ===== verification/AuthController.thy ===== *)
theory AuthController
  imports Middleware
begin

text \<open>
  The authentication controller, src/controllers/auth.controller.js:
  \<open>register\<close> (lines 5--37) and \<open>login\<close> (lines 39--105).  \<open>register\<close> is
  split where the code awaits the store: \<open>register_check\<close> is lines 7--22
  (field check, \<open>User.findOne\<close>, hashing) and yields either the early
  response or the document to create, \<open>register_commit\<close> is lines 24--36
  (\<open>User.create\<close>, the reply, and the \<open>catch\<close> that logs and sends nothing).
  Two requests can interleave between the two halves.  \<open>bcrypt.hash\<close> is the
  parameter \<open>hash\<close> (salted, so any function), \<open>bcrypt.compare\<close> the
  parameter \<open>check\<close>, \<open>jwt.sign\<close> the parameter \<open>sign key claims\<close>.  The
  login response carries the token and the user object; the cookie it also
  sets holds the same token and is read by no route of the repository.
\<close>

record register_body =
  r_fullname :: "string option"
  r_email :: "string option"
  r_phoneNumber :: "string option"
  r_password :: "string option"

record login_body =
  lg_email :: "string option"
  lg_password :: "string option"

section \<open>Handlers\<close>

definition register_check ::
  "(string \<Rightarrow> string) \<Rightarrow> register_body \<Rightarrow> db \<Rightarrow> response + new_user" where
  "register_check hash b s =
     (if \<not> truthy (r_fullname b) \<or> \<not> truthy (r_email b) \<or> \<not> truthy (r_phoneNumber b)
         \<or> \<not> truthy (r_password b)
      then Inl (err 400 ''something is missing'')
      else if find_user_by_email (the (r_email b)) (users s) \<noteq> None
      then Inl (Json 201 False ''user already exist'' NoData)
      else Inr \<lparr>nu_fullname = the (r_fullname b), nu_email = the (r_email b),
                nu_phoneNumber = the (r_phoneNumber b), nu_password = hash (the (r_password b))\<rparr>)"

definition register_commit :: "new_user \<Rightarrow> db \<Rightarrow> response \<times> db" where
  "register_commit nu s =
     (case user_insert nu s of
        Inl e \<Rightarrow> (NoResponse, s)
      | Inr (u, s') \<Rightarrow> (Json 200 True ''Account created successfuly'' NoData, s'))"

definition register :: "(string \<Rightarrow> string) \<Rightarrow> register_body \<Rightarrow> db \<Rightarrow> response \<times> db" where
  "register hash b s =
     (case register_check hash b s of
        Inl r \<Rightarrow> (r, s)
      | Inr nu \<Rightarrow> register_commit nu s)"

text \<open>The claims \<open>login\<close> signs: \<open>{userId: user._id, role: user.role}\<close>.\<close>

definition token_data :: "user \<Rightarrow> jwt_claims" where
  "token_data u = \<lparr>cl_userId = Some (u_id u), cl_role = Some (role u)\<rparr>"

definition login ::
  "(string \<Rightarrow> string \<Rightarrow> bool) \<Rightarrow> (string \<Rightarrow> jwt_claims \<Rightarrow> string) \<Rightarrow> login_body \<Rightarrow> db \<Rightarrow> response" where
  "login check sign b s =
     (if \<not> truthy (lg_email b) \<or> \<not> truthy (lg_password b)
      then err 400 ''Something is missing''
      else
        (case find_user_by_email (the (lg_email b)) (users s) of
           None \<Rightarrow> err 400 ''Incorrect email or password''
         | Some u \<Rightarrow>
             (if \<not> check (the (lg_password b)) (password u)
              then err 400 ''Incorrect email or password''
              else
                (let token = sign ''Krishna'' (token_data u) in
                 Json 200 True (''Welcome back '' @ fullname u)
                   (LoginData token
                      \<lparr>l_id = u_id u, l_fullname = fullname u, l_email = email u,
                       l_phoneNumber = phoneNumber u, l_profile = profile u, l_role = role u\<rparr>)))))"

section \<open>A reference token scheme\<close>

text \<open>
  An executable stand-in for \<open>jsonwebtoken\<close> used to instantiate the
  theorems about tokens: the key and the two claims, each written as
  hexadecimal bytes, joined by dots.  It has the two properties the theorems
  assume of the library: a token verifies exactly under the key that signed it,
  giving back the signed claims, and a token contains no space.
\<close>

definition enc_str :: "string \<Rightarrow> string" where
  "enc_str s = concat (map (\<lambda>c. hex_fixed 2 (of_char c)) s)"

fun dec_str :: "string \<Rightarrow> string" where
  "dec_str (a # b # r) = char_of (nat_of_hex [a, b]) # dec_str r"
| "dec_str _ = []"

fun enc_opt :: "string option \<Rightarrow> string" where
  "enc_opt None = ''n''"
| "enc_opt (Some s) = CHR ''s'' # enc_str s"

definition dec_opt :: "string \<Rightarrow> string option" where
  "dec_opt t = (case t of x # r \<Rightarrow> if x = CHR ''s'' then Some (dec_str r) else None | [] \<Rightarrow> None)"

definition ref_sign :: "string \<Rightarrow> jwt_claims \<Rightarrow> string" where
  "ref_sign k c = enc_str k @ ''.'' @ enc_opt (cl_userId c) @ ''.'' @ enc_opt (cl_role c)"

definition ref_verify :: "string \<Rightarrow> string \<Rightarrow> jwt_claims option" where
  "ref_verify k tok =
     (case js_split CHR ''.'' tok of
        [a, b, c] \<Rightarrow> (if a = enc_str k then Some \<lparr>cl_userId = dec_opt b, cl_role = dec_opt c\<rparr> else None)
      | _ \<Rightarrow> None)"

section \<open>Fixtures\<close>

text \<open>A registered user, a store holding her, and register and login bodies.\<close>

definition demo_hash :: "string \<Rightarrow> string" where
  "demo_hash p = ''h:'' @ p"

definition demo_check :: "string \<Rightarrow> string \<Rightarrow> bool" where
  "demo_check p h = (h = demo_hash p)"

definition alice :: user where
  "alice = \<lparr>u_id = uid1, fullname = ''Alice'', email = ''alice@example.com'', phoneNumber = ''555'',
            password = ''h:pw1'', role = ''user'', profile = None\<rparr>"

definition db_a :: db where
  "db_a = db1\<lparr>users := [alice]\<rparr>"

definition reg_alice :: register_body where
  "reg_alice = \<lparr>r_fullname = Some ''Alice'', r_email = Some ''alice@example.com'',
                r_phoneNumber = Some ''555'', r_password = Some ''pw1''\<rparr>"

definition reg_bob :: register_body where
  "reg_bob = \<lparr>r_fullname = Some ''Bob'', r_email = Some ''bob@example.com'',
              r_phoneNumber = Some ''556'', r_password = Some ''pw2''\<rparr>"

definition login_alice :: login_body where
  "login_alice = \<lparr>lg_email = Some ''alice@example.com'', lg_password = Some ''pw1''\<rparr>"

lemmas auth_fixture_defs = demo_hash_def demo_check_def alice_def db_a_def reg_alice_def reg_bob_def
  login_alice_def

section \<open>Lemmas\<close>

lemma register_check_Inr:
  assumes "register_check hash b s = Inr nu"
  shows "truthy (r_fullname b) \<and> truthy (r_email b) \<and> truthy (r_phoneNumber b) \<and> truthy (r_password b)
       \<and> the (r_email b) \<notin> email ` set (users s)
       \<and> nu = \<lparr>nu_fullname = the (r_fullname b), nu_email = the (r_email b),
                nu_phoneNumber = the (r_phoneNumber b), nu_password = hash (the (r_password b))\<rparr>"
  using assms
  by (auto simp: register_check_def find_user_by_email_None_iff split: if_splits)

lemma register_check_Inl_store:
  "register_check hash b s = Inl r \<Longrightarrow> register hash b s = (r, s)"
  by (simp add: register_def)

lemma register_commit_store:
  "snd (register_commit nu s) = s \<or> (\<exists>u. user_insert nu s = Inr (u, snd (register_commit nu s)))"
  by (auto simp: register_commit_def split: sum.split)

lemma register_store:
  "snd (register hash b s) = s \<or> (\<exists>nu u. user_insert nu s = Inr (u, snd (register hash b s)))"
  using register_commit_store [of _ s] by (auto simp: register_def split: sum.split)

lemma register_inv:
  "users_inv s \<Longrightarrow> users_inv (snd (register hash b s))"
  using register_store [of hash b s] by (auto intro: user_insert_inv)

lemma register_tasks:
  "tasks (snd (register hash b s)) = tasks s \<and> clock (snd (register hash b s)) = clock s"
  using register_store [of hash b s] by (auto dest: user_insert_tasks)

lemma register_roles:
  "list_all (\<lambda>u. role u = ''user'') (users s) \<Longrightarrow>
   list_all (\<lambda>u. role u = ''user'') (users (snd (register hash b s)))"
  using register_store [of hash b s] by (auto dest: user_insert_Inr)

lemma login_Json200:
  assumes "login check sign b s = Json 200 ok m p"
  shows "\<exists>e pw u. lg_email b = Some e \<and> lg_password b = Some pw \<and> e \<noteq> [] \<and> pw \<noteq> []
           \<and> find_user_by_email e (users s) = Some u \<and> check pw (password u)"
  using assms
  by (auto simp: login_def err_def truthy_iff Let_def split: if_splits option.splits)

subsection \<open>The reference token scheme\<close>

lemma hex_fixed_2: "hex_fixed 2 n = [hex_digit (n div 16 mod 16), hex_digit (n mod 16)]"
  by (simp add: numeral_2_eq_2)

lemma dec_enc_str [simp]: "dec_str (enc_str s) = s"
proof (induction s)
  case Nil
  then show ?case by (simp add: enc_str_def)
next
  case (Cons c s)
  have "nat_of_hex (hex_fixed 2 (of_char c)) = of_char c"
    using nat_of_char_less_256 [of c] by (simp add: nat_of_hex_fixed)
  with Cons show ?case by (simp add: enc_str_def hex_fixed_2)
qed

lemma enc_str_hex: "list_all is_hex_char (enc_str s)"
  by (induction s) (simp_all add: enc_str_def hex_fixed_hex_chars)

lemma not_hex_dot [simp]: "\<not> is_hex_char CHR ''.''" and not_hex_space [simp]: "\<not> is_hex_char CHR '' ''"
  and not_hex_s [simp]: "\<not> is_hex_char CHR ''s''" and not_hex_n [simp]: "\<not> is_hex_char CHR ''n''"
  by (simp_all add: is_hex_char_def)

lemma hex_no_char: "list_all is_hex_char xs \<Longrightarrow> \<not> is_hex_char c \<Longrightarrow> c \<notin> set xs"
  by (auto simp: list_all_iff)

lemma enc_str_no: "\<not> is_hex_char c \<Longrightarrow> c \<notin> set (enc_str s)"
  by (rule hex_no_char [OF enc_str_hex])

lemma enc_opt_no: "\<not> is_hex_char c \<Longrightarrow> c \<noteq> CHR ''s'' \<Longrightarrow> c \<noteq> CHR ''n'' \<Longrightarrow> c \<notin> set (enc_opt x)"
  by (cases x) (auto dest: enc_str_no)

lemma dec_enc_opt [simp]: "dec_opt (enc_opt x) = x"
  by (cases x) (simp_all add: dec_opt_def)

lemma enc_str_inj: "enc_str k = enc_str k' \<longleftrightarrow> k = k'"
  by (metis dec_enc_str)

lemma ref_verify_sign: "ref_verify k (ref_sign k' c) = (if k = k' then Some c else None)"
proof -
  have "js_split CHR ''.'' (ref_sign k' c) = [enc_str k', enc_opt (cl_userId c), enc_opt (cl_role c)]"
    unfolding ref_sign_def
    by (simp add: js_split_append_sep js_split_no_sep enc_str_no enc_opt_no)
  then show ?thesis by (simp add: ref_verify_def enc_str_inj)
qed

lemma ref_sign_no_space: "CHR '' '' \<notin> set (ref_sign k c)"
  by (simp add: ref_sign_def enc_str_no enc_opt_no)

subsection \<open>Outcomes of register and login\<close>

lemma register_Json200:
  assumes "register hash b s = (Json 200 ok m p, s')"
  shows "\<exists>nu u. register_check hash b s = Inr nu \<and> user_insert nu s = Inr (u, s')"
  using assms
  by (auto simp: register_def register_commit_def register_check_def err_def
           split: sum.splits if_splits)

lemma user_insert_dup:
  "nu_email nu \<in> email ` set (users s) \<Longrightarrow> \<exists>e. user_insert nu s = Inl e"
  by (auto simp: user_insert_def Let_def find_user_by_email_None_iff split: option.split)

lemma login_user:
  assumes "login check sign b s = Json 200 ok m (LoginData tok v)"
  shows "\<exists>e pw u. lg_email b = Some e \<and> lg_password b = Some pw \<and> e \<noteq> [] \<and> pw \<noteq> []
           \<and> find_user_by_email e (users s) = Some u \<and> check pw (password u) \<and> ok
           \<and> m = ''Welcome back '' @ fullname u \<and> tok = sign ''Krishna'' (token_data u)
           \<and> v = \<lparr>l_id = u_id u, l_fullname = fullname u, l_email = email u,
                   l_phoneNumber = phoneNumber u, l_profile = profile u, l_role = role u\<rparr>"
  using assms
  by (auto simp: login_def err_def truthy_iff Let_def split: if_splits option.splits)

lemma token_data_sel [simp]:
  "cl_userId (token_data u) = Some (u_id u)" "cl_role (token_data u) = Some (role u)"
  by (simp_all add: token_data_def)

lemma user_valid_claims:
  "user_valid u \<Longrightarrow> u_id u \<noteq> [] \<and> role u \<noteq> []"
  by (auto simp: user_valid_def validate_user_def is_object_id_def split: if_splits)

lemma users_inv_member:
  "users_inv s \<Longrightarrow> find_user_by_email e (users s) = Some u \<Longrightarrow> user_valid u"
  by (auto simp: users_inv_def list_all_iff dest: find_user_by_email_Some)

lemma db_a_inv: "users_inv db_a"
  by (simp add: users_inv_def user_valid_def validate_user_def auth_fixture_defs fixture_defs
                is_object_id_def is_hex_char_def)

section \<open>Properties of registration and login\<close>

text \<open>
  C24: registering an email that is already taken is refused with status 201,
  \<open>success: false\<close>, and the store unchanged; 201 is none of the
  specification's error classes.
\<close>

theorem register_existing_email:
  assumes "truthy (r_fullname b)" and "truthy (r_email b)" and "truthy (r_phoneNumber b)"
    and "truthy (r_password b)" and "the (r_email b) \<in> email ` set (users s)"
  shows "register hash b s = (Json 201 False ''user already exist'' NoData, s)
       \<and> error_kind_of (fst (register hash b s)) = None"
  using assms
  by (simp add: register_def register_check_def find_user_by_email_None_iff error_kind_of_def)

theorem register_existing_email_witness:
  "register demo_hash reg_alice db_a = (Json 201 False ''user already exist'' NoData, db_a)
   \<and> error_kind_of (fst (register demo_hash reg_alice db_a)) = None"
  by (rule register_existing_email) (simp_all add: auth_fixture_defs)

text \<open>
  C25: a successful registration appends exactly one user: a fresh identifier,
  the request's name, email and phone number, the hash of the password (never
  the password itself unless the hash is the identity), the role \<open>user\<close> and
  no profile; the email was not taken, and the tasks are untouched.
\<close>

theorem register_creates_user:
  assumes "register hash b s = (Json 200 ok m p, s')"
  shows "users s' = users s @ [\<lparr>u_id = oid_of_nat (id_seq s), fullname = the (r_fullname b),
            email = the (r_email b), phoneNumber = the (r_phoneNumber b),
            password = hash (the (r_password b)), role = ''user'', profile = None\<rparr>]
       \<and> the (r_email b) \<notin> email ` set (users s) \<and> tasks s' = tasks s"
proof -
  obtain nu u where c: "register_check hash b s = Inr nu" and i: "user_insert nu s = Inr (u, s')"
    using register_Json200 [OF assms] by blast
  show ?thesis using register_check_Inr [OF c] user_insert_Inr [OF i] by simp
qed

theorem register_creates_user_witness:
  "users (snd (register demo_hash reg_bob db_a)) = users db_a @
     [\<lparr>u_id = oid_of_nat (id_seq db_a), fullname = the (r_fullname reg_bob),
       email = the (r_email reg_bob), phoneNumber = the (r_phoneNumber reg_bob),
       password = demo_hash (the (r_password reg_bob)), role = ''user'', profile = None\<rparr>]
   \<and> the (r_email reg_bob) \<notin> email ` set (users db_a)
   \<and> tasks (snd (register demo_hash reg_bob db_a)) = tasks db_a"
  by (rule register_creates_user [of _ _ _ True "''Account created successfuly''" NoData])
     (simp add: register_def register_check_def register_commit_def user_insert_def
                validate_user_def find_user_by_email_def auth_fixture_defs fixture_defs
                oid_of_nat_2 is_object_id_def is_hex_char_def Let_def)

text \<open>
  C26: a registration with every field present, an email not yet taken and a
  non-empty password hash succeeds, when the store's next identifier is free.
\<close>

theorem register_succeeds:
  assumes "truthy (r_fullname b)" and "truthy (r_email b)" and "truthy (r_phoneNumber b)"
    and "truthy (r_password b)" and "the (r_email b) \<notin> email ` set (users s)"
    and "hash (the (r_password b)) \<noteq> []" and "oid_of_nat (id_seq s) \<notin> u_id ` set (users s)"
  shows "fst (register hash b s) = Json 200 True ''Account created successfuly'' NoData"
  using assms
  by (auto simp: register_def register_check_def register_commit_def user_insert_def
                 validate_user_def find_user_by_email_None_iff find_None_iff truthy_iff Let_def)
     (metis image_eqI)

theorem register_succeeds_witness:
  "fst (register demo_hash reg_bob db_a) = Json 200 True ''Account created successfuly'' NoData"
  by (rule register_succeeds)
     (simp_all add: auth_fixture_defs fixture_defs oid_of_nat_2)

text \<open>
  C27: two registrations with the same email that both pass the check before
  either writes (the store is read at line 15 and written at line 24): when the
  first write succeeds, the second write is refused by the unique index, its
  error is caught and logged, and no response is ever sent to the second
  client; had it arrived after the first, it would have been answered 201.
\<close>

theorem register_duplicate_race:
  assumes "register_check h1 b1 s = Inr n1" and "register_check h2 b2 s = Inr n2"
    and "r_email b1 = r_email b2" and "register_commit n1 s = (Json 200 ok m p, s1)"
  shows "register_commit n2 s1 = (NoResponse, s1)
       \<and> register h2 b2 s1 = (Json 201 False ''user already exist'' NoData, s1)"
proof -
  obtain u where i: "user_insert n1 s = Inr (u, s1)"
    using assms(4) by (auto simp: register_commit_def split: sum.splits)
  have c1: "nu_email n1 = the (r_email b1)" using register_check_Inr [OF assms(1)] by simp
  have c2: "nu_email n2 = the (r_email b2)" and t2: "truthy (r_fullname b2) \<and> truthy (r_email b2)
      \<and> truthy (r_phoneNumber b2) \<and> truthy (r_password b2)"
    using register_check_Inr [OF assms(2)] by simp_all
  have "u \<in> set (users s1) \<and> email u = nu_email n1" using user_insert_Inr [OF i] by simp
  then have taken: "nu_email n2 \<in> email ` set (users s1)" using c1 c2 assms(3) by force
  obtain e where "user_insert n2 s1 = Inl e" using user_insert_dup [OF taken] by blast
  then have "register_commit n2 s1 = (NoResponse, s1)" by (simp add: register_commit_def)
  moreover have "register h2 b2 s1 = (Json 201 False ''user already exist'' NoData, s1)"
    using t2 taken c2
    by (simp add: register_def register_check_def find_user_by_email_None_iff)
  ultimately show ?thesis by simp
qed

theorem register_duplicate_race_witness:
  "register_commit
     (projr (register_check demo_hash (reg_bob\<lparr>r_fullname := Some ''Rob''\<rparr>) db_a))
     (snd (register_commit (projr (register_check demo_hash reg_bob db_a)) db_a))
   = (NoResponse, snd (register_commit (projr (register_check demo_hash reg_bob db_a)) db_a))
   \<and> register demo_hash (reg_bob\<lparr>r_fullname := Some ''Rob''\<rparr>)
       (snd (register_commit (projr (register_check demo_hash reg_bob db_a)) db_a))
     = (Json 201 False ''user already exist'' NoData,
        snd (register_commit (projr (register_check demo_hash reg_bob db_a)) db_a))"
  by (rule register_duplicate_race
        [of demo_hash reg_bob db_a "projr (register_check demo_hash reg_bob db_a)" demo_hash
            "reg_bob\<lparr>r_fullname := Some ''Rob''\<rparr>"
            "projr (register_check demo_hash (reg_bob\<lparr>r_fullname := Some ''Rob''\<rparr>) db_a)"
            True "''Account created successfuly''" NoData])
     (simp_all add: register_check_def register_commit_def user_insert_def validate_user_def
        find_user_by_email_def auth_fixture_defs fixture_defs oid_of_nat_2 is_object_id_def
        is_hex_char_def Let_def)

text \<open>
  C28: login answers 200 exactly when an email and a password are given, a user
  with that email exists and the password matches its hash; the reply greets
  that user, returns its public fields, and carries a token signed with the
  constant key \<open>Krishna\<close> over the user's identifier and role.
\<close>

theorem login_ok_iff:
  "login check sign b s = Json 200 ok m (LoginData tok v) \<longleftrightarrow>
   (\<exists>e pw u. lg_email b = Some e \<and> lg_password b = Some pw \<and> e \<noteq> [] \<and> pw \<noteq> []
      \<and> find_user_by_email e (users s) = Some u \<and> check pw (password u) \<and> ok
      \<and> m = ''Welcome back '' @ fullname u \<and> tok = sign ''Krishna'' (token_data u)
      \<and> v = \<lparr>l_id = u_id u, l_fullname = fullname u, l_email = email u,
              l_phoneNumber = phoneNumber u, l_profile = profile u, l_role = role u\<rparr>)"
proof
  assume "login check sign b s = Json 200 ok m (LoginData tok v)"
  then show "\<exists>e pw u. lg_email b = Some e \<and> lg_password b = Some pw \<and> e \<noteq> [] \<and> pw \<noteq> []
      \<and> find_user_by_email e (users s) = Some u \<and> check pw (password u) \<and> ok
      \<and> m = ''Welcome back '' @ fullname u \<and> tok = sign ''Krishna'' (token_data u)
      \<and> v = \<lparr>l_id = u_id u, l_fullname = fullname u, l_email = email u,
              l_phoneNumber = phoneNumber u, l_profile = profile u, l_role = role u\<rparr>"
    by (rule login_user)
qed (auto simp: login_def)

text \<open>
  Once both fields are given, a failed login gives the same answer whether
  the email is unknown or the password is wrong, so it does not reveal which
  emails are registered.
\<close>

theorem login_failure_uniform:
  assumes "truthy (lg_email b)" and "truthy (lg_password b)"
  shows "login check sign b s = err 400 ''Incorrect email or password''
       \<or> resp_code (login check sign b s) = Some 200"
  using assms by (auto simp: login_def Let_def split: option.split)

theorem login_failure_uniform_witness:
  "login demo_check ref_sign \<lparr>lg_email = Some ''bob@example.com'', lg_password = Some ''pw1''\<rparr> db_a
     = err 400 ''Incorrect email or password''
   \<or> resp_code (login demo_check ref_sign
        \<lparr>lg_email = Some ''bob@example.com'', lg_password = Some ''pw1''\<rparr> db_a) = Some 200"
  by (rule login_failure_uniform) simp_all

text \<open>
  C30: \<open>login\<close> signs with the constant \<open>Krishna\<close> while \<open>isAuthenticated\<close>
  verifies with \<open>process.env.SECRET_KEY\<close>.  With a token library whose
  tokens verify exactly under the key that signed them and contain no space,
  a token just issued by \<open>login\<close> is accepted by the middleware, as the
  logged-in user, exactly when \<open>SECRET_KEY\<close> is \<open>Krishna\<close>; under any other
  key, every request with it is rejected as an invalid token.
\<close>

theorem login_token_fixed_key:
  assumes sound: "\<And>k c. verify k (sign ''Krishna'' c) = (if k = ''Krishna'' then Some c else None)"
    and nospace: "\<And>c. CHR '' '' \<notin> set (sign ''Krishna'' c)"
    and inv: "users_inv s" and ok: "login check sign b s = Json 200 ok m (LoginData tok v)"
  shows "isAuthenticated verify sk (Some (''Bearer '' @ tok)) =
           (if sk = Some ''Krishna'' then Inr \<lparr>c_id = l_id v, c_role = l_role v\<rparr>
            else Inl (err 401 ''Invalid or expired token''))"
proof -
  obtain e u where f: "find_user_by_email e (users s) = Some u"
    and t: "tok = sign ''Krishna'' (token_data u)" and v: "l_id v = u_id u \<and> l_role v = role u"
    using login_user [OF ok] by auto
  have cv: "u_id u \<noteq> [] \<and> role u \<noteq> []" by (rule user_valid_claims [OF users_inv_member [OF inv f]])
  have tw: "takeWhile (\<lambda>x. x \<noteq> CHR '' '') (sign ''Krishna'' (token_data u)) = sign ''Krishna'' (token_data u)"
    using nospace [of "token_data u"] by (auto simp: takeWhile_eq_all_conv)
  show ?thesis
    unfolding isAuthenticated_bearer t tw using cv by (cases sk) (simp_all add: sound v)
qed

theorem login_token_fixed_key_witness:
  "isAuthenticated ref_verify (Some ''S'') (Some (''Bearer '' @ ref_sign ''Krishna'' (token_data alice))) =
     (if Some ''S'' = Some ''Krishna''
      then Inr \<lparr>c_id = l_id \<lparr>l_id = u_id alice, l_fullname = fullname alice, l_email = email alice,
                    l_phoneNumber = phoneNumber alice, l_profile = profile alice, l_role = role alice\<rparr>,
                c_role = l_role \<lparr>l_id = u_id alice, l_fullname = fullname alice, l_email = email alice,
                    l_phoneNumber = phoneNumber alice, l_profile = profile alice, l_role = role alice\<rparr>\<rparr>
      else Inl (err 401 ''Invalid or expired token''))"
  by (rule login_token_fixed_key [of ref_verify ref_sign db_a demo_check login_alice True
        "''Welcome back Alice''", OF ref_verify_sign ref_sign_no_space db_a_inv])
     (simp add: login_def token_data_def find_user_by_email_def auth_fixture_defs)

text \<open>
  C31: with a password check that accepts a password against its own hash,
  logging in right after a successful registration with the same email and
  password succeeds as the new user, with role \<open>user\<close>.
\<close>

theorem register_then_login:
  assumes hc: "\<And>x. check x (hash x)" and inv: "users_inv s"
    and r: "register hash b s = (Json 200 ok m p, s')"
  shows "login check sign \<lparr>lg_email = r_email b, lg_password = r_password b\<rparr> s' =
           Json 200 True (''Welcome back '' @ the (r_fullname b))
             (LoginData (sign ''Krishna'' \<lparr>cl_userId = Some (oid_of_nat (id_seq s)), cl_role = Some ''user''\<rparr>)
                \<lparr>l_id = oid_of_nat (id_seq s), l_fullname = the (r_fullname b), l_email = the (r_email b),
                 l_phoneNumber = the (r_phoneNumber b), l_profile = None, l_role = ''user''\<rparr>)"
proof -
  obtain nu u where c: "register_check hash b s = Inr nu" and i: "user_insert nu s = Inr (u, s')"
    using register_Json200 [OF r] by blast
  note ci = register_check_Inr [OF c] and ui = user_insert_Inr [OF i]
  have "users_inv s'" by (rule user_insert_inv [OF inv i])
  then have "find_user_by_email (email u) (users s') = Some u"
    using ui by (intro find_user_by_email_member) (simp_all add: users_inv_def)
  with ci ui hc show ?thesis
    by (auto simp: login_def token_data_def truthy_iff)
qed

theorem register_then_login_witness:
  "login demo_check ref_sign \<lparr>lg_email = r_email reg_bob, lg_password = r_password reg_bob\<rparr>
     (snd (register demo_hash reg_bob db_a)) =
   Json 200 True (''Welcome back '' @ the (r_fullname reg_bob))
     (LoginData (ref_sign ''Krishna'' \<lparr>cl_userId = Some (oid_of_nat (id_seq db_a)), cl_role = Some ''user''\<rparr>)
        \<lparr>l_id = oid_of_nat (id_seq db_a), l_fullname = the (r_fullname reg_bob),
         l_email = the (r_email reg_bob), l_phoneNumber = the (r_phoneNumber reg_bob),
         l_profile = None, l_role = ''user''\<rparr>)"
  by (rule register_then_login [of demo_check demo_hash db_a reg_bob True
        "''Account created successfuly''" NoData _ ref_sign, OF _ db_a_inv])
     (simp_all add: demo_check_def register_def register_check_def register_commit_def
        user_insert_def validate_user_def find_user_by_email_def auth_fixture_defs fixture_defs
        oid_of_nat_2 is_object_id_def is_hex_char_def Let_def)

end
