(* ===== verification/Regex.thy ===== *)
theory Regex
  imports TaskController
begin

text \<open>
  A reference engine for the keyword filter of \<open>getAllTasks\<close>
  (task.controller.js, lines 90--95), which hands the keyword to MongoDB as
  \<open>{$regex: keyword, $options: "i"}\<close>.  MongoDB's engine is a library, so it
  stays a parameter of the handler; this theory gives one executable instance
  of it for the regular-expression fragment that a search box most often
  produces: literal characters, \<open>.\<close> (any character but a newline), the
  quantifiers \<open>*\<close>, \<open>+\<close>, \<open>?\<close>, the anchors \<open>^\<close> and \<open>$\<close>, and a
  backslash before a character that is not a letter or digit.  Case is folded
  as the \<open>i\<close> option folds it.  The engine refuses (\<open>None\<close>) the two
  errors PCRE reports inside this fragment, a trailing backslash and a
  quantifier with nothing to repeat, and every pattern outside the fragment
  (groups, classes, alternation, braces, escaped letters, a quantifier after an
  anchor or another quantifier).
  The matcher backtracks over the quantifiers; it is a \<open>function\<close> whose
  termination is the lexicographic measure (length of the text, length of the
  pattern).
\<close>

datatype ratom = RChar char | RAny

datatype ritem = One ratom | Star ratom | Plus ratom | Opt ratom | Bol | Eol

datatype rtok = TAtom ratom | TQuant char | TBol | TEol | TBad

section \<open>Parsing\<close>

text \<open>The metacharacters of PCRE outside a character class.\<close>

definition meta_codes :: "nat list" where
  "meta_codes = [92, 94, 36, 46, 124, 63, 42, 43, 40, 41, 91, 93, 123, 125]"

definition is_meta :: "char \<Rightarrow> bool" where
  "is_meta c = (of_char c \<in> set meta_codes)"

definition is_alnum :: "char \<Rightarrow> bool" where
  "is_alnum c =
     (let n = (of_char c :: nat) in (48 \<le> n \<and> n \<le> 57) \<or> (65 \<le> n \<and> n \<le> 90) \<or> (97 \<le> n \<and> n \<le> 122))"

definition tok_of :: "char \<Rightarrow> rtok" where
  "tok_of c =
     (let n = (of_char c :: nat) in
      if n = 46 then TAtom RAny
      else if n = 42 \<or> n = 43 \<or> n = 63 then TQuant c
      else if n = 94 then TBol
      else if n = 36 then TEol
      else if is_meta c then TBad
      else TAtom (RChar c))"

fun rx_tok :: "string \<Rightarrow> rtok list option" where
  "rx_tok [] = Some []"
| "rx_tok (c # cs) =
     (if of_char c = (92::nat)
      then (case cs of
              [] \<Rightarrow> None
            | d # ds \<Rightarrow> (if is_alnum d then None else map_option (Cons (TAtom (RChar d))) (rx_tok ds)))
      else map_option (Cons (tok_of c)) (rx_tok cs))"

definition quant :: "char \<Rightarrow> ratom \<Rightarrow> ritem" where
  "quant q a = (if of_char q = (42::nat) then Star a else if of_char q = (43::nat) then Plus a else Opt a)"

fun rx_items :: "rtok list \<Rightarrow> ritem list option" where
  "rx_items [] = Some []"
| "rx_items (TAtom a # TQuant q # ts) = map_option (Cons (quant q a)) (rx_items ts)"
| "rx_items (TAtom a # ts) = map_option (Cons (One a)) (rx_items ts)"
| "rx_items (TBol # ts) = map_option (Cons Bol) (rx_items ts)"
| "rx_items (TEol # ts) = map_option (Cons Eol) (rx_items ts)"
| "rx_items (TQuant q # ts) = None"
| "rx_items (TBad # ts) = None"

definition rx_parse :: "string \<Rightarrow> ritem list option" where
  "rx_parse kw = (case rx_tok kw of None \<Rightarrow> None | Some ts \<Rightarrow> rx_items ts)"

section \<open>Matching\<close>

fun amatch :: "ratom \<Rightarrow> char \<Rightarrow> bool" where
  "amatch (RChar d) c = (lower_char d = lower_char c)"
| "amatch RAny c = (c \<noteq> CHR ''\<newline>'')"

text \<open>
  \<open>rx_at st ps s\<close>: the items \<open>ps\<close> match a prefix of \<open>s\<close>; \<open>st\<close> says
  whether \<open>s\<close> starts the subject (for \<open>^\<close>).  \<open>$\<close> matches at the end of
  the subject or before a final newline.
\<close>

function rx_at :: "bool \<Rightarrow> ritem list \<Rightarrow> string \<Rightarrow> bool" where
  "rx_at st [] s = True"
| "rx_at st (Bol # ps) s = (st \<and> rx_at st ps s)"
| "rx_at st (Eol # ps) s = ((s = [] \<or> s = [CHR ''\<newline>'']) \<and> rx_at st ps s)"
| "rx_at st (One a # ps) [] = False"
| "rx_at st (One a # ps) (c # s) = (amatch a c \<and> rx_at False ps s)"
| "rx_at st (Opt a # ps) s =
     (rx_at st ps s \<or> (case s of [] \<Rightarrow> False | c # s' \<Rightarrow> amatch a c \<and> rx_at False ps s'))"
| "rx_at st (Star a # ps) s =
     (rx_at st ps s \<or> (case s of [] \<Rightarrow> False | c # s' \<Rightarrow> amatch a c \<and> rx_at False (Star a # ps) s'))"
| "rx_at st (Plus a # ps) [] = False"
| "rx_at st (Plus a # ps) (c # s) = (amatch a c \<and> rx_at False (Star a # ps) s)"
  by pat_completeness auto
termination
  by (relation "measures [\<lambda>(st, ps, s). length s, \<lambda>(st, ps, s). length ps]") auto

text \<open>An unanchored search tries every suffix of the subject.\<close>

fun rx_search :: "ritem list \<Rightarrow> bool \<Rightarrow> string \<Rightarrow> bool" where
  "rx_search ps st [] = rx_at st ps []"
| "rx_search ps st (c # s) = (rx_at st ps (c # s) \<or> rx_search ps False s)"

definition mongo_regex :: regex_engine where
  "mongo_regex kw = map_option (\<lambda>ps s. rx_search ps True s) (rx_parse kw)"

section \<open>Lemmas\<close>

lemma tok_of_plain: "\<not> is_meta c \<Longrightarrow> tok_of c = TAtom (RChar c)"
  by (auto simp: tok_of_def is_meta_def meta_codes_def Let_def)

lemma rx_tok_plain: "list_all (\<lambda>c. \<not> is_meta c) kw \<Longrightarrow> rx_tok kw = Some (map (TAtom \<circ> RChar) kw)"
  by (induction kw) (auto simp: tok_of_plain is_meta_def meta_codes_def)

lemma rx_items_atoms: "rx_items (map (TAtom \<circ> RChar) kw) = Some (map (One \<circ> RChar) kw)"
proof (induction kw)
  case Nil
  then show ?case by simp
next
  case (Cons c kw)
  then show ?case by (cases kw) simp_all
qed

lemma rx_parse_plain:
  "list_all (\<lambda>c. \<not> is_meta c) kw \<Longrightarrow> rx_parse kw = Some (map (One \<circ> RChar) kw)"
  by (simp add: rx_parse_def rx_tok_plain rx_items_atoms)

lemma rx_at_lits:
  "rx_at st (map (One \<circ> RChar) kw) s \<longleftrightarrow> is_prefix_of (lower kw) (lower s)"
proof (induction kw arbitrary: st s)
  case Nil
  then show ?case by (simp add: lower_def)
next
  case (Cons d kw)
  then show ?case by (cases s) (simp_all add: lower_def)
qed

lemma rx_search_lits:
  "rx_search (map (One \<circ> RChar) kw) st s \<longleftrightarrow> contains_at_some (lower kw) (lower s)"
  by (induction s arbitrary: st) (simp_all add: rx_at_lits lower_def)

lemma mongo_regex_plain:
  "list_all (\<lambda>c. \<not> is_meta c) kw \<Longrightarrow> mongo_regex kw = literal_rx kw"
  by (auto simp: mongo_regex_def literal_rx_def rx_parse_plain rx_search_lits ci_contains_code)

section \<open>Properties of the keyword filter\<close>

text \<open>
  A keyword is a pattern, not a literal: \<open>i.voice\<close> finds the task titled
  \<open>Invoice\<close>, which the substring test of the specification does not.
\<close>

theorem regex_keyword_not_literal:
  "map title (listed (getAllTasks mongo_regex admin0 (Some ''i.voice'') db1)) = [''Invoice'']
   \<and> getAllTasks literal_rx admin0 (Some ''i.voice'') db1 = err 404 ''Tasks not found''"
  by code_simp

text \<open>
  C33: a keyword the store refuses as a pattern makes the query throw; the
  handler's \<open>catch\<close> answers 500, the specification's InternalFault, instead
  of a ValidationError.
\<close>

theorem getAllTasks_invalid_pattern:
  assumes "rx (or_empty k) = None"
  shows "getAllTasks rx c k s = err 500 ''Internal server error''
       \<and> error_kind_of (getAllTasks rx c k s) = Some InternalFault"
  using assms by (simp add: getAllTasks_def error_kind_of_def err_def)

theorem getAllTasks_invalid_pattern_witness:
  "getAllTasks mongo_regex user1 (Some ''*voice'') db1 = err 500 ''Internal server error''
   \<and> error_kind_of (getAllTasks mongo_regex user1 (Some ''*voice'') db1) = Some InternalFault"
  by (rule getAllTasks_invalid_pattern) code_simp

end
