(* ===== verification/Refinement.thy ===== *)
theory Refinement
  imports TaskController
begin

text \<open>
  The task collection as the specification sees it (section 6: a store with
  insert, find by identifier, update and delete) is a finite map from
  identifiers to tasks.  \<open>abs_tasks\<close> reads the list the handlers work on as
  that map, and the repository operations of Store.thy implement the map
  operations (the \<open>Map\<close> interface of the Isabelle library's data-structure
  specifications: lookup after update and after delete).  On top of it, the
  access rule of section 4.1 for a non-admin's update is written as an
  operation on the map, and the handler \<open>updateTask\<close> refines it: the
  abstraction of the handler's new store is the abstract operation applied to
  the abstraction of the old one.
\<close>

definition abs_tasks :: "task list \<Rightarrow> tid \<rightharpoonup> task" where
  "abs_tasks ts = map_of (map (\<lambda>t. (t_id t, t)) ts)"

text \<open>
  Section 4.1, update by a non-admin: the creator may set the status, which
  refreshes \<open>updatedAt\<close>; nothing else changes, and nobody else changes anything.
\<close>

definition spec_set_status ::
  "caller \<Rightarrow> tid \<Rightarrow> status \<Rightarrow> nat \<Rightarrow> (tid \<rightharpoonup> task) \<Rightarrow> (tid \<rightharpoonup> task)" where
  "spec_set_status c i st now m =
     (case m i of
        None \<Rightarrow> m
      | Some t \<Rightarrow> (if createdBy t = c_id c then m(i \<mapsto> t\<lparr>status := st, updatedAt := now\<rparr>) else m))"

section \<open>The list store implements the map\<close>

lemma find_by_id_abs: "find_by_id i ts = abs_tasks ts i"
  by (induction ts) (auto simp: find_by_id_def abs_tasks_def)

lemma abs_tasks_append_new:
  "find_by_id (t_id t) ts = None \<Longrightarrow> abs_tasks (ts @ [t]) = (abs_tasks ts)(t_id t \<mapsto> t)"
  by (auto simp: find_by_id_abs abs_tasks_def fun_eq_iff map_add_def split: option.split)

lemma abs_tasks_filter: "abs_tasks (filter (\<lambda>x. t_id x \<noteq> i) ts) = (abs_tasks ts)(i := None)"
  by (induction ts) (auto simp: abs_tasks_def fun_eq_iff)

lemma abs_tasks_Nil [simp]: "abs_tasks [] = Map.empty"
  and abs_tasks_Cons [simp]: "abs_tasks (x # xs) = (abs_tasks xs)(t_id x \<mapsto> x)"
  by (simp_all add: abs_tasks_def)

lemma abs_tasks_replace_absent:
  "i \<notin> t_id ` set ts \<Longrightarrow> map (\<lambda>x. if t_id x = i then u else x) ts = ts"
  by (induction ts) auto

lemma abs_tasks_replace:
  assumes "t_id u = i" and "i \<in> t_id ` set ts"
  shows "abs_tasks (map (\<lambda>x. if t_id x = i then u else x) ts) = (abs_tasks ts)(i \<mapsto> u)"
  using assms(2)
proof (induction ts)
  case Nil
  then show ?case by simp
next
  case (Cons x xs)
  show ?case
  proof (cases "i \<in> t_id ` set xs")
    case True
    with Cons.IH assms(1) show ?thesis by (auto simp: fun_upd_twist)
  next
    case False
    with Cons.prems have "t_id x = i" by simp
    with False assms(1) show ?thesis by (simp add: abs_tasks_replace_absent fun_eq_iff)
  qed
qed

lemma task_insert_abs:
  "task_insert nt s = Inr (t, s') \<Longrightarrow>
   abs_tasks (tasks s') = (abs_tasks (tasks s))(t_id t \<mapsto> t) \<and> abs_tasks (tasks s) (t_id t) = None"
  by (drule task_insert_Inr) (simp add: abs_tasks_append_new find_by_id_abs [symmetric])

lemma task_save_abs:
  "task_save t s = Inr s' \<Longrightarrow> abs_tasks (tasks s') = (abs_tasks (tasks s))(t_id t \<mapsto> t)"
  by (drule task_save_Inr) (auto simp: abs_tasks_replace find_by_id_None_iff)

lemma find_by_id_and_delete_abs:
  "abs_tasks (tasks (snd (find_by_id_and_delete i s))) = (abs_tasks (tasks s))(i := None)"
proof (cases "find_by_id i (tasks s)")
  case None
  then have "abs_tasks (tasks s) i = None" by (simp add: find_by_id_abs)
  with None show ?thesis by (auto simp: find_by_id_and_delete_def fun_eq_iff)
next
  case (Some t)
  then show ?thesis by (simp add: find_by_id_and_delete_def abs_tasks_filter)
qed

section \<open>The handlers refine the access rules\<close>

text \<open>
  C34: on a well-formed store, a non-admin's \<open>updateTask\<close> implements the
  specification's status-only update on the abstract store: a request without
  a valid status changes nothing, and one with a valid status sets it (and the
  update time) on the caller's own task and on no other.
\<close>

theorem updateTask_user_refines:
  assumes inv: "store_inv s" and usr: "c_role c \<noteq> ''admin''"
  shows "abs_tasks (tasks (snd (updateTask c i b s))) =
           (case requested_status b of
              None \<Rightarrow> abs_tasks (tasks s)
            | Some st \<Rightarrow> spec_set_status c i st (clock s) (abs_tasks (tasks s)))"
proof (cases "find_by_id i (tasks s)")
  case None
  then have "abs_tasks (tasks s) i = None" by (simp add: find_by_id_abs)
  with None show ?thesis
    by (simp add: updateTask_user_cases [OF inv usr] spec_set_status_def split: option.split)
next
  case (Some t)
  then have m: "abs_tasks (tasks s) i = Some t" and ti: "t_id t = i" and "i \<in> t_id ` set (tasks s)"
    by (auto simp: find_by_id_abs [symmetric] dest: find_by_id_Some)
  then have "abs_tasks (map (\<lambda>x. if t_id x = i then t\<lparr>status := st, updatedAt := clock s\<rparr> else x) (tasks s))
      = (abs_tasks (tasks s))(i \<mapsto> t\<lparr>status := st, updatedAt := clock s\<rparr>)" for st
    by (intro abs_tasks_replace) simp_all
  with Some m show ?thesis
    by (simp add: updateTask_user_cases [OF inv usr] spec_set_status_def split: option.split)
qed

theorem updateTask_user_refines_witness:
  "abs_tasks (tasks (snd (updateTask user1 (t_id taskA) body_completed db1))) =
     (case requested_status body_completed of
        None \<Rightarrow> abs_tasks (tasks db1)
      | Some st \<Rightarrow> spec_set_status user1 (t_id taskA) st (clock db1) (abs_tasks (tasks db1)))"
  by (rule updateTask_user_refines [OF db1_inv]) (simp add: user1_def)

end
