(* ===== verification/Concurrency.thy ===== *)
theory Concurrency
  imports TaskController
begin

text \<open>
  \<open>updateTask\<close> (task.controller.js, lines 162--225) awaits the store twice:
  \<open>Task.findById\<close> at line 168 and \<open>task.save()\<close> at line 211.  Other requests
  may run in between, so the handler is split there: \<open>updateTask_prepare\<close>
  (lines 164--208) reads the task, runs the checks and changes the document in
  memory, \<open>updateTask_commit\<close> (lines 210--224) stamps it and saves it.
  Mongoose's \<open>save()\<close> of a loaded document sends only the paths changed
  since it was loaded (\<open>task_save_paths\<close>, a \<open>$set\<close> of those paths; from
  the specification, section 5: last write wins per field, no torn document).
  Run back to back on one state the two halves are exactly \<open>updateTask\<close>;
  interleaved, they show which of two concurrent updates survives.
\<close>

text \<open>
  The checks and in-memory writes: the early response (\<open>Inl\<close>), or the
  document as loaded and as changed (\<open>Inr\<close>).
\<close>

definition updateTask_prepare :: "caller \<Rightarrow> tid \<Rightarrow> task_body \<Rightarrow> db \<Rightarrow> response + (task \<times> task)" where
  "updateTask_prepare c i b s =
     (case find_by_id i (tasks s) of
        None \<Rightarrow> Inl (err 404 ''Task not found'')
      | Some t \<Rightarrow>
          (if c_role c \<noteq> ''admin'' \<and> createdBy t \<noteq> c_id c then Inl (err 403 ''Access denied'')
           else if c_role c \<noteq> ''admin'' then
             (if \<not> truthy (b_status b) \<or> \<not> includes_status (b_status b)
              then Inl (err 400 ''Invalid or missing status. Only status update is allowed.'')
              else Inr (t, t\<lparr>status := the (status_of_string (the (b_status b)))\<rparr>))
           else if truthy (b_status b) \<and> \<not> includes_status (b_status b)
           then Inl (err 400 ''Invalid status value.'')
           else Inr (t, admin_update b t)))"

text \<open>
  The document the store holds after a \<open>$set\<close> of the paths that \<open>new\<close>
  changed relative to \<open>orig\<close>, applied to the current document \<open>cur\<close>.
\<close>

definition merge_paths :: "task \<Rightarrow> task \<Rightarrow> task \<Rightarrow> task" where
  "merge_paths orig new cur =
     cur\<lparr>title := (if title new \<noteq> title orig then title new else title cur),
         description := (if description new \<noteq> description orig then description new else description cur),
         status := (if status new \<noteq> status orig then status new else status cur),
         priority := (if priority new \<noteq> priority orig then priority new else priority cur),
         dueDate := (if dueDate new \<noteq> dueDate orig then dueDate new else dueDate cur),
         tags := (if tags new \<noteq> tags orig then tags new else tags cur),
         assignedTo := (if assignedTo new \<noteq> assignedTo orig then assignedTo new else assignedTo cur),
         updatedAt := (if updatedAt new \<noteq> updatedAt orig then updatedAt new else updatedAt cur)\<rparr>"

text \<open>
  \<open>task.save()\<close> of a document loaded as \<open>orig\<close>: the in-memory document is
  validated, the update matches the stored document by identifier (none left:
  \<open>DocumentNotFound\<close>), and the changed paths are written into it.
\<close>

definition task_save_paths :: "task \<Rightarrow> task \<Rightarrow> db \<Rightarrow> store_error + db" where
  "task_save_paths orig t s =
     (case validate_task t of
        Some e \<Rightarrow> Inl e
      | None \<Rightarrow>
          (case find_by_id (t_id t) (tasks s) of
             None \<Rightarrow> Inl DocumentNotFound
           | Some cur \<Rightarrow>
               Inr (s\<lparr>tasks := map (\<lambda>x. if t_id x = t_id t then merge_paths orig t cur else x) (tasks s)\<rparr>)))"

definition updateTask_commit :: "task \<Rightarrow> task \<Rightarrow> db \<Rightarrow> response \<times> db" where
  "updateTask_commit orig t s =
     (let t' = t\<lparr>updatedAt := clock s\<rparr> in
      case task_save_paths orig t' s of
        Inl e \<Rightarrow> (err 500 ''Internal server error'', s)
      | Inr s' \<Rightarrow> (Json 200 True ''Task updated successfully'' (OneTask t'), s'))"

text \<open>Fixtures: the admin renames task A while its creator marks it completed.\<close>

definition body_rename :: task_body where
  "body_rename = empty_body\<lparr>b_title := Some ''Invoice 2''\<rparr>"

definition renamedA :: task where
  "renamedA = taskA\<lparr>title := ''Invoice 2''\<rparr>"

definition completedA :: task where
  "completedA = taskA\<lparr>status := Completed\<rparr>"

section \<open>Lemmas\<close>

lemma merge_paths_same:
  "t_id t = t_id t0 \<Longrightarrow> createdBy t = createdBy t0 \<Longrightarrow> createdAt t = createdAt t0 \<Longrightarrow>
   merge_paths t0 t t0 = t"
  by (cases t, cases t0) (simp add: merge_paths_def)

lemma updateTask_prepare_Inr:
  assumes "updateTask_prepare c i b s = Inr (t0, t)"
  shows "find_by_id i (tasks s) = Some t0 \<and> t_id t = t_id t0 \<and> createdBy t = createdBy t0
       \<and> createdAt t = createdAt t0"
  using assms
  by (auto simp: updateTask_prepare_def split: option.splits if_splits)

text \<open>Saving right after loading, with nothing in between, is the plain \<open>task.save()\<close>.\<close>

lemma task_save_paths_fresh:
  assumes "find_by_id (t_id t) (tasks s) = Some t0" and "t_id t = t_id t0"
    and "createdBy t = createdBy t0" and "createdAt t = createdAt t0"
  shows "task_save_paths t0 t s = task_save t s"
  using assms merge_paths_same [of t t0]
  by (simp add: task_save_paths_def task_save_def split: option.split)

lemma task_save_paths_ok:
  assumes dist: "distinct (map t_id (tasks s))" and cur: "find_by_id (t_id t) (tasks s) = Some c"
    and v: "task_valid t"
  shows "\<exists>s'. task_save_paths orig t s = Inr s'
           \<and> find_by_id (t_id t) (tasks s') = Some (merge_paths orig t c)
           \<and> distinct (map t_id (tasks s')) \<and> clock s' = clock s"
proof -
  have ci: "t_id c = t_id t" using cur by (auto dest: find_by_id_Some)
  then have mi: "t_id (merge_paths orig t c) = t_id t" by (simp add: merge_paths_def)
  let ?s' = "s\<lparr>tasks := map (\<lambda>x. if t_id x = t_id t then merge_paths orig t c else x) (tasks s)\<rparr>"
  have "task_save_paths orig t s = Inr ?s'"
    using cur v by (simp add: task_save_paths_def task_valid_def)
  moreover have "find_by_id (t_id t) (tasks ?s') = Some (merge_paths orig t c)"
    using find_by_id_replace [OF dist, of "merge_paths orig t c" "t_id t"] cur mi by simp
  moreover have ts: "tasks ?s' = map (\<lambda>x. if t_id x = t_id t then merge_paths orig t c else x) (tasks s)"
    by simp
  have eq: "map t_id (tasks ?s') = map t_id (tasks s)"
    by (simp only: ts map_map map_replace_key [of t_id "merge_paths orig t c" "t_id t" "tasks s", OF mi])
  then have "distinct (map t_id (tasks ?s'))" by (simp only: eq dist)
  moreover note ts
  ultimately show ?thesis by auto
qed

section \<open>Properties\<close>

text \<open>
  The two halves of \<open>updateTask\<close>, run back to back on one state, are
  \<open>updateTask\<close>: saving only the changed paths of a document nobody touched
  since it was read is saving the whole document.
\<close>

theorem updateTask_split:
  "updateTask c i b s =
     (case updateTask_prepare c i b s of
        Inl r \<Rightarrow> (r, s)
      | Inr (t0, t) \<Rightarrow> updateTask_commit t0 t s)"
proof (cases "updateTask_prepare c i b s")
  case (Inl r)
  then show ?thesis
    by (auto simp: updateTask_prepare_def updateTask_def split: option.splits if_splits)
next
  case (Inr p)
  obtain t0 t where p: "p = (t0, t)" by (cases p)
  note P = updateTask_prepare_Inr [OF Inr [unfolded p]]
  have i0: "t_id t0 = i" using P by (auto dest: find_by_id_Some)
  have u: "updateTask c i b s = save_and_reply t s"
    using Inr p by (auto simp: updateTask_prepare_def updateTask_def split: option.splits if_splits)
  have "updateTask_commit t0 t s = save_and_reply t s"
    using P i0 task_save_paths_fresh [of "t\<lparr>updatedAt := clock s\<rparr>" s t0]
    by (simp add: updateTask_commit_def save_and_reply_def Let_def)
  with u Inr p show ?thesis by simp
qed

text \<open>
  C29: two updates of one task that both read it before either saves.  Both
  requests are answered 200 with the document each wrote, and the store ends
  with, field by field, the second writer's value where it changed the field
  and otherwise the first writer's: a field only one of them changed is kept,
  a field both changed holds the last write, and the first caller's change to
  it is lost although it was acknowledged.
\<close>

theorem concurrent_updates:
  assumes inv: "store_inv s"
    and p1: "updateTask_prepare c1 i b1 s = Inr (t0, t1)" and p2: "updateTask_prepare c2 i b2 s = Inr (t0', t2)"
    and v1: "task_valid (t1\<lparr>updatedAt := clock s\<rparr>)" and v2: "task_valid (t2\<lparr>updatedAt := clock s\<rparr>)"
    and k1: "updateTask_commit t0 t1 s = (r1, s1)" and k2: "updateTask_commit t0' t2 s1 = (r2, s2)"
  shows "r1 = Json 200 True ''Task updated successfully'' (OneTask (t1\<lparr>updatedAt := clock s\<rparr>))
       \<and> r2 = Json 200 True ''Task updated successfully'' (OneTask (t2\<lparr>updatedAt := clock s\<rparr>))
       \<and> (\<exists>tf. find_by_id i (tasks s2) = Some tf
            \<and> title tf = (if title t2 \<noteq> title t0 then title t2 else title t1)
            \<and> description tf = (if description t2 \<noteq> description t0 then description t2 else description t1)
            \<and> status tf = (if status t2 \<noteq> status t0 then status t2 else status t1)
            \<and> priority tf = (if priority t2 \<noteq> priority t0 then priority t2 else priority t1)
            \<and> dueDate tf = (if dueDate t2 \<noteq> dueDate t0 then dueDate t2 else dueDate t1)
            \<and> tags tf = (if tags t2 \<noteq> tags t0 then tags t2 else tags t1)
            \<and> assignedTo tf = (if assignedTo t2 \<noteq> assignedTo t0 then assignedTo t2 else assignedTo t1))"
proof -
  note P1 = updateTask_prepare_Inr [OF p1] and P2 = updateTask_prepare_Inr [OF p2]
  have t0: "t0' = t0" using P1 P2 by simp
  have dist: "distinct (map t_id (tasks s))" using inv by (simp add: store_inv_def)
  let ?u1 = "t1\<lparr>updatedAt := clock s\<rparr>"
  have i0: "t_id t0 = i" using P1 by (auto dest: find_by_id_Some)
  have f1: "find_by_id (t_id ?u1) (tasks s) = Some t0" using P1 i0 by simp
  obtain s1' where S1: "task_save_paths t0 ?u1 s = Inr s1'"
    and F1: "find_by_id (t_id ?u1) (tasks s1') = Some (merge_paths t0 ?u1 t0)"
    and D1: "distinct (map t_id (tasks s1'))" and C1: "clock s1' = clock s"
    using task_save_paths_ok [OF dist f1 v1] by blast
  have r1: "r1 = Json 200 True ''Task updated successfully'' (OneTask ?u1)" and s1: "s1 = s1'"
    using k1 S1 by (simp_all add: updateTask_commit_def)
  have m1: "merge_paths t0 ?u1 t0 = ?u1" using P1 by (intro merge_paths_same) simp_all
  let ?u2 = "t2\<lparr>updatedAt := clock s\<rparr>"
  have f2: "find_by_id (t_id ?u2) (tasks s1) = Some ?u1" using F1 m1 P1 P2 s1 by simp
  obtain s2' where S2: "task_save_paths t0 ?u2 s1 = Inr s2'"
    and F2: "find_by_id (t_id ?u2) (tasks s2') = Some (merge_paths t0 ?u2 ?u1)"
    using task_save_paths_ok [OF _ f2 v2] D1 s1 by blast
  have r2: "r2 = Json 200 True ''Task updated successfully'' (OneTask ?u2)" and s2: "s2 = s2'"
    using k2 S2 C1 s1 t0 by (simp_all add: updateTask_commit_def)
  have "find_by_id i (tasks s2) = Some (merge_paths t0 ?u2 ?u1)" using F2 s2 P2 i0 t0 by simp
  with r1 r2 show ?thesis by (simp add: merge_paths_def)
qed

theorem concurrent_updates_witness:
  "fst (updateTask_commit taskA renamedA db1)
     = Json 200 True ''Task updated successfully'' (OneTask (renamedA\<lparr>updatedAt := clock db1\<rparr>))
   \<and> fst (updateTask_commit taskA completedA (snd (updateTask_commit taskA renamedA db1)))
     = Json 200 True ''Task updated successfully'' (OneTask (completedA\<lparr>updatedAt := clock db1\<rparr>))
   \<and> (\<exists>tf. find_by_id (t_id taskA)
             (tasks (snd (updateTask_commit taskA completedA (snd (updateTask_commit taskA renamedA db1)))))
           = Some tf
        \<and> title tf = (if title completedA \<noteq> title taskA then title completedA else title renamedA)
        \<and> description tf = (if description completedA \<noteq> description taskA then description completedA
                            else description renamedA)
        \<and> status tf = (if status completedA \<noteq> status taskA then status completedA else status renamedA)
        \<and> priority tf = (if priority completedA \<noteq> priority taskA then priority completedA else priority renamedA)
        \<and> dueDate tf = (if dueDate completedA \<noteq> dueDate taskA then dueDate completedA else dueDate renamedA)
        \<and> tags tf = (if tags completedA \<noteq> tags taskA then tags completedA else tags renamedA)
        \<and> assignedTo tf = (if assignedTo completedA \<noteq> assignedTo taskA then assignedTo completedA
                           else assignedTo renamedA))"
  by (rule concurrent_updates
        [of db1 admin0 "t_id taskA" body_rename taskA renamedA user1 body_completed taskA completedA
            "fst (updateTask_commit taskA renamedA db1)" "snd (updateTask_commit taskA renamedA db1)"
            "fst (updateTask_commit taskA completedA (snd (updateTask_commit taskA renamedA db1)))"
            "snd (updateTask_commit taskA completedA (snd (updateTask_commit taskA renamedA db1)))",
         OF db1_inv])
     (simp_all add: updateTask_prepare_def renamedA_def completedA_def body_rename_def find_by_id_def
        admin_update_def includes_status_def allowed_statuses_def status_of_string_def task_valid_def
        validate_task_def is_object_id_def is_hex_char_def fixture_defs)

end
