(* ===== verification/Spec2Isabelle.thy ===== *)
theory Spec2Isabelle
  imports App AuthController Regex Refinement Concurrency
begin

text \<open>
  \<^bold>\<open>A verification model of back_manager, a role-scoped task-management backend\<close>

  \<^bold>\<open>The program.\<close>  An Express server (src/index.js) mounts the task router
  (src/router/task.route.js) under \<open>/api/v1/task\<close> and an authentication
  router under \<open>/api/v1/auth\<close>.  Every task route first runs the middleware
  \<open>isAuthenticated\<close> (src/middleware/isAuthenticated.js), which turns a
  \<open>Bearer\<close> token into \<open>req.user = {id, role}\<close>, and then one of the seven
  handlers of src/controllers/task.controller.js, which read and write the
  MongoDB collections through Mongoose.  src/controllers/auth.controller.js
  registers users and issues the tokens.

  \<^bold>\<open>The theories.\<close>
  \<^item> \<open>Prelude\<close>: identifier types, the JavaScript built-ins the code relies on
    (truthiness of request fields, \<open>startsWith\<close>, \<open>split\<close>, \<open>x || ""\<close>,
    ASCII case folding) as executable functions, and lemmas on lists keyed by
    an identifier.
  \<^item> \<open>Store\<close>: the document store, modelled from the specification because
    the Mongoose schemas are not under src/: the \<open>task\<close> and \<open>user\<close>
    records, the \<open>status\<close> enumeration, ObjectIds as 24 hexadecimal digits
    drawn from a counter (\<open>oid_of_nat\<close>, with its decoding \<open>nat_of_hex\<close>),
    the repository operations \<open>find_by_id\<close>, \<open>find_tasks\<close>,
    \<open>count_documents\<close>, \<open>task_insert\<close> (\<open>Task.create\<close>), \<open>task_save\<close>
    (\<open>task.save()\<close>) and \<open>find_by_id_and_delete\<close>, each returning the
    store's error as an \<open>Inl\<close>.  A collection is a list in insertion order.
    \<open>store_inv\<close> (unique identifiers, every stored task valid) is the store's
    well-formedness, and every write keeps it.  Validation (\<open>validate_task\<close>)
    checks the title, the shape of \<open>assignedTo\<close> and \<open>createdBy\<close>, and
    casts \<open>dueDate\<close> to the schema's Date type (\<open>date_ok\<close>, \<open>is_date\<close>).
    \<open>User.create\<close> (\<open>user_insert\<close>) gives a new user the role \<open>user\<close>:
    register passes no role, and neither the specification nor src/ states
    the schema's default, so this is an assumption of the model.
  \<^item> \<open>Http\<close>: the caller (\<open>req.user\<close>), request bodies, the JSON
    responses (status code, \<open>success\<close>, \<open>message\<close>, data) and the
    specification's error classes as a reading of the status code.
  \<^item> \<open>Fixtures\<close>: concrete users, tasks and a store used to instantiate the
    theorems.
  \<^item> \<open>TaskController\<close>: \<open>getAllUsers\<close>, \<open>getTaskCounts\<close>, \<open>CreateTask\<close>,
    \<open>getAllTasks\<close>, \<open>getTaskById\<close>, \<open>updateTask\<close> and \<open>deleteTask\<close>, one
    definition each, with every early \<open>return res.status(..)\<close> as a branch,
    and the visibility predicate \<open>match_query\<close>.  The keyword filter of
    \<open>getAllTasks\<close> is MongoDB's \<open>$regex\<close>: the regular-expression engine
    is the parameter \<open>rx\<close> (a \<open>regex_engine\<close>: \<open>None\<close> when the store
    rejects the pattern, and the handler's \<open>catch\<close> answers 500); the
    theorems hold for every engine, and the fixtures use \<open>literal_rx\<close>, the
    case-insensitive substring test of the specification.  Claims C1--C10,
    C13, C14; C9 is the 500 an admin gets for a due date that is not a date.
  \<^item> \<open>Middleware\<close>: \<open>isAuthenticated\<close>; the token library is the parameter
    \<open>verify\<close> and \<open>process.env.SECRET_KEY\<close> an optional string.  C15.
  \<^item> \<open>Router\<close>: the route table, \<open>handle_request\<close> (middleware, then
    handler), what each request may change (\<open>keeps f s s'\<close>: every task
    of \<open>s\<close> still stored in \<open>s'\<close> kept its field \<open>f\<close>); every
    response of the server is a JSON answer whose code is one the source uses
    and whose \<open>success\<close> agrees with it (\<open>resp_typed\<close>, C16).
  \<^item> \<open>App\<close>: the Express application of src/index.js (lines 11--29),
    \<open>app_handle\<close>, as its layers in registration order: the route
    \<open>GET /\<close>, the JSON and form body parsers, \<open>cors\<close> (which answers the
    preflight \<open>OPTIONS\<close> itself), the authentication mount, the task mount,
    and Express's final 404.  The task router's stack (\<open>task_routes\<close>,
    task.route.js lines 14--20) is walked by \<open>router_walk\<close> with Express's
    default path matching: case-insensitive, an optional trailing slash, a
    mount ending at a segment boundary (\<open>mount\<close>), \<open>:id\<close> one non-empty
    segment (\<open>match_param\<close>) decoded by the parameter \<open>dec\<close> before the
    method is checked, GET routes answering HEAD.  A matched request goes to
    \<open>handle_request\<close> (C11); URLs printed from routes parse back (C32); the
    greeting and the body parser's 400 are the only answers without CORS
    headers (C21); any authenticated caller, whatever its role, gets the
    whole user directory with every user's email (C23).
  \<^item> \<open>AuthController\<close>: src/controllers/auth.controller.js.  \<open>register\<close>
    is split at its store write into \<open>register_check\<close> (lines 7--22) and
    \<open>register_commit\<close> (lines 24--36), so that two registrations can
    interleave; \<open>login\<close> (lines 39--105) with \<open>token_data\<close>.  bcrypt and
    jsonwebtoken are parameters (\<open>hash\<close>, \<open>check\<close>, \<open>sign\<close>); an
    executable token scheme (\<open>ref_sign\<close>, \<open>ref_verify\<close>, with its
    round trip) instantiates them.  The user collection and \<open>User.create\<close>
    with its unique email index are in Store.thy.  C24--C28, C30, C31.
  \<^item> \<open>Regex\<close>: a reference \<open>$regex\<close> engine for a fragment of PCRE
    (literals, \<open>.\<close>, \<open>* + ?\<close>, \<open>^ $\<close>, escaped punctuation; case folded);
    the backtracking matcher \<open>rx_at\<close> is a \<open>function\<close> terminating by the
    measure (length of text, length of pattern).  It agrees with the
    substring test on keywords without metacharacters (\<open>mongo_regex_plain\<close>).
    A pattern the store refuses is answered 500 (C33).
  \<^item> \<open>Refinement\<close>: the task list read as a map (\<open>abs_tasks\<close>); the
    repository operations implement the map's update and delete, and
    a non-admin's \<open>updateTask\<close> refines the status-only update of section
    4.1 written on the map (C34).
  \<^item> \<open>Concurrency\<close>: \<open>updateTask\<close> split at its awaits into
    \<open>updateTask_prepare\<close> (the read and the access checks, lines 164--208)
    and \<open>updateTask_commit\<close> (the stamp and \<open>task.save()\<close>, lines
    210--224), with \<open>save()\<close> writing only the modified paths of the loaded
    document onto the current one (\<open>merge_paths\<close>, \<open>task_save_paths\<close>).
    Back to back the halves are \<open>updateTask\<close> (\<open>updateTask_split\<close>);
    two updates of one task
    that both read before either writes both succeed, and a field both changed
    keeps only the second write (C29, the lost update).
  \<^item> this theory: requests in sequence (\<open>run_requests\<close>), the server as a
    step relation \<open>sys_step\<close> (a task request, a registration with any
    password hash, or the clock advancing; \<open>login\<close> writes nothing), its
    reachable states from the empty store, and the properties that span
    components: the store invariant and the timestamp order in every reachable
    state, the immutability of a task's creator, that a non-admin request can
    change nothing but a status, that an unauthenticated request has no
    effect, C17--C20; that the listing answers 404 exactly when nothing
    visible matches, C22 (the scenarios of the specification's section 8 and
    the non-admin assignment on creation are theorems computed on fixtures);
    and, as a liveness property, that in
    every reachable state the creator of a task holding a valid token can take
    a step that completes it (C12).

  \<^bold>\<open>What the lemmas show.\<close>  Listing and counting use the same visibility
  predicate (admin, creator or assignee) and the counts partition the visible
  tasks by status; reading and updating one task use the narrower creator-only
  rule (C13 records the asymmetry); a non-admin's update changes at most the
  status and \<open>updatedAt\<close> of the task addressed; deletes are admin-only;
  creation forces the creator to the caller; every handler keeps the store
  well formed; failures are values with the status codes of the source.
  Registration creates regular users with unique emails; a duplicate email is
  answered 201, and a duplicate that races past the check is never answered
  (C27); login tokens are signed with the constant key \<open>Krishna\<close>, so the
  middleware accepts them only when \<open>SECRET_KEY\<close> is that key (C30).

  \<^bold>\<open>Bounds and fuel.\<close>  No definition needs fuel: every handler is
  non-recursive, the list functions recurse structurally, and the regular
  expression matcher terminates by a lexicographic measure.  The store's
  identifiers stand in for the driver's ObjectIds: the counter modulo
  \<open>16^24\<close> (\<open>oid_of_nat\<close>), and the store's unique index turns a
  repeated identifier into \<open>DuplicateKey\<close> instead of a second document, so
  identifier uniqueness holds without a bound.

  \<^bold>\<open>Not modelled.\<close>  Password hashing and token signing/verification are
  external libraries and appear only as parameters; token expiry is part of
  \<open>verify\<close>; the cookie \<open>login\<close> sets is read by no route.  MongoDB's
  regular-expression engine is a parameter; the reference engine covers a
  fragment only.  Of src/index.js, \<open>app.listen\<close>, the \<open>PORT\<close>
  choice and the database connection are I/O; \<open>cookieParser\<close> changes
  nothing a route reads; of the CORS headers only their presence is
  recorded; the query string is reduced to the \<open>keyword\<close> parameter as a
  string (a repeated parameter, which Express turns into an array, is not
  modelled); the body parsers' content-type dispatch is reduced to absent,
  parsed or malformed; Express 4's \<open>req.body = {}\<close> for an absent body is
  assumed.  The auth router and the Mongoose schemas are not among the
  sources: the auth router is the parameter \<open>auth\<close> of \<open>app_handle\<close>, and
  the schemas follow the specification.  Identifiers are compared as strings:
  Mongoose casts an id to an ObjectId first, so a malformed id makes the real
  query throw (the handlers' \<open>catch\<close> answers 500 where the model answers
  404) and an id in upper-case hexadecimal finds the task stored under its
  lower-case form, which the model does not.  The \<open>dueDate\<close> cast
  recognises only the ISO 8601 forms; other strings JavaScript's date parser
  accepts are refused by the model, so C10 is stated for ISO dates and C9 for
  strings without a digit, which the parser never accepts.  Store faults other
  than validation, duplicate keys and missing documents are not modelled; the step relation runs requests one at a
  time, and the interleavings studied are the two halves of \<open>register\<close>
  and of \<open>updateTask\<close>.  The source has no loop, so no termination
  property concerns it; the one recursion that is not structural is the
  reference matcher's, whose \<open>termination\<close> proof is in Regex.thy.

  \<^bold>\<open>Open work.\<close>  The regex fragment has no declarative semantics against
  which the matcher is proved correct; the auth router's routes, once its file
  is available, would instantiate \<open>auth\<close>.
\<close>

section \<open>The server as a sequence of requests\<close>

type_synonym verifier = "string \<Rightarrow> string \<Rightarrow> jwt_claims option"
type_synonym matcher = regex_engine

fun run_requests :: "verifier \<Rightarrow> matcher \<Rightarrow> string option \<Rightarrow> request list \<Rightarrow> db \<Rightarrow> db" where
  "run_requests v rx k [] s = s"
| "run_requests v rx k (q # qs) s = run_requests v rx k qs (snd (handle_request v rx k q s))"

definition empty_db :: db where
  "empty_db = \<lparr>tasks = [], users = [], id_seq = 0, clock = 0\<rparr>"

inductive sys_step :: "verifier \<Rightarrow> matcher \<Rightarrow> string option \<Rightarrow> db \<Rightarrow> db \<Rightarrow> bool"
  for v :: verifier and rx :: matcher and k :: "string option" where
  request: "handle_request v rx k rq s = (r, s') \<Longrightarrow> sys_step v rx k s s'"
| register: "register h b s = (r, s') \<Longrightarrow> sys_step v rx k s s'"
| tick: "sys_step v rx k s (s\<lparr>clock := Suc (clock s)\<rparr>)"

inductive reachable :: "verifier \<Rightarrow> matcher \<Rightarrow> string option \<Rightarrow> db \<Rightarrow> bool"
  for v :: verifier and rx :: matcher and k :: "string option" where
  init: "reachable v rx k empty_db"
| step: "reachable v rx k s \<Longrightarrow> sys_step v rx k s s' \<Longrightarrow> reachable v rx k s'"

inductive_cases sys_step_cases: "sys_step v rx k s s'"

section \<open>A token verifier and requests for the scenarios\<close>

text \<open>
  A verifier for the scenarios: under the key \<open>S\<close> it knows one token per
  fixture user.
\<close>

definition demo_verify :: verifier where
  "demo_verify k tok =
     (if k \<noteq> ''S'' then None
      else if tok = ''tok1'' then Some \<lparr>cl_userId = Some uid1, cl_role = Some ''user''\<rparr>
      else if tok = ''tok2'' then Some \<lparr>cl_userId = Some uid2, cl_role = Some ''user''\<rparr>
      else if tok = ''tok3'' then Some \<lparr>cl_userId = Some uid3, cl_role = Some ''user''\<rparr>
      else if tok = ''tok0'' then Some \<lparr>cl_userId = Some uid0, cl_role = Some ''admin''\<rparr>
      else None)"

definition req :: "string \<Rightarrow> route \<Rightarrow> task_body \<Rightarrow> request" where
  "req tok r b = \<lparr>rq_authorization = Some (''Bearer '' @ tok), rq_route = r, rq_body = b,
                  rq_keyword = None\<rparr>"

text \<open>
  Section 8's counting scenario: user 1 creates two pending tasks and one
  completed task, the admin creates an in-progress task assigned to user 1 and
  another task of its own.
\<close>

definition counts_scenario :: "request list" where
  "counts_scenario =
     [req ''tok1'' RCreateTask (empty_body\<lparr>b_title := Some ''a''\<rparr>),
      req ''tok1'' RCreateTask (empty_body\<lparr>b_title := Some ''b''\<rparr>),
      req ''tok1'' RCreateTask (empty_body\<lparr>b_title := Some ''c'', b_status := Some ''completed''\<rparr>),
      req ''tok0'' RCreateTask (empty_body\<lparr>b_title := Some ''d'', b_status := Some ''in-progress'',
                                            b_assignedTo := Some uid1\<rparr>),
      req ''tok0'' RCreateTask (empty_body\<lparr>b_title := Some ''e''\<rparr>)]"

text \<open>Section 8's assignment scenario: the admin creates a task assigned to user 2.\<close>

definition assign_scenario :: "request list" where
  "assign_scenario =
     [req ''tok0'' RCreateTask (empty_body\<lparr>b_title := Some ''Review'', b_assignedTo := Some uid2\<rparr>)]"

text \<open>A regular user creates a task assigned to another user.\<close>

definition user_assign_scenario :: "request list" where
  "user_assign_scenario =
     [req ''tok1'' RCreateTask (empty_body\<lparr>b_title := Some ''Chore'', b_assignedTo := Some uid2\<rparr>)]"

section \<open>Invariants of the running server\<close>

lemma sys_step_inv:
  assumes "store_inv s" and "timestamps_ok s" and "sys_step v rx k s s'"
  shows "store_inv s' \<and> timestamps_ok s'"
  using assms(3)
proof (cases rule: sys_step.cases)
  case (request rq r)
  from handle_request_cases [OF this] show ?thesis
  proof
    assume "\<exists>e. isAuthenticated v k (rq_authorization rq) = Inl e \<and> r = e \<and> s' = s"
    with assms(1,2) show ?thesis by auto
  next
    assume "\<exists>c. isAuthenticated v k (rq_authorization rq) = Inr c \<and> dispatch rx c rq s = (r, s')"
    then obtain c where d: "dispatch rx c rq s = (r, s')" by blast
    from assms(1) d have "store_inv s'" by (rule dispatch_inv)
    moreover from assms(1,2) d have "timestamps_ok s'" by (rule dispatch_timestamps)
    ultimately show ?thesis ..
  qed
next
  case (register h b r)
  then have "tasks s' = tasks s \<and> clock s' = clock s" using register_tasks [of h b s] by simp
  with assms(1,2) show ?thesis by (simp add: store_inv_def timestamps_ok_def)
next
  case tick
  with assms(1,2) show ?thesis by (simp add: store_inv_def timestamps_ok_clock)
qed

lemma reachable_sys_inv: "reachable v rx k s \<Longrightarrow> store_inv s \<and> timestamps_ok s"
proof (induction rule: reachable.induct)
  case init
  show ?case by (simp add: empty_db_def store_inv_def timestamps_ok_def)
next
  case (step s s')
  from step.IH have "store_inv s" and "timestamps_ok s" by simp_all
  then show ?case using step.hyps(2) by (rule sys_step_inv)
qed

lemma authenticated_user1:
  "isAuthenticated demo_verify (Some ''S'') (rq_authorization (req ''tok1'' r b)) = Inr user1"
  unfolding req_def request.select_convs isAuthenticated_bearer
  by (simp add: demo_verify_def fixture_defs)

text \<open>
  C17: in every state the server can reach from the empty store, task
  identifiers are unique, every stored task passed validation, and every task
  satisfies \<open>createdAt \<le> updatedAt \<le> now\<close>.
\<close>

theorem reachable_wellformed:
  assumes "reachable v rx k s"
  shows "distinct (map t_id (tasks s)) \<and> list_all task_valid (tasks s)
       \<and> list_all (\<lambda>t. createdAt t \<le> updatedAt t \<and> updatedAt t \<le> clock s) (tasks s)"
  using reachable_sys_inv [OF assms] by (simp add: store_inv_def timestamps_ok_def)

theorem reachable_wellformed_witness:
  "distinct (map t_id (tasks (snd (handle_request demo_verify literal_rx (Some ''S'')
                                      (req ''tok1'' RCreateTask body_new) empty_db))))
   \<and> list_all task_valid (tasks (snd (handle_request demo_verify literal_rx (Some ''S'')
                                      (req ''tok1'' RCreateTask body_new) empty_db)))
   \<and> list_all (\<lambda>t. createdAt t \<le> updatedAt t
                  \<and> updatedAt t \<le> clock (snd (handle_request demo_verify literal_rx (Some ''S'')
                                              (req ''tok1'' RCreateTask body_new) empty_db)))
       (tasks (snd (handle_request demo_verify literal_rx (Some ''S'')
                      (req ''tok1'' RCreateTask body_new) empty_db)))"
  by (rule reachable_wellformed
        [OF reachable.step [OF reachable.init sys_step.request [OF surjective_pairing]]])

text \<open>
  C18: no step of the server changes the creator or the creation time of a task
  that stays stored.
\<close>

theorem sys_step_keeps_creator:
  assumes "reachable v rx k s" and "sys_step v rx k s s'"
  shows "keeps createdBy s s' \<and> keeps createdAt s s'"
proof -
  have inv: "store_inv s" using reachable_sys_inv [OF assms(1)] by simp
  from assms(2) show ?thesis
  proof (cases rule: sys_step.cases)
    case (request rq r)
    from handle_request_cases [OF this] show ?thesis
    proof
      assume "\<exists>e. isAuthenticated v k (rq_authorization rq) = Inl e \<and> r = e \<and> s' = s"
      with inv show ?thesis by (auto simp: keeps_refl)
    next
      assume "\<exists>c. isAuthenticated v k (rq_authorization rq) = Inr c \<and> dispatch rx c rq s = (r, s')"
      then obtain c where "dispatch rx c rq s = (r, s')" by blast
      with inv show ?thesis by (rule dispatch_keeps_origin)
    qed
  next
    case (register h b r)
    then have "tasks s' = tasks s" using register_tasks [of h b s] by simp
    with inv show ?thesis by (simp add: keeps_tasks_cong [of s' s] keeps_refl)
  next
    case tick
    with inv show ?thesis by (simp add: keeps_def keeps_refl [unfolded keeps_def])
  qed
qed

theorem sys_step_keeps_creator_witness:
  "keeps createdBy empty_db (snd (handle_request demo_verify literal_rx (Some ''S'')
                                   (req ''tok1'' RCreateTask body_new) empty_db))
   \<and> keeps createdAt empty_db (snd (handle_request demo_verify literal_rx (Some ''S'')
                                   (req ''tok1'' RCreateTask body_new) empty_db))"
  by (rule sys_step_keeps_creator [OF reachable.init sys_step.request [OF surjective_pairing]])

text \<open>
  C19: a request of an authenticated non-admin changes, in every task that
  stays stored, nothing but the status and \<open>updatedAt\<close>: in particular never
  the assignee, the title or the creator.
\<close>

theorem user_request_keeps_fields:
  assumes "reachable v rx k s" and "isAuthenticated v k (rq_authorization rq) = Inr c"
    and "c_role c \<noteq> ''admin''" and "handle_request v rx k rq s = (r, s')"
  shows "keeps assignedTo s s' \<and> keeps title s s' \<and> keeps description s s'
       \<and> keeps priority s s' \<and> keeps dueDate s s' \<and> keeps tags s s' \<and> keeps createdBy s s'"
proof -
  have inv: "store_inv s" using reachable_sys_inv [OF assms(1)] by simp
  from assms(2,4) have d: "dispatch rx c rq s = (r, s')" by (simp add: handle_request_def)
  note dk = dispatch_user_keeps [OF inv assms(3) d]
  show ?thesis by (intro conjI dk) simp_all
qed

theorem user_request_keeps_fields_witness:
  "keeps assignedTo empty_db (snd (handle_request demo_verify literal_rx (Some ''S'')
                                    (req ''tok1'' RCreateTask body_new) empty_db))
   \<and> keeps title empty_db (snd (handle_request demo_verify literal_rx (Some ''S'')
                                    (req ''tok1'' RCreateTask body_new) empty_db))
   \<and> keeps description empty_db (snd (handle_request demo_verify literal_rx (Some ''S'')
                                    (req ''tok1'' RCreateTask body_new) empty_db))
   \<and> keeps priority empty_db (snd (handle_request demo_verify literal_rx (Some ''S'')
                                    (req ''tok1'' RCreateTask body_new) empty_db))
   \<and> keeps dueDate empty_db (snd (handle_request demo_verify literal_rx (Some ''S'')
                                    (req ''tok1'' RCreateTask body_new) empty_db))
   \<and> keeps tags empty_db (snd (handle_request demo_verify literal_rx (Some ''S'')
                                    (req ''tok1'' RCreateTask body_new) empty_db))
   \<and> keeps createdBy empty_db (snd (handle_request demo_verify literal_rx (Some ''S'')
                                    (req ''tok1'' RCreateTask body_new) empty_db))"
  by (rule user_request_keeps_fields [OF reachable.init authenticated_user1 _ surjective_pairing])
     (simp add: user1_def)

text \<open>
  C20: a request the middleware rejects is answered with 401 and leaves the
  store as it was, whatever the route.
\<close>

theorem unauthenticated_no_effect:
  assumes "isAuthenticated v k (rq_authorization rq) = Inl e"
  shows "handle_request v rx k rq s = (e, s) \<and> resp_code e = Some 401"
proof -
  have "resp_code e = Some 401"
    using assms by (auto simp: isAuthenticated_def Let_def err_def split: if_splits option.splits prod.splits)
  with assms show ?thesis by (simp add: handle_request_def)
qed

theorem unauthenticated_no_effect_witness:
  "handle_request demo_verify literal_rx (Some ''S'') (req ''bad'' (RDelete (t_id taskA)) empty_body) db1 =
     (err 401 ''Invalid or expired token'', db1)
   \<and> resp_code (err 401 ''Invalid or expired token'') = Some 401"
proof -
  have "isAuthenticated demo_verify (Some ''S'') (rq_authorization (req ''bad'' (RDelete (t_id taskA)) empty_body)) =
        Inl (err 401 ''Invalid or expired token'')"
    unfolding req_def request.select_convs isAuthenticated_bearer
    by (simp add: demo_verify_def)
  then show ?thesis by (rule unauthenticated_no_effect)
qed

section \<open>Scenarios of the specification\<close>

text \<open>
  After user 1 creates two pending tasks and a completed one and the admin
  creates an in-progress task assigned to user 1 and another of its own, user
  1's counts are four in all, two pending, one in progress, one completed.
\<close>

theorem counts_scenario_result:
  "getTaskCounts user1 (run_requests demo_verify literal_rx (Some ''S'') counts_scenario empty_db)
   = Json 200 True [] (Counts 4 2 1 1)"
  by code_simp

text \<open>
  After the admin creates a task assigned to user 2, user 2's listing shows
  it and the listing of an unrelated user 3 is NotFound.
\<close>

theorem assign_scenario_result:
  "map title (listed (getAllTasks literal_rx user2 None
      (run_requests demo_verify literal_rx (Some ''S'') assign_scenario empty_db))) = [''Review'']
   \<and> getAllTasks literal_rx user3 None
      (run_requests demo_verify literal_rx (Some ''S'') assign_scenario empty_db)
     = err 404 ''Tasks not found''"
  by code_simp

text \<open>
  C22: a listing is NotFound exactly when no stored task both matches the
  keyword and is visible to the caller, so an empty result is never an empty
  list.
\<close>

theorem getAllTasks_not_found_iff:
  "getAllTasks rx c k s = err 404 ''Tasks not found'' \<longleftrightarrow>
   (\<exists>m. rx (or_empty k) = Some m \<and>
      list_all (\<lambda>t. \<not> (keyword_query m t \<and> match_query c t)) (tasks s))"
  by (cases "rx (or_empty k)")
     (auto simp: getAllTasks_eq getAllTasks_rejected Let_def err_def filter_empty_conv list_all_iff)

theorem getAllTasks_not_found_iff_witness:
  "getAllTasks literal_rx user3 (Some ''invoice'') db1 = err 404 ''Tasks not found''"
  by (simp add: getAllTasks_not_found_iff literal_rx_def) (simp add: fixture_defs match_query_def)

section \<open>Findings\<close>

text \<open>
  A regular user can create a task assigned to another user, which then
  appears in that user's listing: nothing restricts \<open>assignedTo\<close> on creation
  to admins, although the specification says a non-admin may never set it.
\<close>

theorem user_assigns_on_create:
  "c_role user1 \<noteq> ''admin''
   \<and> map assignedTo (listed (getAllTasks literal_rx user2 None
        (run_requests demo_verify literal_rx (Some ''S'') user_assign_scenario empty_db)))
     = [Some uid2]"
  by code_simp

section \<open>Progress\<close>

text \<open>
  C12: a task's creator can always make progress on it: from every reachable
  state, with a token the middleware accepts for the creator (under either
  role), there is a step of the server after which the store holds the task
  marked completed and stamped with the current time.
\<close>

theorem creator_can_complete:
  assumes reach: "reachable v rx k s" and t: "t \<in> set (tasks s)"
    and key: "k = Some key" and tok: "v key tok = Some \<lparr>cl_userId = Some (createdBy t), cl_role = Some r\<rparr>"
    and r: "r \<noteq> []" and sp: "CHR '' '' \<notin> set tok"
  shows "\<exists>s'. sys_step v rx k s s'
           \<and> find_by_id (t_id t) (tasks s') = Some (t\<lparr>status := Completed, updatedAt := clock s\<rparr>)"
proof -
  have inv: "store_inv s" using reachable_sys_inv [OF reach] by simp
  have "task_valid t" by (rule stored_task_valid [OF inv t])
  then have cb: "createdBy t \<noteq> []" by (auto simp: task_valid_def validate_task_def is_object_id_def split: if_splits)
  have tw: "takeWhile (\<lambda>x. x \<noteq> CHR '' '') tok = tok" using sp by (auto simp: takeWhile_eq_all_conv)
  define c where "c = \<lparr>c_id = createdBy t, c_role = r\<rparr>"
  define rq where "rq = \<lparr>rq_authorization = Some (''Bearer '' @ tok), rq_route = RUpdate (t_id t),
                        rq_body = body_completed, rq_keyword = None\<rparr>"
  have auth: "isAuthenticated v k (rq_authorization rq) = Inr c"
    unfolding rq_def request.select_convs isAuthenticated_bearer tw using key tok r cb by (simp add: c_def)
  obtain r' where up: "updateTask c (t_id t) body_completed s =
      (r', s\<lparr>tasks := map (\<lambda>x. if t_id x = t_id t then t\<lparr>status := Completed, updatedAt := clock s\<rparr> else x)
                      (tasks s)\<rparr>)"
    using updateTask_complete [OF inv t, of c] by (auto simp: c_def)
  let ?s' = "s\<lparr>tasks := map (\<lambda>x. if t_id x = t_id t then t\<lparr>status := Completed, updatedAt := clock s\<rparr> else x)
                            (tasks s)\<rparr>"
  have "handle_request v rx k rq s = (r', ?s')"
    using auth up by (simp add: handle_request_def dispatch_def rq_def)
  then have "sys_step v rx k s ?s'" by (rule sys_step.request)
  moreover have "find_by_id (t_id t) (tasks ?s') = Some (t\<lparr>status := Completed, updatedAt := clock s\<rparr>)"
    using inv t find_by_id_replace [of "tasks s" "t\<lparr>status := Completed, updatedAt := clock s\<rparr>" "t_id t"]
    by (simp add: store_inv_def find_by_id_None_iff)
  ultimately show ?thesis by blast
qed

theorem creator_can_complete_witness:
  "\<exists>s'. sys_step demo_verify literal_rx (Some ''S'')
          (snd (handle_request demo_verify literal_rx (Some ''S'') (req ''tok1'' RCreateTask body_new) empty_db)) s'
     \<and> find_by_id (t_id (hd (tasks (snd (handle_request demo_verify literal_rx (Some ''S'')
                                        (req ''tok1'' RCreateTask body_new) empty_db)))))
          (tasks s') =
        Some ((hd (tasks (snd (handle_request demo_verify literal_rx (Some ''S'')
                                 (req ''tok1'' RCreateTask body_new) empty_db))))
              \<lparr>status := Completed,
                 updatedAt := clock (snd (handle_request demo_verify literal_rx (Some ''S'')
                                            (req ''tok1'' RCreateTask body_new) empty_db))\<rparr>)"
  by (rule creator_can_complete [where key = "''S''" and tok = "''tok1''" and r = "''user''",
        OF reachable.step [OF reachable.init sys_step.request [OF surjective_pairing]]])
     code_simp+

end
